theory Spec2Isabelle
  imports Main
begin

section \<open>JavaScript values the runner manipulates\<close>

text \<open>
  Strings are modelled as \<open>string\<close>. The runner only inspects ASCII text (hexadecimal
  addresses, English error messages), so \<open>toLowerCase\<close> is the ASCII case mapping.
\<close>

definition toLowerCase_char :: "char \<Rightarrow> char" where
  "toLowerCase_char c =
     (let n = (of_char c :: nat) in if 65 \<le> n \<and> n \<le> 90 then char_of (n + 32) else c)"

definition toLowerCase :: "string \<Rightarrow> string" where
  "toLowerCase s = map toLowerCase_char s"

definition startsWith :: "string \<Rightarrow> string \<Rightarrow> bool" where
  "startsWith s p = (take (length p) s = p)"

text \<open>\<open>s.includes(p)\<close>: \<open>p\<close> occurs in \<open>s\<close> as a contiguous substring.\<close>

primrec str_includes :: "string \<Rightarrow> string \<Rightarrow> bool" where
  "str_includes [] p = (p = [])"
| "str_includes (c # cs) p = (startsWith (c # cs) p \<or> str_includes cs p)"

text \<open>\<open>s.slice(0, n)\<close> for a non-negative \<open>n\<close>.\<close>

definition slice0 :: "nat \<Rightarrow> string \<Rightarrow> string" where
  "slice0 n s = take n s"

text \<open>Decimal rendering of a non-negative integer, as a template literal prints it.\<close>

definition digit_char :: "nat \<Rightarrow> char" where
  "digit_char d = char_of (48 + d)"

fun string_of_nat :: "nat \<Rightarrow> string" where
  "string_of_nat n =
     (if n < 10 then [digit_char n] else string_of_nat (n div 10) @ [digit_char (n mod 10)])"

definition string_of_bool :: "bool \<Rightarrow> string" where
  "string_of_bool b = (if b then ''true'' else ''false'')"

text \<open>
  An optional value inside a template literal: \<open>undefined\<close> prints as the word
  \<open>undefined\<close>.
\<close>

definition template_opt :: "('a \<Rightarrow> string) \<Rightarrow> 'a option \<Rightarrow> string" where
  "template_opt f v = (case v of None \<Rightarrow> ''undefined'' | Some x \<Rightarrow> f x)"

text \<open>Truthiness of an optional string: \<open>undefined\<close> and the empty string are falsy.\<close>

definition truthy :: "string option \<Rightarrow> bool" where
  "truthy v = (case v of None \<Rightarrow> False | Some s \<Rightarrow> s \<noteq> [])"

text \<open>\<open>a || b\<close> on optional strings.\<close>

definition or_else :: "string option \<Rightarrow> string option \<Rightarrow> string option" where
  "or_else a b = (if truthy a then a else b)"

text \<open>\<open>JSON.stringify\<close> of an array of non-negative integers.\<close>

fun join_commas :: "string list \<Rightarrow> string" where
  "join_commas [] = []"
| "join_commas [x] = x"
| "join_commas (x # y # ys) = x @ '','' @ join_commas (y # ys)"

definition stringify_numbers :: "nat list \<Rightarrow> string" where
  "stringify_numbers ns = ''['' @ join_commas (map string_of_nat ns) @ '']''"

text \<open>
  Everything the collaborators throw is an \<open>Error\<close> object: a value with a string
  \<open>message\<close>, which is all the runner ever reads of it.
\<close>

datatype js_error = JsError (message: string)

text \<open>
  The outcome of \<open>JSON.stringify(obj, replacer)\<close> on an object that is opaque to this
  repository (the transaction messages, the submission receipt): a text, \<open>undefined\<close>
  (for a value JSON cannot represent), or an exception (a cyclic structure).
\<close>

datatype stringified = Text string | Undefined | Raises js_error

subsection \<open>The address pattern \<open>/0x[a-fA-F0-9]{40}/g\<close>\<close>

definition is_hex :: "char \<Rightarrow> bool" where
  "is_hex c =
     (let n = (of_char c :: nat)
      in (48 \<le> n \<and> n \<le> 57) \<or> (65 \<le> n \<and> n \<le> 70) \<or> (97 \<le> n \<and> n \<le> 102))"

text \<open>The pattern matches at the very start of \<open>s\<close>.\<close>

definition address_here :: "string \<Rightarrow> bool" where
  "address_here s =
     (42 \<le> length s \<and> take 2 s = ''0x'' \<and> list_all is_hex (take 40 (drop 2 s)))"

text \<open>
  The successive matches of a global regular expression: scan from the left; at a
  position where the pattern matches, take the 42 characters and resume right after
  them; elsewhere move one character on.
\<close>

fun scan_addresses :: "string \<Rightarrow> string list" where
  "scan_addresses [] = []"
| "scan_addresses (c # cs) =
     (if address_here (c # cs) then take 42 (c # cs) # scan_addresses (drop 41 cs)
      else scan_addresses cs)"

text \<open>\<open>str.match(re)\<close> with the \<open>g\<close> flag: \<open>null\<close> when nothing matches.\<close>

definition match_addresses :: "string \<Rightarrow> string list option" where
  "match_addresses s = (case scan_addresses s of [] \<Rightarrow> None | m # ms \<Rightarrow> Some (m # ms))"

text \<open>\<open>addrMatch?.find(a => a.toLowerCase() !== address.toLowerCase())\<close>\<close>

definition find_delegate :: "string list option \<Rightarrow> string \<Rightarrow> string option" where
  "find_delegate addrMatch address =
     (case addrMatch of
        None \<Rightarrow> None
      | Some ms \<Rightarrow> find (\<lambda>a. toLowerCase a \<noteq> toLowerCase address) ms)"

section \<open>Observable state, effects and control flow\<close>

datatype level = Info | Error | Success

definition toUpperCase_level :: "level \<Rightarrow> string" where
  "toUpperCase_level l = (case l of Info \<Rightarrow> ''INFO'' | Error \<Rightarrow> ''ERROR'' | Success \<Rightarrow> ''SUCCESS'')"

record log_entry =
  time :: string
  level :: level
  msg :: string

datatype console_line = ConsoleLog string | ConsoleError string js_error

text \<open>
  What a run reads and writes besides its collaborators: the component's state
  (\<open>logs\<close>, \<open>running\<close>), the browser console, and the wall clock. \<open>clock_reads\<close> counts
  the readings of the clock so far; the \<open>k\<close>-th reading shows the text that the
  environment's \<open>toLocaleTimeString\<close> gives for \<open>k\<close>.
\<close>

record world =
  logs :: "log_entry list"
  running :: bool
  console :: "console_line list"
  clock_reads :: nat

text \<open>The EIP-7702 authorization tuple a signer returns.\<close>

record authorization =
  auth_contractAddress :: "string option"
  auth_address :: "string option"
  auth_chainId :: nat
  auth_nonce :: nat
  auth_r :: "string option"
  auth_s :: string
  auth_yParity :: nat

text \<open>The argument object of \<open>signer.signAuthorization\<close>.\<close>

record authorization_request =
  req_contractAddress :: "string option"
  req_chainId :: nat
  req_nonce :: "nat option"

text \<open>Objects that are passed through unmodified are opaque handles.\<close>

datatype handle = Handle nat

type_synonym provider = handle
type_synonym prepared_tx = handle
type_synonym signed_tx = handle

record tx_call =
  call_to :: string
  call_value :: int
  call_data :: string

record tx_params =
  chain :: nat
  tx_calls :: "tx_call list"
  feeAsset :: string
  eip7702InitSignature :: "string option"

text \<open>Generic JavaScript data, as far as \<open>convertBigIntsToString\<close> looks into it.\<close>

datatype jsval =
    JNull
  | JUndefined
  | JBigInt int
  | JArray "jsval list"
  | JObject "(string \<times> jsval) list"
  | JString string
  | JNumber int
  | JBool bool

record typed_data =
  td_domain :: jsval
  td_types :: jsval
  td_primaryType :: string
  td_message :: jsval

text \<open>
  Every call into a collaborator (the wallet SDK, viem, the account-abstraction SDK),
  with the arguments the runner chose. A run's trace lists the calls it made, in order,
  each with the error it threw (\<open>None\<close> when it returned).
\<close>

datatype call =
    IsSignAuthorizationSupported
  | GetNetwork
  | SwitchNetwork nat
  | SetActiveAccount string
  | GetActiveAccount
  | GetSigner
  | SignerSignAuthorization authorization_request
  | SignerSignMessage jsval
  | SignerSignTransaction jsval
  | SignerSignTypedData typed_data
  | GetWalletClient
  | CreateWalletClient string nat provider
  | WalletClientToAccount
  | ToAccount string
  | NewRhinestoneSDK string
  | CreateAccount "string option"
  | GetAddress
  | IsDeployed nat
  | SignEip7702InitData
  | PrepareTransaction tx_params
  | SignTransaction prepared_tx
  | SignAuthorizations handle
  | GetTransactionMessages prepared_tx
  | WalletClientSignAuthorization string
  | SubmitTransaction signed_tx "authorization list"

type_synonym trace = "(call \<times> js_error option) list"

text \<open>
  How a statement ends: normally with a value, by \<open>return;\<close> out of \<open>runTest\<close>, or by a
  thrown error. A statement maps the world to its completion, the new world and the
  calls it made.
\<close>

datatype 'a completion = Normal 'a | Return | Throw js_error

type_synonym ('w, 'a) proc = "'w \<Rightarrow> 'a completion \<times> 'w \<times> trace"

definition normal :: "'a \<Rightarrow> ('w, 'a) proc" where
  "normal a w = (Normal a, w, [])"

definition return_stmt :: "('w, 'a) proc" where
  "return_stmt w = (Return, w, [])"

definition throw :: "js_error \<Rightarrow> ('w, 'a) proc" where
  "throw e w = (Throw e, w, [])"

definition bind :: "('w, 'a) proc \<Rightarrow> ('a \<Rightarrow> ('w, 'b) proc) \<Rightarrow> ('w, 'b) proc" where
  "bind m f w =
     (case m w of
        (Normal a, w1, t1) \<Rightarrow> (case f a w1 of (c, w2, t2) \<Rightarrow> (c, w2, t1 @ t2))
      | (Return, w1, t1) \<Rightarrow> (Return, w1, t1)
      | (Throw e, w1, t1) \<Rightarrow> (Throw e, w1, t1))"

definition seq :: "('w, unit) proc \<Rightarrow> ('w, 'b) proc \<Rightarrow> ('w, 'b) proc" where
  "seq m n = bind m (\<lambda>_. n)"

primrec block :: "('w, unit) proc list \<Rightarrow> ('w, unit) proc" where
  "block [] = normal ()"
| "block (m # ms) = seq m (block ms)"

text \<open>\<open>try { m } catch (e) { h e }\<close>: only a thrown error enters the handler.\<close>

definition try_catch :: "('w, 'a) proc \<Rightarrow> (js_error \<Rightarrow> ('w, 'a) proc) \<Rightarrow> ('w, 'a) proc" where
  "try_catch m h w =
     (case m w of
        (Throw e, w1, t1) \<Rightarrow> (case h e w1 of (c, w2, t2) \<Rightarrow> (c, w2, t1 @ t2))
      | (Normal a, w1, t1) \<Rightarrow> (Normal a, w1, t1)
      | (Return, w1, t1) \<Rightarrow> (Return, w1, t1))"

text \<open>
  \<open>... finally { fin }\<close> where \<open>fin\<close> is a state setter: it runs on every completion and
  leaves the completion as it is.
\<close>

definition try_finally :: "('w, 'a) proc \<Rightarrow> ('w \<Rightarrow> 'w) \<Rightarrow> ('w, 'a) proc" where
  "try_finally m fin w = (case m w of (c, w1, t1) \<Rightarrow> (c, fin w1, t1))"

text \<open>A state setter used as a statement.\<close>

definition modify :: "('w \<Rightarrow> 'w) \<Rightarrow> ('w, unit) proc" where
  "modify f w = (Normal (), f w, [])"

text \<open>A call into a collaborator whose outcome is \<open>r\<close>.\<close>

definition invoke :: "call \<Rightarrow> js_error + 'a \<Rightarrow> ('w, 'a) proc" where
  "invoke c r w =
     (case r of
        Inl e \<Rightarrow> (Throw e, w, [(c, Some e)])
      | Inr v \<Rightarrow> (Normal v, w, [(c, None)]))"

definition completion_of :: "'a completion \<times> 'w \<times> trace \<Rightarrow> 'a completion" where
  "completion_of r = fst r"

definition world_of :: "'a completion \<times> 'w \<times> trace \<Rightarrow> 'w" where
  "world_of r = fst (snd r)"

definition calls_of :: "'a completion \<times> 'w \<times> trace \<Rightarrow> trace" where
  "calls_of r = snd (snd r)"

text \<open>
  What the caller of the asynchronous \<open>runTest\<close> sees: the promise resolves (\<open>None\<close>) or
  rejects with an error.
\<close>

definition async :: "('w, unit) proc \<Rightarrow> 'w \<Rightarrow> js_error option \<times> 'w \<times> trace" where
  "async m w =
     (case m w of
        (Throw e, w1, t1) \<Rightarrow> (Some e, w1, t1)
      | (Normal a, w1, t1) \<Rightarrow> (None, w1, t1)
      | (Return, w1, t1) \<Rightarrow> (None, w1, t1))"

definition rejection :: "js_error option \<times> 'w \<times> trace \<Rightarrow> js_error option" where
  "rejection r = fst r"

definition final :: "js_error option \<times> 'w \<times> trace \<Rightarrow> 'w" where
  "final r = fst (snd r)"

definition calls :: "js_error option \<times> 'w \<times> trace \<Rightarrow> trace" where
  "calls r = snd (snd r)"

section \<open>The collaborators\<close>

text \<open>
  A collaborator is given by what each of its operations answers: \<open>Inl e\<close> when the
  operation throws \<open>e\<close>, \<open>Inr v\<close> when it returns \<open>v\<close>. A capability that may be missing
  is an \<open>option\<close>.
\<close>

record signer =
  signer_account_address :: "string option"
  signAuthorization :: "(authorization_request \<Rightarrow> js_error + authorization) option"
  signMessage :: "jsval \<Rightarrow> js_error + string"
  signTransaction :: "jsval \<Rightarrow> js_error + string"
  signTypedData :: "typed_data \<Rightarrow> js_error + string"

record connector =
  name :: "string option"
  evmNetworks :: "nat list option"
  isSignAuthorizationSupported :: "(js_error + bool) option"
  getNetwork :: "(js_error + nat option) option"
  switchNetwork :: "(nat \<Rightarrow> js_error + unit) option"
  setActiveAccount :: "(string \<Rightarrow> js_error + unit) option"
  getActiveAccount :: "(js_error + string option) option"
  getSigner :: "(js_error + signer option) option"
  has_getWalletClient :: bool
  has_exportPrivateKey :: bool

record wallet =
  address :: string
  connector :: "connector option"
  getWalletClient :: "js_error + provider option"

text \<open>
  What every component finds around it: the clock, the build-time settings
  \<open>import.meta.env\<close>, and the wallet handle of the wallet provider's context.
\<close>

record ambient =
  toLocaleTimeString :: "nat \<Rightarrow> string"
  VITE_RHINESTONE_API_KEY :: "string option"
  VITE_DYNAMIC_ENVIRONMENT_ID :: "string option"
  primaryWallet :: "wallet option"

definition RHINESTONE_API_KEY :: "'z ambient_scheme \<Rightarrow> string option" where
  "RHINESTONE_API_KEY env = VITE_RHINESTONE_API_KEY env"

definition base_id :: nat where
  "base_id = 8453"

text \<open>
  The \<open>log\<close> helper that every component declares: read the clock, append the entry to
  the log state, mirror it on the console.
\<close>

definition log :: "'e ambient_scheme \<Rightarrow> level \<Rightarrow> string \<Rightarrow> ('z world_scheme, unit) proc" where
  "log env lvl m =
     modify (\<lambda>w. w\<lparr>logs := logs w @ [\<lparr>time = toLocaleTimeString env (clock_reads w), level = lvl, msg = m\<rparr>],
                    console := console w @ [ConsoleLog (''['' @ toUpperCase_level lvl @ ''] '' @ m)],
                    clock_reads := Suc (clock_reads w)\<rparr>)"

definition setLogs :: "log_entry list \<Rightarrow> 'z world_scheme \<Rightarrow> 'z world_scheme" where
  "setLogs l w = w\<lparr>logs := l\<rparr>"

definition setRunning :: "bool \<Rightarrow> 'z world_scheme \<Rightarrow> 'z world_scheme" where
  "setRunning b w = w\<lparr>running := b\<rparr>"

definition only_if :: "bool \<Rightarrow> ('w, unit) proc \<Rightarrow> ('w, unit) proc" where
  "only_if b m = (if b then m else normal ())"

text \<open>\<open>primaryWallet.connector?.name\<close>\<close>

definition connector_name :: "wallet \<Rightarrow> string option" where
  "connector_name pw = (case connector pw of None \<Rightarrow> None | Some c \<Rightarrow> name c)"

section \<open>The bug-reproduction component \<open>App\<close>\<close>

record account =
  account_type :: "string option"

record wallet_client =
  walletClient_signAuthorization :: "(string \<Rightarrow> js_error + authorization) option"

record rhinestone_account =
  getAddress :: "js_error + string"
  isDeployed :: "nat \<Rightarrow> js_error + bool"
  signEip7702InitData :: "js_error + string option"
  prepareTransaction :: "tx_params \<Rightarrow> js_error + prepared_tx"
  signAuthorizations :: "handle \<Rightarrow> js_error + authorization list"
  getTransactionMessages :: "prepared_tx \<Rightarrow> js_error + stringified"

record rhinestone_sdk =
  createAccount :: "string option \<Rightarrow> js_error + rhinestone_account"

record App_env = ambient +
  createWalletClient :: "string \<Rightarrow> nat \<Rightarrow> provider \<Rightarrow> js_error + wallet_client"
  walletClientToAccount :: "wallet_client \<Rightarrow> js_error + account"
  newRhinestoneSDK :: "string \<Rightarrow> js_error + rhinestone_sdk"

definition App_step1 :: "App_env \<Rightarrow> ('z world_scheme, wallet) proc" where
  "App_step1 env =
     seq (log env Info ''Step 1: Checking Dynamic wallet connection...'')
     (case primaryWallet env of
        None \<Rightarrow> seq (log env Error ''No wallet connected. Please connect first.'') return_stmt
      | Some pw \<Rightarrow>
          seq (log env Success (''Wallet connected: '' @ address pw))
          (seq (log env Info (''Wallet type: '' @
                  (if truthy (connector_name pw) then the (connector_name pw) else ''unknown'')))
          (normal pw)))"

definition App_step2 :: "App_env \<Rightarrow> wallet \<Rightarrow> ('z world_scheme, provider) proc" where
  "App_step2 env pw =
     seq (log env Info ''Step 2: Getting provider from Dynamic wallet...'')
     (bind (invoke GetWalletClient (getWalletClient pw)) (\<lambda>provider.
        case provider of
          None \<Rightarrow> seq (log env Error ''Failed to get wallet client from Dynamic'') return_stmt
        | Some p \<Rightarrow> seq (log env Success ''Got wallet client from Dynamic'') (normal p)))"

definition App_step3 :: "App_env \<Rightarrow> string \<Rightarrow> provider \<Rightarrow> ('z world_scheme, wallet_client) proc" where
  "App_step3 env addr provider =
     seq (log env Info ''Step 3: Creating viem WalletClient...'')
     (bind (invoke (CreateWalletClient addr base_id provider) (createWalletClient env addr base_id provider))
        (\<lambda>walletClient.
     seq (log env Success ''WalletClient created'') (normal walletClient)))"

text \<open>\<open>(account as any).type ??= 'json-rpc'\<close>\<close>

definition default_type :: "account \<Rightarrow> account" where
  "default_type a =
     (case account_type a of None \<Rightarrow> a\<lparr>account_type := Some ''json-rpc''\<rparr> | Some t \<Rightarrow> a)"

definition App_step4 :: "App_env \<Rightarrow> wallet_client \<Rightarrow> ('z world_scheme, account) proc" where
  "App_step4 env walletClient =
     seq (log env Info ''Step 4: Converting to Rhinestone account via walletClientToAccount...'')
     (bind (invoke WalletClientToAccount (walletClientToAccount env walletClient)) (\<lambda>a.
     seq (log env Success (''Account created - type: '' @ [CHR 0x22] @
            template_opt id (account_type (default_type a)) @ [CHR 0x22]))
         (normal (default_type a))))"

definition App_step5 :: "App_env \<Rightarrow> ('z world_scheme, rhinestone_sdk) proc" where
  "App_step5 env =
     seq (log env Info ''Step 5: Initializing Rhinestone SDK...'')
     (if \<not> truthy (RHINESTONE_API_KEY env)
      then seq (log env Error ''VITE_RHINESTONE_API_KEY not set'') return_stmt
      else bind (invoke (NewRhinestoneSDK (the (RHINESTONE_API_KEY env)))
                   (newRhinestoneSDK env (the (RHINESTONE_API_KEY env)))) (\<lambda>sdk.
           seq (log env Success ''Rhinestone SDK initialized'') (normal sdk)))"

definition App_step6 ::
  "App_env \<Rightarrow> rhinestone_sdk \<Rightarrow> string \<Rightarrow> ('z world_scheme, rhinestone_account \<times> string) proc" where
  "App_step6 env sdk addr =
     seq (log env Info (''Step 6: Creating Rhinestone account with accountType: '' @
            [CHR 0x22] @ ''7702'' @ [CHR 0x22] @ ''...''))
     (bind (invoke (CreateAccount (Some ''7702'')) (createAccount sdk (Some ''7702'')))
        (\<lambda>rhinestoneAccount.
      bind (invoke GetAddress (getAddress rhinestoneAccount)) (\<lambda>rhinestoneAddress.
      seq (log env Success (''Rhinestone account: '' @ rhinestoneAddress))
     (seq (log env Info (''EOA match: '' @
             string_of_bool (toLowerCase rhinestoneAddress = toLowerCase addr)))
          (normal (rhinestoneAccount, rhinestoneAddress))))))"

definition App_step7 :: "App_env \<Rightarrow> rhinestone_account \<Rightarrow> ('z world_scheme, unit) proc" where
  "App_step7 env rhinestoneAccount =
     seq (log env Info ''Step 7: Checking deployment status on Base...'')
     (bind (invoke (IsDeployed base_id) (isDeployed rhinestoneAccount base_id)) (\<lambda>deployed.
      log env Info (''Account deployed: '' @ string_of_bool deployed)))"

definition App_step8 :: "App_env \<Rightarrow> rhinestone_account \<Rightarrow> ('z world_scheme, string option) proc" where
  "App_step8 env rhinestoneAccount =
     seq (log env Info ''Step 8: Signing EIP-7702 init data...'')
     (try_catch
        (bind (invoke SignEip7702InitData (signEip7702InitData rhinestoneAccount)) (\<lambda>sig.
           if truthy sig \<and> sig \<noteq> Some ''0x''
           then seq (log env Success (''Init signature: '' @ slice0 20 (the sig) @ ''...''))
                    (normal sig)
           else seq (log env Error ''signEip7702InitData returned empty/null'') (normal None)))
        (\<lambda>e. seq (log env Error (''signEip7702InitData failed: '' @ message e)) (normal None)))"

definition App_txParams :: "string \<Rightarrow> string option \<Rightarrow> tx_params" where
  "App_txParams rhinestoneAddress sig =
     \<lparr>chain = base_id,
      tx_calls = [\<lparr>call_to = rhinestoneAddress, call_value = 0, call_data = ''0x''\<rparr>],
      feeAsset = ''USDC'',
      eip7702InitSignature = sig\<rparr>"

definition App_step9 ::
  "App_env \<Rightarrow> rhinestone_account \<Rightarrow> string \<Rightarrow> string option \<Rightarrow> ('z world_scheme, prepared_tx) proc" where
  "App_step9 env rhinestoneAccount rhinestoneAddress sig =
     seq (log env Info (''Step 9: Preparing transaction with feeAsset: '' @
            [CHR 0x22] @ ''USDC'' @ [CHR 0x22] @ ''...''))
    (seq (log env Info (''Including eip7702InitSignature: '' @ string_of_bool (truthy sig)))
     (try_catch
        (bind (invoke (PrepareTransaction (App_txParams rhinestoneAddress sig))
                 (prepareTransaction rhinestoneAccount (App_txParams rhinestoneAddress sig)))
           (\<lambda>preparedTx.
         seq (log env Success ''Transaction prepared'') (normal preparedTx)))
        (\<lambda>e. seq (log env Error (''prepareTransaction failed: '' @ message e)) return_stmt)))"

text \<open>The message patterns of the known bug.\<close>

definition is_bug_message :: "string \<Rightarrow> bool" where
  "is_bug_message m =
     (str_includes m ''Account type'' \<or> str_includes m ''json-rpc'' \<or> str_includes m ''not supported'')"

definition App_step10 ::
  "App_env \<Rightarrow> rhinestone_account \<Rightarrow> prepared_tx \<Rightarrow> ('z world_scheme, bool) proc" where
  "App_step10 env rhinestoneAccount preparedTx =
     seq (log env Info ''Step 10: Calling signAuthorizations (THE BUG TEST)...'')
     (try_catch
        (bind (invoke (SignAuthorizations preparedTx) (signAuthorizations rhinestoneAccount preparedTx))
           (\<lambda>authorizations.
         seq (log env Success (''signAuthorizations succeeded! Got '' @
                string_of_nat (length authorizations) @ '' auth(s)''))
             (normal False)))
        (\<lambda>e.
           seq (log env Error (''signAuthorizations FAILED: '' @ message e))
          (seq (only_if (is_bug_message (message e))
                  (log env Error ''>>> BUG CONFIRMED: JSON-RPC account cannot sign EIP-7702 authorizations''))
               (normal True))))"

text \<open>
  \<open>stringify(messages)\<close> where a string method is applied to the result: on \<open>undefined\<close>
  the method call is a \<open>TypeError\<close>.
\<close>

definition stringify_then :: "stringified \<Rightarrow> string \<Rightarrow> ('w, string) proc" where
  "stringify_then d method =
     (case d of
        Text s \<Rightarrow> normal s
      | Undefined \<Rightarrow>
          throw (JsError (''Cannot read properties of undefined (reading '' @ [CHR 0x27] @ method @
                          [CHR 0x27] @ '')''))
      | Raises e \<Rightarrow> throw e)"

definition is_unsupported_message :: "string \<Rightarrow> bool" where
  "is_unsupported_message m = (str_includes m ''not supported'' \<or> str_includes m ''Method not found'')"

definition App_workaround ::
  "App_env \<Rightarrow> (string \<Rightarrow> js_error + authorization) \<Rightarrow> rhinestone_account \<Rightarrow> prepared_tx \<Rightarrow> string \<Rightarrow>
     ('z world_scheme, unit) proc" where
  "App_workaround env signAuth rhinestoneAccount preparedTx addr =
     try_catch
       (bind (invoke (GetTransactionMessages preparedTx)
                (getTransactionMessages rhinestoneAccount preparedTx)) (\<lambda>messages.
        bind (stringify_then messages ''slice'') (\<lambda>dump.
        seq (log env Info (''Transaction messages: '' @ slice0 300 dump @ ''...''))
       (bind (stringify_then messages ''match'') (\<lambda>msgStr.
          case find_delegate (match_addresses msgStr) addr of
            Some delegateAddr \<Rightarrow>
              seq (log env Info (''Found potential delegate: '' @ delegateAddr))
              (try_catch
                 (bind (invoke (WalletClientSignAuthorization delegateAddr) (signAuth delegateAddr))
                    (\<lambda>auth.
                  seq (log env Success ''Manual signAuthorization succeeded!'')
                      (log env Info (''r: '' @ template_opt (slice0 20) (auth_r auth) @ ''...''))))
                 (\<lambda>authErr.
                    seq (log env Error (''walletClient.signAuthorization call failed: '' @ message authErr))
                        (only_if (is_unsupported_message (message authErr))
                           (log env Error ''>>> Wallet does not support wallet_signAuthorization RPC method''))))
          | None \<Rightarrow>
              seq (log env Error ''Could not extract delegate address from SDK'')
                  (log env Info ''This means Rhinestone SDK does not expose the delegate contract address''))))))
       (\<lambda>e. log env Error (''Workaround setup failed: '' @ message e))"

definition App_step11 ::
  "App_env \<Rightarrow> wallet_client \<Rightarrow> rhinestone_account \<Rightarrow> prepared_tx \<Rightarrow> string \<Rightarrow> bool \<Rightarrow>
     ('z world_scheme, unit) proc" where
  "App_step11 env walletClient rhinestoneAccount preparedTx addr signAuthFailed =
     seq (if \<not> signAuthFailed
          then log env Info ''Step 11: Skipping workaround test (signAuthorizations worked)''
          else log env Info ''Step 11: Testing walletClient.signAuthorization workaround...'')
     (if signAuthFailed \<and> walletClient_signAuthorization walletClient \<noteq> None
      then seq (log env Info ''walletClient.signAuthorization exists, trying it...'')
               (App_workaround env (the (walletClient_signAuthorization walletClient))
                  rhinestoneAccount preparedTx addr)
      else only_if signAuthFailed
             (log env Error ''walletClient.signAuthorization not available on this walletClient''))"

text \<open>
  \<open>name?.toLowerCase().includes('embedded') || name?.toLowerCase().includes('dynamic')\<close>:
  \<open>undefined\<close> when the connector has no name.
\<close>

definition isEmbedded :: "wallet \<Rightarrow> bool option" where
  "isEmbedded pw =
     (case connector_name pw of
        None \<Rightarrow> None
      | Some n \<Rightarrow> Some (str_includes (toLowerCase n) ''embedded'' \<or> str_includes (toLowerCase n) ''dynamic''))"

definition App_step12 :: "App_env \<Rightarrow> wallet \<Rightarrow> ('z world_scheme, unit) proc" where
  "App_step12 env pw =
     block
       [log env Info ''Step 12: Checking Dynamic wallet capabilities...'',
        log env Info (''Wallet connector: '' @ template_opt id (connector_name pw)),
        log env Info (''Is embedded wallet: '' @ template_opt string_of_bool (isEmbedded pw)),
        if isEmbedded pw = Some True
        then block
               [log env Info ''For embedded wallets, Dynamic might support:'',
                log env Info ''  - Exporting private key (user-initiated)'',
                log env Info ''  - Server-side authorization signing via API'',
                log env Info ''  - wallet_signAuthorization RPC method'']
        else block
               [log env Info ''External wallet (e.g., MetaMask) detected'',
                log env Info ''External wallets would need to implement EIP-7702 signing natively''],
        only_if (case connector pw of None \<Rightarrow> False | Some c \<Rightarrow> has_getWalletClient c)
          (log env Info ''Connector has getWalletClient method''),
        only_if (case connector pw of None \<Rightarrow> False | Some c \<Rightarrow> getSigner c \<noteq> None)
          (log env Info ''Connector has getSigner method - might return local signer''),
        only_if (case connector pw of None \<Rightarrow> False | Some c \<Rightarrow> has_exportPrivateKey c)
          (log env Info ''Connector has exportPrivateKey method!'')]"

text \<open>Steps 1 to 7 yield the local variables that the later steps use.\<close>

definition App_steps_1_to_7 ::
  "App_env \<Rightarrow> ('z world_scheme, wallet \<times> wallet_client \<times> rhinestone_account \<times> string) proc" where
  "App_steps_1_to_7 env =
     bind (App_step1 env) (\<lambda>pw.
     bind (App_step2 env pw) (\<lambda>provider.
     bind (App_step3 env (address pw) provider) (\<lambda>walletClient.
     bind (App_step4 env walletClient) (\<lambda>account.
     bind (App_step5 env) (\<lambda>sdk.
     bind (App_step6 env sdk (address pw)) (\<lambda>(rhinestoneAccount, rhinestoneAddress).
     seq (App_step7 env rhinestoneAccount)
         (normal (pw, walletClient, rhinestoneAccount, rhinestoneAddress))))))))"

definition App_steps_1_to_9 ::
  "App_env \<Rightarrow> ('z world_scheme, wallet \<times> wallet_client \<times> rhinestone_account \<times> prepared_tx) proc" where
  "App_steps_1_to_9 env =
     bind (App_steps_1_to_7 env) (\<lambda>(pw, walletClient, rhinestoneAccount, rhinestoneAddress).
     bind (App_step8 env rhinestoneAccount) (\<lambda>sig.
     bind (App_step9 env rhinestoneAccount rhinestoneAddress sig) (\<lambda>preparedTx.
     normal (pw, walletClient, rhinestoneAccount, preparedTx))))"

definition App_steps_10_to_12 ::
  "App_env \<Rightarrow> wallet \<Rightarrow> wallet_client \<Rightarrow> rhinestone_account \<Rightarrow> prepared_tx \<Rightarrow>
     ('z world_scheme, unit) proc" where
  "App_steps_10_to_12 env pw walletClient rhinestoneAccount preparedTx =
     bind (App_step10 env rhinestoneAccount preparedTx) (\<lambda>signAuthFailed.
     seq (App_step11 env walletClient rhinestoneAccount preparedTx (address pw) signAuthFailed)
         (App_step12 env pw))"

definition App_body :: "App_env \<Rightarrow> ('z world_scheme, unit) proc" where
  "App_body env =
     bind (App_steps_1_to_9 env) (\<lambda>(pw, walletClient, rhinestoneAccount, preparedTx).
     App_steps_10_to_12 env pw walletClient rhinestoneAccount preparedTx)"

definition App_runTest :: "App_env \<Rightarrow> 'z world_scheme \<Rightarrow> js_error option \<times> 'z world_scheme \<times> trace" where
  "App_runTest env w =
     async
       (try_finally
          (try_catch (App_body env) (\<lambda>e. log env Error (''Unexpected error: '' @ message e)))
          (setRunning False))
       (setRunning True (setLogs [] w))"

section \<open>The direct-signing component \<open>Eip7702Test\<close>\<close>

definition TEST_DELEGATE_CONTRACT :: string where
  "TEST_DELEGATE_CONTRACT = ''0x0000000000000000000000000000000000000001''"

record eip7702_world = world +
  contractAddress :: string
  lastAuthorization :: "authorization option"

definition setLastAuthorization :: "authorization option \<Rightarrow> eip7702_world \<Rightarrow> eip7702_world" where
  "setLastAuthorization a w = w\<lparr>lastAuthorization := a\<rparr>"

text \<open>The result panel is rendered only while \<open>lastAuthorization\<close> is set, and shows it.\<close>

definition result_panel :: "eip7702_world \<Rightarrow> authorization option" where
  "result_panel w = lastAuthorization w"

definition Eip7702Test_step1 :: "'e ambient_scheme \<Rightarrow> (eip7702_world, wallet \<times> connector) proc" where
  "Eip7702Test_step1 env =
     seq (log env Info ''Step 1: Checking Dynamic wallet connection...'')
     (case primaryWallet env of
        None \<Rightarrow> seq (log env Error ''No wallet connected. Please connect first.'') return_stmt
      | Some pw \<Rightarrow>
          seq (log env Success (''Wallet connected: '' @ address pw))
         (seq (log env Info (''Connector: '' @ template_opt id (connector_name pw)))
          (case connector pw of
             None \<Rightarrow> seq (log env Error ''No connector found'') return_stmt
           | Some c \<Rightarrow> normal (pw, c))))"

definition Eip7702Test_step2 :: "'e ambient_scheme \<Rightarrow> connector \<Rightarrow> (eip7702_world, unit) proc" where
  "Eip7702Test_step2 env c =
     seq (log env Info ''Step 2: Checking EIP-7702 support...'')
     (bind (case isSignAuthorizationSupported c of
              None \<Rightarrow> normal False
            | Some r \<Rightarrow> invoke IsSignAuthorizationSupported r) (\<lambda>supported.
      if supported then log env Success ''EIP-7702 signAuthorization is supported!''
      else log env Info ''isSignAuthorizationSupported not available or returned false''))"

definition Eip7702Test_step3 :: "'e ambient_scheme \<Rightarrow> connector \<Rightarrow> (eip7702_world, unit) proc" where
  "Eip7702Test_step3 env c =
     (let availableChains = (case evmNetworks c of None \<Rightarrow> [] | Some ns \<Rightarrow> ns) in
      seq (log env Info ''Step 3: Checking network...'')
     (seq (log env Info (''Available chains: '' @ stringify_numbers availableChains))
      (if base_id \<in> set availableChains
       then bind (case getNetwork c of None \<Rightarrow> normal None | Some r \<Rightarrow> invoke GetNetwork r)
              (\<lambda>currentNetwork.
            if currentNetwork \<noteq> Some base_id
            then seq (log env Info (''Switching to Base ('' @ string_of_nat base_id @ '')...''))
                (seq (case switchNetwork c of
                        None \<Rightarrow> normal ()
                      | Some f \<Rightarrow> invoke (SwitchNetwork base_id) (f base_id))
                     (log env Success ''Switched to Base''))
            else log env Success ''Already on Base'')
       else seq (log env Error ''Base not available. Add it in Dynamic dashboard.'') return_stmt)))"

definition Eip7702Test_step4 ::
  "'e ambient_scheme \<Rightarrow> connector \<Rightarrow> string \<Rightarrow> (eip7702_world, unit) proc" where
  "Eip7702Test_step4 env c addr =
     seq (log env Info ''Step 4: Setting active account...'')
     (case setActiveAccount c of
        Some f \<Rightarrow>
          seq (invoke (SetActiveAccount addr) (f addr))
         (bind (case getActiveAccount c of None \<Rightarrow> normal None | Some r \<Rightarrow> invoke GetActiveAccount r)
            (\<lambda>activeAccount.
          if truthy activeAccount
          then log env Success (''Active account set: '' @ the activeAccount)
          else seq (log env Error ''Failed to set active account'') return_stmt))
      | None \<Rightarrow> seq (log env Error ''setActiveAccount not available on connector'') return_stmt)"

definition Eip7702Test_request :: "string \<Rightarrow> authorization_request" where
  "Eip7702Test_request contractAddr =
     \<lparr>req_contractAddress = Some contractAddr, req_chainId = base_id, req_nonce = None\<rparr>"

definition Eip7702Test_step5 ::
  "'e ambient_scheme \<Rightarrow> connector \<Rightarrow> string \<Rightarrow> (eip7702_world, unit) proc" where
  "Eip7702Test_step5 env c contractAddr =
     seq (log env Info ''Step 5: Getting signer and signing EIP-7702 authorization...'')
     (case getSigner c of
        None \<Rightarrow> seq (log env Error ''getSigner not available'') return_stmt
      | Some r \<Rightarrow>
          bind (invoke GetSigner r) (\<lambda>s.
          case s of
            None \<Rightarrow> seq (log env Error ''Failed to get signer'') return_stmt
          | Some sg \<Rightarrow>
              seq (log env Success (''Signer obtained: '' @
                     (if truthy (signer_account_address sg) then the (signer_account_address sg)
                      else ''unknown'')))
              (case signAuthorization sg of
                 None \<Rightarrow> seq (log env Error ''signer.signAuthorization not available'') return_stmt
               | Some sign \<Rightarrow>
                   seq (log env Info (''Signing authorization for contract: '' @ contractAddr))
                  (seq (log env Info (''Chain ID: '' @ string_of_nat base_id))
                  (bind (invoke (SignerSignAuthorization (Eip7702Test_request contractAddr))
                           (sign (Eip7702Test_request contractAddr))) (\<lambda>a.
                   block
                     [log env Success ''=== EIP-7702 AUTHORIZATION SIGNED SUCCESSFULLY! ==='',
                      log env Success (''Contract: '' @
                        template_opt id (or_else (auth_contractAddress a) (auth_address a))),
                      log env Success (''Chain ID: '' @ string_of_nat (auth_chainId a)),
                      log env Success (''Nonce: '' @ string_of_nat (auth_nonce a)),
                      log env Success (''r: '' @ template_opt id (auth_r a)),
                      log env Success (''s: '' @ auth_s a),
                      log env Success (''yParity: '' @ string_of_nat (auth_yParity a)),
                      modify (setLastAuthorization (Some a)),
                      log env Info '''',
                      log env Info ''This authorization can be used in a transaction:'',
                      log env Info ''walletClient.sendTransaction({'',
                      log env Info ''  authorizationList: [authorization],'',
                      log env Info ''  to: eoaAddress,'',
                      log env Info ''  data: encodeFunctionData(...),'',
                      log env Info ''});'']))))))"

definition Eip7702Test_body :: "'e ambient_scheme \<Rightarrow> string \<Rightarrow> (eip7702_world, unit) proc" where
  "Eip7702Test_body env contractAddr =
     bind (Eip7702Test_step1 env) (\<lambda>(pw, c).
     seq (Eip7702Test_step2 env c)
    (seq (Eip7702Test_step3 env c)
    (seq (Eip7702Test_step4 env c (address pw))
         (Eip7702Test_step5 env c contractAddr))))"

definition console_error :: "string \<Rightarrow> js_error \<Rightarrow> ('z world_scheme, unit) proc" where
  "console_error label e = modify (\<lambda>w. w\<lparr>console := console w @ [ConsoleError label e]\<rparr>)"

definition Eip7702Test_runTest ::
  "'e ambient_scheme \<Rightarrow> eip7702_world \<Rightarrow> js_error option \<times> eip7702_world \<times> trace" where
  "Eip7702Test_runTest env w =
     async
       (try_finally
          (try_catch (Eip7702Test_body env (contractAddress w))
             (\<lambda>e. seq (log env Error (''Error: '' @ message e)) (console_error ''Full error:'' e)))
          (setRunning False))
       (setRunning True (setLastAuthorization None (setLogs [] w)))"

section \<open>The account-abstraction component \<open>RhinestoneTest\<close>\<close>

fun string_of_int :: "int \<Rightarrow> string" where
  "string_of_int i = (if i < 0 then ''-'' @ string_of_nat (nat (- i)) else string_of_nat (nat i))"

fun convertBigIntsToString :: "jsval \<Rightarrow> jsval" where
  "convertBigIntsToString JNull = JNull"
| "convertBigIntsToString JUndefined = JUndefined"
| "convertBigIntsToString (JBigInt i) = JString (string_of_int i)"
| "convertBigIntsToString (JArray xs) = JArray (map convertBigIntsToString xs)"
| "convertBigIntsToString (JObject kvs) = JObject (map (map_prod id convertBigIntsToString) kvs)"
| "convertBigIntsToString (JString s) = JString s"
| "convertBigIntsToString (JNumber n) = JNumber n"
| "convertBigIntsToString (JBool b) = JBool b"

text \<open>The authorization the SDK hands to the owner account's \<open>signAuthorization\<close>.\<close>

record authorization_param =
  param_contractAddress :: "string option"
  param_address :: "string option"
  param_chainId :: nat
  param_nonce :: "nat option"

text \<open>
  The component passes the SDK an owner account whose four signing operations are
  functions of this repository. An asynchronous SDK operation is therefore a dialogue:
  it may ask the owner account to sign, any number of times, each time continuing from
  what the owner answered, before it resolves or rejects.
\<close>

datatype 'a sdk_run =
    Resolves 'a
  | Rejects js_error
  | OwnerSignMessage jsval "js_error + string \<Rightarrow> 'a sdk_run"
  | OwnerSignTransaction jsval "js_error + string \<Rightarrow> 'a sdk_run"
  | OwnerSignTypedData typed_data "js_error + string \<Rightarrow> 'a sdk_run"
  | OwnerSignAuthorization authorization_param "js_error + authorization \<Rightarrow> 'a sdk_run"

record owned_account =
  owned_getAddress :: "js_error + string"
  owned_signEip7702InitData :: "string option sdk_run"
  owned_prepareTransaction :: "tx_params \<Rightarrow> prepared_tx sdk_run"
  owned_signTransaction :: "prepared_tx \<Rightarrow> signed_tx sdk_run"
  owned_signAuthorizations :: "signed_tx \<Rightarrow> authorization list sdk_run"
  owned_submitTransaction :: "signed_tx \<Rightarrow> authorization list \<Rightarrow> stringified sdk_run"

record owned_sdk =
  owned_createAccount :: "owned_account sdk_run"

record RhinestoneTest_env = ambient +
  toAccount :: "string \<Rightarrow> js_error + unit"
  owned_newRhinestoneSDK :: "string \<Rightarrow> js_error + owned_sdk"

text \<open>A call whose outcome goes back to the SDK instead of being thrown here.\<close>

definition answer :: "call \<Rightarrow> js_error + 'a \<Rightarrow> ('w, js_error + 'a) proc" where
  "answer c r w = (Normal r, w, [(c, case r of Inl e \<Rightarrow> Some e | Inr v \<Rightarrow> None)])"

definition owner_request :: "authorization_param \<Rightarrow> authorization_request" where
  "owner_request a =
     \<lparr>req_contractAddress = or_else (param_contractAddress a) (param_address a),
      req_chainId = param_chainId a,
      req_nonce = param_nonce a\<rparr>"

definition owner_typed_data :: "typed_data \<Rightarrow> typed_data" where
  "owner_typed_data td =
     \<lparr>td_domain = convertBigIntsToString (td_domain td),
      td_types = td_types td,
      td_primaryType = td_primaryType td,
      td_message = convertBigIntsToString (td_message td)\<rparr>"

text \<open>
  The four operations of the custom owner account, given the wallet provider's signer
  and its \<open>signAuthorization\<close>.
\<close>

definition eoa_signMessage :: "signer \<Rightarrow> jsval \<Rightarrow> ('z world_scheme, js_error + string) proc" where
  "eoa_signMessage dynamicSigner m = answer (SignerSignMessage m) (signMessage dynamicSigner m)"

definition eoa_signTransaction :: "signer \<Rightarrow> jsval \<Rightarrow> ('z world_scheme, js_error + string) proc" where
  "eoa_signTransaction dynamicSigner tx =
     answer (SignerSignTransaction tx) (signTransaction dynamicSigner tx)"

definition eoa_signTypedData :: "signer \<Rightarrow> typed_data \<Rightarrow> ('z world_scheme, js_error + string) proc" where
  "eoa_signTypedData dynamicSigner td =
     answer (SignerSignTypedData (owner_typed_data td))
       (signTypedData dynamicSigner (owner_typed_data td))"

definition eoa_signAuthorization ::
  "'e ambient_scheme \<Rightarrow> (authorization_request \<Rightarrow> js_error + authorization) \<Rightarrow> authorization_param \<Rightarrow>
     ('z world_scheme, js_error + authorization) proc" where
  "eoa_signAuthorization env sign a =
     seq (log env Info (''Signing authorization for: '' @
            template_opt id (or_else (param_contractAddress a) (param_address a))))
         (answer (SignerSignAuthorization (owner_request a)) (sign (owner_request a)))"

text \<open>Running an SDK operation: serve its requests to the owner account until it ends.\<close>

primrec serve ::
  "'e ambient_scheme \<Rightarrow> signer \<Rightarrow> (authorization_request \<Rightarrow> js_error + authorization) \<Rightarrow>
     'a sdk_run \<Rightarrow> ('z world_scheme, js_error + 'a) proc" where
  "serve env ds sign (Resolves v) = normal (Inr v)"
| "serve env ds sign (Rejects e) = normal (Inl e)"
| "serve env ds sign (OwnerSignMessage m k) =
     bind (eoa_signMessage ds m) (\<lambda>r. serve env ds sign (k r))"
| "serve env ds sign (OwnerSignTransaction tx k) =
     bind (eoa_signTransaction ds tx) (\<lambda>r. serve env ds sign (k r))"
| "serve env ds sign (OwnerSignTypedData td k) =
     bind (eoa_signTypedData ds td) (\<lambda>r. serve env ds sign (k r))"
| "serve env ds sign (OwnerSignAuthorization a k) =
     bind (eoa_signAuthorization env sign a) (\<lambda>r. serve env ds sign (k r))"

text \<open>
  An awaited SDK operation: the owner's answers come first in the trace, then the
  operation itself with its outcome.
\<close>

definition await_sdk ::
  "'e ambient_scheme \<Rightarrow> signer \<Rightarrow> (authorization_request \<Rightarrow> js_error + authorization) \<Rightarrow>
     call \<Rightarrow> 'a sdk_run \<Rightarrow> ('z world_scheme, 'a) proc" where
  "await_sdk env ds sign c op = bind (serve env ds sign op) (\<lambda>r. invoke c r)"

text \<open>\<open>JSON.stringify(result, replacer)\<close> inside a template literal.\<close>

definition stringify_template :: "stringified \<Rightarrow> ('w, string) proc" where
  "stringify_template d =
     (case d of Text s \<Rightarrow> normal s | Undefined \<Rightarrow> normal ''undefined'' | Raises e \<Rightarrow> throw e)"

definition RhinestoneTest_connect ::
  "RhinestoneTest_env \<Rightarrow>
     ('z world_scheme, string \<times> signer \<times> (authorization_request \<Rightarrow> js_error + authorization)) proc" where
  "RhinestoneTest_connect env =
     (case primaryWallet env of
        None \<Rightarrow> seq (log env Error ''No wallet connected'') return_stmt
      | Some pw \<Rightarrow>
          seq (log env Success (''Wallet: '' @ address pw))
          (if (case connector pw of
                 None \<Rightarrow> True
               | Some c \<Rightarrow> setActiveAccount c = None \<or> getSigner c = None)
           then seq (log env Error ''Not a WaaS wallet'') return_stmt
           else
             seq (invoke (SetActiveAccount (address pw))
                    (the (setActiveAccount (the (connector pw))) (address pw)))
            (bind (invoke GetSigner (the (getSigner (the (connector pw))))) (\<lambda>dynamicSigner.
             if (case dynamicSigner of None \<Rightarrow> True | Some ds \<Rightarrow> signAuthorization ds = None)
             then seq (log env Error ''Signer missing signAuthorization'') return_stmt
             else
               seq (log env Success ''Dynamic signer ready'')
                   (normal (address pw, the dynamicSigner,
                            the (signAuthorization (the dynamicSigner))))))))"

definition RhinestoneTest_account ::
  "RhinestoneTest_env \<Rightarrow> string \<Rightarrow> signer \<Rightarrow> (authorization_request \<Rightarrow> js_error + authorization) \<Rightarrow>
     ('z world_scheme, owned_account) proc" where
  "RhinestoneTest_account env addr ds sign =
     seq (invoke (ToAccount addr) (toAccount env addr))
    (seq (log env Success ''Custom account created'')
     (if \<not> truthy (RHINESTONE_API_KEY env)
      then seq (log env Error ''RHINESTONE_API_KEY not set'') return_stmt
      else bind (invoke (NewRhinestoneSDK (the (RHINESTONE_API_KEY env)))
                   (owned_newRhinestoneSDK env (the (RHINESTONE_API_KEY env)))) (\<lambda>sdk.
           bind (await_sdk env ds sign (CreateAccount None) (owned_createAccount sdk))
             (\<lambda>rhinestoneAccount.
           bind (invoke GetAddress (owned_getAddress rhinestoneAccount)) (\<lambda>a.
           seq (log env Success (''Rhinestone account: '' @ a)) (normal rhinestoneAccount))))))"

definition RhinestoneTest_initData ::
  "RhinestoneTest_env \<Rightarrow> signer \<Rightarrow> (authorization_request \<Rightarrow> js_error + authorization) \<Rightarrow>
     owned_account \<Rightarrow> ('z world_scheme, string option) proc" where
  "RhinestoneTest_initData env ds sign rhinestoneAccount =
     seq (log env Info ''Signing EIP-7702 init data...'')
     (try_catch
        (bind (await_sdk env ds sign SignEip7702InitData (owned_signEip7702InitData rhinestoneAccount))
           (\<lambda>sig.
         seq (log env Success (''Init signature: '' @ template_opt (slice0 20) sig @ ''...''))
             (normal sig)))
        (\<lambda>e. seq (log env Error (''signEip7702InitData failed: '' @ message e)) (normal None)))"

definition RhinestoneTest_txParams :: "string \<Rightarrow> string option \<Rightarrow> tx_params" where
  "RhinestoneTest_txParams rhinestoneAddress sig =
     \<lparr>chain = base_id,
      tx_calls = [\<lparr>call_to = rhinestoneAddress, call_value = 0, call_data = ''0x''\<rparr>],
      feeAsset = ''USDC'',
      eip7702InitSignature = sig\<rparr>"

definition RhinestoneTest_prepare ::
  "RhinestoneTest_env \<Rightarrow> signer \<Rightarrow> (authorization_request \<Rightarrow> js_error + authorization) \<Rightarrow>
     owned_account \<Rightarrow> string option \<Rightarrow> ('z world_scheme, prepared_tx) proc" where
  "RhinestoneTest_prepare env ds sign rhinestoneAccount sig =
     seq (log env Info ''Preparing transaction...'')
    (bind (invoke GetAddress (owned_getAddress rhinestoneAccount)) (\<lambda>a.
     bind (await_sdk env ds sign (PrepareTransaction (RhinestoneTest_txParams a sig))
             (owned_prepareTransaction rhinestoneAccount (RhinestoneTest_txParams a sig)))
       (\<lambda>preparedTx.
     seq (log env Success ''Transaction prepared'') (normal preparedTx))))"

definition RhinestoneTest_send ::
  "RhinestoneTest_env \<Rightarrow> signer \<Rightarrow> (authorization_request \<Rightarrow> js_error + authorization) \<Rightarrow>
     owned_account \<Rightarrow> prepared_tx \<Rightarrow> ('z world_scheme, unit) proc" where
  "RhinestoneTest_send env ds sign rhinestoneAccount preparedTx =
     seq (log env Info ''Signing transaction...'')
    (bind (await_sdk env ds sign (SignTransaction preparedTx)
             (owned_signTransaction rhinestoneAccount preparedTx)) (\<lambda>signedTx.
     seq (log env Success ''Transaction signed'')
    (seq (log env Info ''Signing authorizations...'')
    (bind (await_sdk env ds sign (SignAuthorizations signedTx)
             (owned_signAuthorizations rhinestoneAccount signedTx)) (\<lambda>authorizations.
     seq (log env Success (''Authorizations signed: '' @ string_of_nat (length authorizations)))
    (seq (log env Info ''Submitting transaction...'')
    (bind (await_sdk env ds sign (SubmitTransaction signedTx authorizations)
             (owned_submitTransaction rhinestoneAccount signedTx authorizations)) (\<lambda>result.
     seq (log env Success ''=== TRANSACTION SUBMITTED ==='')
    (bind (stringify_template result) (\<lambda>dump.
     log env Info (''Result: '' @ dump)))))))))))"

text \<open>Everything up to the init-data signature yields the local variables of the rest.\<close>

definition RhinestoneTest_setup ::
  "RhinestoneTest_env \<Rightarrow>
     ('z world_scheme,
      signer \<times> (authorization_request \<Rightarrow> js_error + authorization) \<times> owned_account) proc" where
  "RhinestoneTest_setup env =
     bind (RhinestoneTest_connect env) (\<lambda>(addr, ds, sign).
     bind (RhinestoneTest_account env addr ds sign) (\<lambda>rhinestoneAccount.
     normal (ds, sign, rhinestoneAccount)))"

definition RhinestoneTest_body :: "RhinestoneTest_env \<Rightarrow> ('z world_scheme, unit) proc" where
  "RhinestoneTest_body env =
     bind (RhinestoneTest_setup env) (\<lambda>(ds, sign, rhinestoneAccount).
     bind (RhinestoneTest_initData env ds sign rhinestoneAccount) (\<lambda>sig.
     bind (RhinestoneTest_prepare env ds sign rhinestoneAccount sig) (\<lambda>preparedTx.
     RhinestoneTest_send env ds sign rhinestoneAccount preparedTx)))"

definition RhinestoneTest_runTest ::
  "RhinestoneTest_env \<Rightarrow> 'z world_scheme \<Rightarrow> js_error option \<times> 'z world_scheme \<times> trace" where
  "RhinestoneTest_runTest env w =
     async
       (try_finally
          (try_catch (RhinestoneTest_body env)
             (\<lambda>e. seq (log env Error (''Error: '' @ message e)) (console_error [] e)))
          (setRunning False))
       (setRunning True (setLogs [] w))"

section \<open>Process start\<close>

datatype page = Rhinestone | Eip7702

datatype root = Root page | Root_App

record rendered =
  environmentId :: string
  root_component :: root

text \<open>\<open>src/main.tsx\<close>: the entry point with the two pages.\<close>

definition main :: "'e ambient_scheme \<Rightarrow> js_error + rendered" where
  "main env =
     (if \<not> truthy (VITE_DYNAMIC_ENVIRONMENT_ID env)
      then Inl (JsError ''VITE_DYNAMIC_ENVIRONMENT_ID is required'')
      else Inr \<lparr>environmentId = the (VITE_DYNAMIC_ENVIRONMENT_ID env), root_component = Root Rhinestone\<rparr>)"

text \<open>The entry point that renders \<open>App\<close>.\<close>

definition main_App :: "'e ambient_scheme \<Rightarrow> js_error + rendered" where
  "main_App env =
     (if \<not> truthy (VITE_DYNAMIC_ENVIRONMENT_ID env)
      then Inl (JsError ''VITE_DYNAMIC_ENVIRONMENT_ID is required'')
      else Inr \<lparr>environmentId = the (VITE_DYNAMIC_ENVIRONMENT_ID env), root_component = Root_App\<rparr>)"

section \<open>Properties of statements\<close>

text \<open>What a log entry says, apart from when it was written.\<close>

definition content :: "log_entry \<Rightarrow> level \<times> string" where
  "content e = (level e, msg e)"

text \<open>A statement only ever appends to the log.\<close>

definition appends :: "('z world_scheme, 'a) proc \<Rightarrow> bool" where
  "appends m = (\<forall>w. \<exists>l. logs (world_of (m w)) = logs w @ l)"

text \<open>A statement leaves a part \<open>g\<close> of the world as it was.\<close>

definition keeps :: "('w \<Rightarrow> 'x) \<Rightarrow> ('w, 'a) proc \<Rightarrow> bool" where
  "keeps g m = (\<forall>w. g (world_of (m w)) = g w)"

text \<open>
  A statement behaves the same from every world: the same completion, the same calls,
  the same entries appended to the log (up to the time of writing).
\<close>

definition uniform :: "('z world_scheme, 'a) proc \<Rightarrow> bool" where
  "uniform m =
     (\<exists>c t l. \<forall>w. completion_of (m w) = c \<and> calls_of (m w) = t \<and>
        map content (logs (world_of (m w))) = map content (logs w) @ l)"

text \<open>The chain set that the wallet handle declares.\<close>

definition declared_chains :: "'e ambient_scheme \<Rightarrow> nat list" where
  "declared_chains env =
     (case primaryWallet env of
        None \<Rightarrow> []
      | Some pw \<Rightarrow>
          (case connector pw of
             None \<Rightarrow> []
           | Some c \<Rightarrow> (case evmNetworks c of None \<Rightarrow> [] | Some ns \<Rightarrow> ns)))"

text \<open>
  What an SDK operation ends with, and which calls to the wallet provider's signer the
  owner account makes on its behalf, given the signer's answers.
\<close>

primrec sdk_outcome ::
  "signer \<Rightarrow> (authorization_request \<Rightarrow> js_error + authorization) \<Rightarrow> 'a sdk_run \<Rightarrow> js_error + 'a" where
  "sdk_outcome ds sign (Resolves v) = Inr v"
| "sdk_outcome ds sign (Rejects e) = Inl e"
| "sdk_outcome ds sign (OwnerSignMessage m k) = sdk_outcome ds sign (k (signMessage ds m))"
| "sdk_outcome ds sign (OwnerSignTransaction tx k) = sdk_outcome ds sign (k (signTransaction ds tx))"
| "sdk_outcome ds sign (OwnerSignTypedData td k) =
     sdk_outcome ds sign (k (signTypedData ds (owner_typed_data td)))"
| "sdk_outcome ds sign (OwnerSignAuthorization a k) = sdk_outcome ds sign (k (sign (owner_request a)))"

definition thrown :: "js_error + 'a \<Rightarrow> js_error option" where
  "thrown r = (case r of Inl e \<Rightarrow> Some e | Inr v \<Rightarrow> None)"

primrec owner_calls ::
  "signer \<Rightarrow> (authorization_request \<Rightarrow> js_error + authorization) \<Rightarrow> 'a sdk_run \<Rightarrow> trace" where
  "owner_calls ds sign (Resolves v) = []"
| "owner_calls ds sign (Rejects e) = []"
| "owner_calls ds sign (OwnerSignMessage m k) =
     (SignerSignMessage m, thrown (signMessage ds m)) # owner_calls ds sign (k (signMessage ds m))"
| "owner_calls ds sign (OwnerSignTransaction tx k) =
     (SignerSignTransaction tx, thrown (signTransaction ds tx)) #
     owner_calls ds sign (k (signTransaction ds tx))"
| "owner_calls ds sign (OwnerSignTypedData td k) =
     (SignerSignTypedData (owner_typed_data td), thrown (signTypedData ds (owner_typed_data td))) #
     owner_calls ds sign (k (signTypedData ds (owner_typed_data td)))"
| "owner_calls ds sign (OwnerSignAuthorization a k) =
     (SignerSignAuthorization (owner_request a), thrown (sign (owner_request a))) #
     owner_calls ds sign (k (sign (owner_request a)))"

text \<open>The calls that go to the wallet provider's signer.\<close>

definition signer_call :: "call \<Rightarrow> bool" where
  "signer_call c =
     (case c of
        SignerSignAuthorization r \<Rightarrow> True
      | SignerSignMessage m \<Rightarrow> True
      | SignerSignTransaction t \<Rightarrow> True
      | SignerSignTypedData d \<Rightarrow> True
      | _ \<Rightarrow> False)"

text \<open>Every call a statement makes satisfies \<open>P\<close>.\<close>

definition only_calls :: "(call \<Rightarrow> bool) \<Rightarrow> ('w, 'a) proc \<Rightarrow> bool" where
  "only_calls P m = (\<forall>w. list_all (\<lambda>ev. P (fst ev)) (calls_of (m w)))"

text \<open>An entry of this level and message is in the log.\<close>

definition logged :: "level \<Rightarrow> string \<Rightarrow> 'z world_scheme \<Rightarrow> bool" where
  "logged l s w = ((l, s) \<in> set (map content (logs w)))"

text \<open>The init signature that step 8 hands to step 9.\<close>

definition App_init_signature :: "rhinestone_account \<Rightarrow> string option" where
  "App_init_signature ra =
     (case signEip7702InitData ra of
        Inl e \<Rightarrow> None
      | Inr sig \<Rightarrow> if truthy sig \<and> sig \<noteq> Some ''0x'' then sig else None)"

text \<open>Every entry of the log shows the time \<open>t\<close>.\<close>

definition stamped :: "string \<Rightarrow> 'z world_scheme \<Rightarrow> bool" where
  "stamped t w = list_all (\<lambda>e. time e = t) (logs w)"

section \<open>Mock collaborators\<close>

text \<open>
  Concrete collaborators on which the theorems below are exercised: a wallet-as-a-service
  wallet on two chains, an account-abstraction account that rejects JSON-RPC accounts, and
  a clock that shows the number of the reading.
\<close>

definition example_address :: string where
  "example_address = ''0x1111111111111111111111111111111111111111''"

definition example_delegate :: string where
  "example_delegate = ''0x2222222222222222222222222222222222222222''"

definition example_clock :: "nat \<Rightarrow> string" where
  "example_clock k = string_of_nat k"

definition example_authorization :: authorization where
  "example_authorization =
     \<lparr>auth_contractAddress = Some example_delegate, auth_address = None, auth_chainId = 8453,
      auth_nonce = 3, auth_r = Some ''0x1'', auth_s = ''0x2'', auth_yParity = 0\<rparr>"

definition example_signer :: signer where
  "example_signer =
     \<lparr>signer_account_address = Some example_address,
      signAuthorization = Some (\<lambda>req. Inr example_authorization),
      signMessage = (\<lambda>m. Inr ''0x51''),
      signTransaction = (\<lambda>t. Inr ''0x52''),
      signTypedData = (\<lambda>t. Inr ''0x53'')\<rparr>"

definition example_connector :: "nat list \<Rightarrow> connector" where
  "example_connector ns =
     \<lparr>name = Some ''Dynamic Waas'',
      evmNetworks = Some ns,
      isSignAuthorizationSupported = Some (Inr True),
      getNetwork = Some (Inr (Some 1)),
      switchNetwork = Some (\<lambda>n. Inr ()),
      setActiveAccount = Some (\<lambda>a. Inr ()),
      getActiveAccount = Some (Inr (Some example_address)),
      getSigner = Some (Inr (Some example_signer)),
      has_getWalletClient = True,
      has_exportPrivateKey = False\<rparr>"

definition example_wallet :: "nat list \<Rightarrow> wallet" where
  "example_wallet ns =
     \<lparr>address = example_address,
      connector = Some (example_connector ns),
      getWalletClient = Inr (Some (Handle 0))\<rparr>"

definition example_wallet_client :: wallet_client where
  "example_wallet_client =
     \<lparr>walletClient_signAuthorization = Some (\<lambda>d. Inl (JsError ''Method not found''))\<rparr>"

definition example_account :: "(tx_params \<Rightarrow> js_error + prepared_tx) \<Rightarrow> rhinestone_account" where
  "example_account prepare =
     \<lparr>getAddress = Inr example_address,
      isDeployed = (\<lambda>c. Inr False),
      signEip7702InitData = Inl (JsError ''User rejected the request''),
      prepareTransaction = prepare,
      signAuthorizations = (\<lambda>t. Inl (JsError ''Account type json-rpc is not supported'')),
      getTransactionMessages = (\<lambda>t. Inr (Text (example_address @ '' '' @ example_delegate)))\<rparr>"

definition example_App_env ::
  "wallet option \<Rightarrow> string option \<Rightarrow> (tx_params \<Rightarrow> js_error + prepared_tx) \<Rightarrow> App_env" where
  "example_App_env pw key prepare =
     \<lparr>toLocaleTimeString = example_clock,
      VITE_RHINESTONE_API_KEY = key,
      VITE_DYNAMIC_ENVIRONMENT_ID = Some ''environment'',
      primaryWallet = pw,
      createWalletClient = (\<lambda>a c p. Inr example_wallet_client),
      walletClientToAccount = (\<lambda>wc. Inr \<lparr>account_type = None\<rparr>),
      newRhinestoneSDK = (\<lambda>k. Inr \<lparr>createAccount = (\<lambda>t. Inr (example_account prepare))\<rparr>)\<rparr>"

text \<open>The component state before the first run.\<close>

definition initial_world :: world where
  "initial_world = \<lparr>logs = [], running = False, console = [], clock_reads = 0\<rparr>"

definition initial_eip7702_world :: eip7702_world where
  "initial_eip7702_world =
     \<lparr>logs = [], running = False, console = [], clock_reads = 0,
      contractAddress = TEST_DELEGATE_CONTRACT, lastAuthorization = None\<rparr>"

definition example_owned_account :: "(tx_params \<Rightarrow> prepared_tx sdk_run) \<Rightarrow> owned_account" where
  "example_owned_account prepare =
     \<lparr>owned_getAddress = Inr example_address,
      owned_signEip7702InitData =
        OwnerSignMessage (JString ''init'') (\<lambda>r. Rejects (JsError ''User rejected the request'')),
      owned_prepareTransaction = prepare,
      owned_signTransaction =
        (\<lambda>p. OwnerSignTypedData
               \<lparr>td_domain = JObject [(''chainId'', JBigInt 8453)], td_types = JNull,
                td_primaryType = ''Transaction'', td_message = JNull\<rparr>
               (\<lambda>r. case r of Inl e \<Rightarrow> Rejects e | Inr s \<Rightarrow> Resolves (Handle 2))),
      owned_signAuthorizations =
        (\<lambda>t. OwnerSignAuthorization
               \<lparr>param_contractAddress = None, param_address = Some example_delegate,
                param_chainId = 8453, param_nonce = Some 3\<rparr>
               (\<lambda>r. case r of Inl e \<Rightarrow> Rejects e | Inr a \<Rightarrow> Resolves [a])),
      owned_submitTransaction = (\<lambda>t as. Resolves (Text ''submitted''))\<rparr>"

definition example_RhinestoneTest_env ::
  "wallet option \<Rightarrow> string option \<Rightarrow> (tx_params \<Rightarrow> prepared_tx sdk_run) \<Rightarrow> RhinestoneTest_env" where
  "example_RhinestoneTest_env pw key prepare =
     \<lparr>toLocaleTimeString = example_clock,
      VITE_RHINESTONE_API_KEY = key,
      VITE_DYNAMIC_ENVIRONMENT_ID = Some ''environment'',
      primaryWallet = pw,
      toAccount = (\<lambda>a. Inr ()),
      owned_newRhinestoneSDK =
        (\<lambda>k. Inr \<lparr>owned_createAccount = Resolves (example_owned_account prepare)\<rparr>)\<rparr>"

definition example_ambient :: "wallet option \<Rightarrow> ambient" where
  "example_ambient pw =
     \<lparr>toLocaleTimeString = example_clock,
      VITE_RHINESTONE_API_KEY = None,
      VITE_DYNAMIC_ENVIRONMENT_ID = Some ''environment'',
      primaryWallet = pw\<rparr>"

text \<open>
  The same collaborators, but the transaction messages name no address other than the
  sender's.
\<close>

definition example_sender_only_env :: App_env where
  "example_sender_only_env =
     (example_App_env (Some (example_wallet [1, 8453])) (Some ''key'') (\<lambda>p. Inr (Handle 1)))
       \<lparr>newRhinestoneSDK :=
          (\<lambda>k. Inr \<lparr>createAccount =
             (\<lambda>t. Inr ((example_account (\<lambda>p. Inr (Handle 1)))
                \<lparr>getTransactionMessages := (\<lambda>t. Inr (Text (''from '' @ example_address)))\<rparr>))\<rparr>)\<rparr>"

section \<open>Reading off completion, world and calls\<close>

named_theorems flow
named_theorems world

lemma flow_normal [flow]:
  "completion_of (normal a w) = Normal a" "calls_of (normal a w) = []"
  by (simp_all add: completion_of_def calls_of_def normal_def)

lemma world_normal [world]: "world_of (normal a w) = w"
  by (simp add: world_of_def normal_def)

lemma flow_return [flow]:
  "completion_of (return_stmt w) = Return" "calls_of (return_stmt w) = []"
  by (simp_all add: completion_of_def calls_of_def return_stmt_def)

lemma world_return [world]: "world_of (return_stmt w) = w"
  by (simp add: world_of_def return_stmt_def)

lemma flow_throw [flow]:
  "completion_of (throw e w) = Throw e" "calls_of (throw e w) = []"
  by (simp_all add: completion_of_def calls_of_def throw_def)

lemma world_throw [world]: "world_of (throw e w) = w"
  by (simp add: world_of_def throw_def)

lemma flow_modify [flow]:
  "completion_of (modify f w) = Normal ()" "calls_of (modify f w) = []"
  by (simp_all add: completion_of_def calls_of_def modify_def)

lemma world_modify [world]: "world_of (modify f w) = f w"
  by (simp add: world_of_def modify_def)

lemma flow_invoke [flow]:
  "completion_of (invoke c r w) = (case r of Inl e \<Rightarrow> Throw e | Inr v \<Rightarrow> Normal v)"
  "calls_of (invoke c r w) = [(c, case r of Inl e \<Rightarrow> Some e | Inr v \<Rightarrow> None)]"
  by (simp_all add: completion_of_def calls_of_def invoke_def split: sum.splits)

lemma world_invoke [world]: "world_of (invoke c r w) = w"
  by (simp add: world_of_def invoke_def split: sum.splits)

lemma flow_answer [flow]:
  "completion_of (answer c r w) = Normal r"
  "calls_of (answer c r w) = [(c, case r of Inl e \<Rightarrow> Some e | Inr v \<Rightarrow> None)]"
  by (simp_all add: completion_of_def calls_of_def answer_def)

lemma world_answer [world]: "world_of (answer c r w) = w"
  by (simp add: world_of_def answer_def)

lemma flow_log [flow]:
  "completion_of (log env l s w) = Normal ()" "calls_of (log env l s w) = []"
  by (simp_all add: completion_of_def calls_of_def log_def modify_def)

lemma world_log [world]:
  "world_of (log env l s w) =
     w\<lparr>logs := logs w @ [\<lparr>time = toLocaleTimeString env (clock_reads w), level = l, msg = s\<rparr>],
       console := console w @ [ConsoleLog (''['' @ toUpperCase_level l @ ''] '' @ s)],
       clock_reads := Suc (clock_reads w)\<rparr>"
  by (simp add: world_of_def log_def modify_def)

lemma flow_console_error [flow]:
  "completion_of (console_error l e w) = Normal ()" "calls_of (console_error l e w) = []"
  by (simp_all add: completion_of_def calls_of_def console_error_def modify_def)

lemma world_console_error [world]:
  "world_of (console_error l e w) = w\<lparr>console := console w @ [ConsoleError l e]\<rparr>"
  by (simp add: world_of_def console_error_def modify_def)

lemma flow_bind [flow]:
  "completion_of (bind m f w) =
     (case completion_of (m w) of
        Normal a \<Rightarrow> completion_of (f a (world_of (m w))) | Return \<Rightarrow> Return | Throw e \<Rightarrow> Throw e)"
  "calls_of (bind m f w) =
     calls_of (m w) @
     (case completion_of (m w) of
        Normal a \<Rightarrow> calls_of (f a (world_of (m w))) | Return \<Rightarrow> [] | Throw e \<Rightarrow> [])"
  by (simp_all add: completion_of_def world_of_def calls_of_def bind_def
      split: prod.splits completion.splits)

lemma world_bind [world]:
  "world_of (bind m f w) =
     (case completion_of (m w) of
        Normal a \<Rightarrow> world_of (f a (world_of (m w)))
      | Return \<Rightarrow> world_of (m w)
      | Throw e \<Rightarrow> world_of (m w))"
  by (simp add: completion_of_def world_of_def bind_def split: prod.splits completion.splits)

lemma flow_seq [flow]:
  "completion_of (seq m n w) =
     (case completion_of (m w) of
        Normal a \<Rightarrow> completion_of (n (world_of (m w))) | Return \<Rightarrow> Return | Throw e \<Rightarrow> Throw e)"
  "calls_of (seq m n w) =
     calls_of (m w) @
     (case completion_of (m w) of
        Normal a \<Rightarrow> calls_of (n (world_of (m w))) | Return \<Rightarrow> [] | Throw e \<Rightarrow> [])"
  by (simp_all add: seq_def flow_bind)

lemma world_seq [world]:
  "world_of (seq m n w) =
     (case completion_of (m w) of
        Normal a \<Rightarrow> world_of (n (world_of (m w)))
      | Return \<Rightarrow> world_of (m w)
      | Throw e \<Rightarrow> world_of (m w))"
  by (simp add: seq_def world_bind)

lemma flow_try_catch [flow]:
  "completion_of (try_catch m h w) =
     (case completion_of (m w) of
        Throw e \<Rightarrow> completion_of (h e (world_of (m w))) | Normal a \<Rightarrow> Normal a | Return \<Rightarrow> Return)"
  "calls_of (try_catch m h w) =
     calls_of (m w) @
     (case completion_of (m w) of
        Throw e \<Rightarrow> calls_of (h e (world_of (m w))) | Normal a \<Rightarrow> [] | Return \<Rightarrow> [])"
  by (simp_all add: completion_of_def world_of_def calls_of_def try_catch_def
      split: prod.splits completion.splits)

lemma world_try_catch [world]:
  "world_of (try_catch m h w) =
     (case completion_of (m w) of
        Throw e \<Rightarrow> world_of (h e (world_of (m w)))
      | Normal a \<Rightarrow> world_of (m w)
      | Return \<Rightarrow> world_of (m w))"
  by (simp add: completion_of_def world_of_def try_catch_def split: prod.splits completion.splits)

lemma flow_try_finally [flow]:
  "completion_of (try_finally m fin w) = completion_of (m w)"
  "calls_of (try_finally m fin w) = calls_of (m w)"
  by (simp_all add: completion_of_def calls_of_def try_finally_def split: prod.splits)

lemma world_try_finally [world]:
  "world_of (try_finally m fin w) = fin (world_of (m w))"
  by (simp add: world_of_def try_finally_def split: prod.splits)

lemma flow_only_if [flow]:
  "completion_of (only_if b m w) = (if b then completion_of (m w) else Normal ())"
  "calls_of (only_if b m w) = (if b then calls_of (m w) else [])"
  by (simp_all add: only_if_def flow_normal)

lemma world_only_if [world]:
  "world_of (only_if b m w) = (if b then world_of (m w) else w)"
  by (simp add: only_if_def world_normal)

lemma async_parts:
  "rejection (async m w) = (case completion_of (m w) of Throw e \<Rightarrow> Some e | Normal a \<Rightarrow> None | Return \<Rightarrow> None)"
  "final (async m w) = world_of (m w)"
  "calls (async m w) = calls_of (m w)"
  by (simp_all add: rejection_def final_def calls_def async_def completion_of_def world_of_def
      calls_of_def split: prod.splits completion.splits)

subsection \<open>Statements that only append to the log\<close>

named_theorems appends_intro

lemma appendsI: "(\<And>w. \<exists>l. logs (world_of (m w)) = logs w @ l) \<Longrightarrow> appends m"
  by (simp add: appends_def)

lemma appendsD: "appends m \<Longrightarrow> \<exists>l. logs (world_of (m w)) = logs w @ l"
  by (simp add: appends_def)

lemma appends_normal [appends_intro]: "appends (normal a)"
  by (simp add: appends_def world)

lemma appends_return [appends_intro]: "appends return_stmt"
  by (simp add: appends_def world)

lemma appends_throw [appends_intro]: "appends (throw e)"
  by (simp add: appends_def world)

lemma appends_invoke [appends_intro]: "appends (invoke c r)"
  by (simp add: appends_def world)

lemma appends_answer [appends_intro]: "appends (answer c r)"
  by (simp add: appends_def world)

lemma appends_log [appends_intro]: "appends (log env l s)"
  by (simp add: appends_def world)

lemma appends_console_error [appends_intro]: "appends (console_error l e)"
  by (simp add: appends_def world)

lemma appends_setLastAuthorization [appends_intro]: "appends (modify (setLastAuthorization a))"
  by (simp add: appends_def world setLastAuthorization_def)

lemma appends_bind [appends_intro]:
  assumes "appends m" and "\<And>a. appends (f a)"
  shows "appends (bind m f)"
proof (rule appendsI)
  fix w
  obtain l where l: "logs (world_of (m w)) = logs w @ l"
    using appendsD [OF assms(1)] by blast
  show "\<exists>k. logs (world_of (bind m f w)) = logs w @ k"
  proof (cases "completion_of (m w)")
    case (Normal a)
    obtain k where "logs (world_of (f a (world_of (m w)))) = logs (world_of (m w)) @ k"
      using appendsD [OF assms(2)] by blast
    with l Normal show ?thesis by (simp add: world_bind)
  next
    case Return
    with l show ?thesis by (simp add: world_bind)
  next
    case (Throw e)
    with l show ?thesis by (simp add: world_bind)
  qed
qed

lemma appends_seq [appends_intro]: "appends m \<Longrightarrow> appends n \<Longrightarrow> appends (seq m n)"
  by (simp add: seq_def appends_bind)

lemma appends_try_catch [appends_intro]:
  assumes "appends m" and "\<And>e. appends (h e)"
  shows "appends (try_catch m h)"
proof (rule appendsI)
  fix w
  obtain l where l: "logs (world_of (m w)) = logs w @ l"
    using appendsD [OF assms(1)] by blast
  show "\<exists>k. logs (world_of (try_catch m h w)) = logs w @ k"
  proof (cases "completion_of (m w)")
    case (Throw e)
    obtain k where "logs (world_of (h e (world_of (m w)))) = logs (world_of (m w)) @ k"
      using appendsD [OF assms(2)] by blast
    with l Throw show ?thesis by (simp add: world_try_catch)
  next
    case Return
    with l show ?thesis by (simp add: world_try_catch)
  next
    case (Normal a)
    with l show ?thesis by (simp add: world_try_catch)
  qed
qed

lemma appends_only_if [appends_intro]: "appends m \<Longrightarrow> appends (only_if b m)"
  by (simp add: only_if_def appends_normal)

lemma appends_block_Nil [appends_intro]: "appends (block [])"
  by (simp add: appends_normal)

lemma appends_block_Cons [appends_intro]: "appends m \<Longrightarrow> appends (block ms) \<Longrightarrow> appends (block (m # ms))"
  by (simp add: appends_seq)

lemma appends_if [appends_intro]: "appends m \<Longrightarrow> appends n \<Longrightarrow> appends (if b then m else n)"
  by simp

lemma appends_case_option [appends_intro]:
  "appends m \<Longrightarrow> (\<And>x. appends (f x)) \<Longrightarrow> appends (case v of None \<Rightarrow> m | Some x \<Rightarrow> f x)"
  by (simp split: option.splits)

lemma appends_case_stringified [appends_intro]:
  "(\<And>s. appends (f s)) \<Longrightarrow> appends m \<Longrightarrow> (\<And>e. appends (g e)) \<Longrightarrow>
   appends (case d of Text s \<Rightarrow> f s | Undefined \<Rightarrow> m | Raises e \<Rightarrow> g e)"
  by (simp split: stringified.splits)

lemma logged_after:
  assumes "appends m" and "x \<in> set (logs w)"
  shows "x \<in> set (logs (world_of (m w)))"
  using appendsD [OF assms(1), of w] assms(2) by auto

subsection \<open>The frame of every \<open>runTest\<close>\<close>

lemma run_calls:
  assumes "\<And>e w'. calls_of (h e w') = []"
  shows "calls (async (try_finally (try_catch b h) fin) w) = calls_of (b w)"
  using assms by (simp add: async_parts flow split: completion.splits)

lemma run_rejection:
  assumes "\<And>e w'. completion_of (h e w') = Normal ()"
  shows "rejection (async (try_finally (try_catch b h) fin) w) = None"
  using assms by (simp add: async_parts flow split: completion.splits)

lemma run_logs_unthrown:
  assumes "\<And>e. completion_of (b w) \<noteq> Throw e"
  shows "logs (final (async (try_finally (try_catch b h) (setRunning False)) w)) = logs (world_of (b w))"
  using assms by (simp add: async_parts world setRunning_def split: completion.splits)

lemma run_logs_thrown:
  assumes "completion_of (b w) = Throw e"
  shows "logs (final (async (try_finally (try_catch b h) (setRunning False)) w)) =
           logs (world_of (h e (world_of (b w))))"
  using assms by (simp add: async_parts world setRunning_def)

lemma run_logged:
  assumes "\<And>e. appends (h e)" and "x \<in> set (logs (world_of (b w)))"
  shows "x \<in> set (logs (final (async (try_finally (try_catch b h) (setRunning False)) w)))"
proof (cases "completion_of (b w)")
  case (Throw e)
  with logged_after [OF assms(1) assms(2), of e] show ?thesis
    by (simp add: run_logs_thrown)
next
  case (Normal a)
  with assms(2) show ?thesis by (simp add: run_logs_unthrown)
next
  case Return
  with assms(2) show ?thesis by (simp add: run_logs_unthrown)
qed

lemma run_not_running:
  "\<not> running (final (async (try_finally (try_catch b h) (setRunning False)) w))"
  by (simp add: async_parts world setRunning_def)

lemma logged_bind_left:
  assumes "x \<in> set (logs (world_of (m w)))" and "\<And>a. appends (f a)"
  shows "x \<in> set (logs (world_of (bind m f w)))"
  using assms(1) logged_after [OF assms(2) assms(1)]
  by (simp add: world_bind split: completion.splits)

lemma appends_case_prod [appends_intro]:
  "(\<And>a b. appends (f a b)) \<Longrightarrow> appends (case p of (a, b) \<Rightarrow> f a b)"
  by (simp split: prod.splits)

lemma appends_case_sum [appends_intro]:
  "(\<And>a. appends (f a)) \<Longrightarrow> (\<And>b. appends (g b)) \<Longrightarrow> appends (case v of Inl a \<Rightarrow> f a | Inr b \<Rightarrow> g b)"
  by (simp split: sum.splits)

subsection \<open>Statements that leave a part of the world alone\<close>

named_theorems keeps_intro

lemma keepsD: "keeps g m \<Longrightarrow> g (world_of (m w)) = g w"
  by (simp add: keeps_def)

lemma keeps_normal [keeps_intro]: "keeps g (normal a)"
  by (simp add: keeps_def world)

lemma keeps_return [keeps_intro]: "keeps g return_stmt"
  by (simp add: keeps_def world)

lemma keeps_throw [keeps_intro]: "keeps g (throw e)"
  by (simp add: keeps_def world)

lemma keeps_invoke [keeps_intro]: "keeps g (invoke c r)"
  by (simp add: keeps_def world)

lemma keeps_answer [keeps_intro]: "keeps g (answer c r)"
  by (simp add: keeps_def world)

lemma keeps_bind [keeps_intro]:
  assumes "keeps g m" and "\<And>a. keeps g (f a)"
  shows "keeps g (bind m f)"
  using keepsD [OF assms(1)] keepsD [OF assms(2)]
  by (simp add: keeps_def world_bind split: completion.splits)

lemma keeps_seq [keeps_intro]: "keeps g m \<Longrightarrow> keeps g n \<Longrightarrow> keeps g (seq m n)"
  by (simp add: seq_def keeps_bind)

lemma keeps_try_catch [keeps_intro]:
  assumes "keeps g m" and "\<And>e. keeps g (h e)"
  shows "keeps g (try_catch m h)"
  using keepsD [OF assms(1)] keepsD [OF assms(2)]
  by (simp add: keeps_def world_try_catch split: completion.splits)

lemma keeps_only_if [keeps_intro]: "keeps g m \<Longrightarrow> keeps g (only_if b m)"
  by (simp add: only_if_def keeps_normal)

lemma keeps_block_Nil [keeps_intro]: "keeps g (block [])"
  by (simp add: keeps_normal)

lemma keeps_block_Cons [keeps_intro]: "keeps g m \<Longrightarrow> keeps g (block ms) \<Longrightarrow> keeps g (block (m # ms))"
  by (simp add: keeps_seq)

lemma keeps_if [keeps_intro]: "keeps g m \<Longrightarrow> keeps g n \<Longrightarrow> keeps g (if b then m else n)"
  by simp

lemma keeps_case_option [keeps_intro]:
  "keeps g m \<Longrightarrow> (\<And>x. keeps g (f x)) \<Longrightarrow> keeps g (case v of None \<Rightarrow> m | Some x \<Rightarrow> f x)"
  by (simp split: option.splits)

lemma keeps_case_prod [keeps_intro]:
  "(\<And>a b. keeps g (f a b)) \<Longrightarrow> keeps g (case p of (a, b) \<Rightarrow> f a b)"
  by (simp split: prod.splits)

lemma keeps_case_stringified [keeps_intro]:
  "(\<And>s. keeps g (f s)) \<Longrightarrow> keeps g m \<Longrightarrow> (\<And>e. keeps g (h e)) \<Longrightarrow>
   keeps g (case d of Text s \<Rightarrow> f s | Undefined \<Rightarrow> m | Raises e \<Rightarrow> h e)"
  by (simp split: stringified.splits)

lemma keeps_running_log [keeps_intro]: "keeps running (log env l s)"
  by (simp add: keeps_def world)

lemma keeps_running_console_error [keeps_intro]: "keeps running (console_error l e)"
  by (simp add: keeps_def world)

lemma keeps_running_setLastAuthorization [keeps_intro]:
  "keeps running (modify (setLastAuthorization a))"
  by (simp add: keeps_def world setLastAuthorization_def)

lemma keeps_contractAddress_log [keeps_intro]: "keeps contractAddress (log env l s)"
  by (simp add: keeps_def world)

lemma keeps_contractAddress_console_error [keeps_intro]: "keeps contractAddress (console_error l e)"
  by (simp add: keeps_def world)

lemma keeps_contractAddress_setLastAuthorization [keeps_intro]:
  "keeps contractAddress (modify (setLastAuthorization a))"
  by (simp add: keeps_def world setLastAuthorization_def)

lemma keeps_lastAuthorization_log [keeps_intro]: "keeps lastAuthorization (log env l s)"
  by (simp add: keeps_def world)

lemma keeps_lastAuthorization_console_error [keeps_intro]:
  "keeps lastAuthorization (console_error l e)"
  by (simp add: keeps_def world)

subsection \<open>Statements that behave the same from every world\<close>

named_theorems uniform_intro

lemma uniformI:
  assumes "\<And>w. completion_of (m w) = c" and "\<And>w. calls_of (m w) = t"
    and "\<And>w. map content (logs (world_of (m w))) = map content (logs w) @ l"
  shows "uniform m"
  unfolding uniform_def using assms by blast

lemma uniform_normal [uniform_intro]: "uniform (normal a)"
  by (rule uniformI [where l = "[]"]) (simp_all add: flow world)

lemma uniform_return [uniform_intro]: "uniform return_stmt"
  by (rule uniformI [where l = "[]"]) (simp_all add: flow world)

lemma uniform_throw [uniform_intro]: "uniform (throw e)"
  by (rule uniformI [where l = "[]"]) (simp_all add: flow world)

lemma uniform_invoke [uniform_intro]: "uniform (invoke c r)"
  by (rule uniformI [where l = "[]"]) (simp_all add: flow world)

lemma uniform_answer [uniform_intro]: "uniform (answer c r)"
  by (rule uniformI [where l = "[]"]) (simp_all add: flow world)

lemma uniform_log [uniform_intro]: "uniform (log env l s)"
  by (rule uniformI [where l = "[(l, s)]"]) (simp_all add: flow world content_def)

lemma uniform_console_error [uniform_intro]: "uniform (console_error l e)"
  by (rule uniformI [where l = "[]"]) (simp_all add: flow world)

lemma uniform_setLastAuthorization [uniform_intro]: "uniform (modify (setLastAuthorization a))"
  by (rule uniformI [where l = "[]"]) (simp_all add: flow world setLastAuthorization_def)

lemma uniform_bind [uniform_intro]:
  assumes "uniform m" and "\<And>a. uniform (f a)"
  shows "uniform (bind m f)"
proof -
  from assms(1) obtain c t l where m:
    "\<And>w. completion_of (m w) = c" "\<And>w. calls_of (m w) = t"
    "\<And>w. map content (logs (world_of (m w))) = map content (logs w) @ l"
    unfolding uniform_def by blast
  show ?thesis
  proof (cases c)
    case (Normal a)
    from assms(2) [of a] obtain c' t' l' where f:
      "\<And>w. completion_of (f a w) = c'" "\<And>w. calls_of (f a w) = t'"
      "\<And>w. map content (logs (world_of (f a w))) = map content (logs w) @ l'"
      unfolding uniform_def by blast
    show ?thesis
      by (rule uniformI [where c = c' and t = "t @ t'" and l = "l @ l'"])
        (simp_all add: flow_bind world_bind m f Normal)
  next
    case Return
    show ?thesis
      by (rule uniformI [where c = Return and t = t and l = l])
        (simp_all add: flow_bind world_bind m Return)
  next
    case (Throw e)
    show ?thesis
      by (rule uniformI [where c = "Throw e" and t = t and l = l])
        (simp_all add: flow_bind world_bind m Throw)
  qed
qed

lemma uniform_seq [uniform_intro]: "uniform m \<Longrightarrow> uniform n \<Longrightarrow> uniform (seq m n)"
  by (simp add: seq_def uniform_bind)

lemma uniform_try_catch [uniform_intro]:
  assumes "uniform m" and "\<And>e. uniform (h e)"
  shows "uniform (try_catch m h)"
proof -
  from assms(1) obtain c t l where m:
    "\<And>w. completion_of (m w) = c" "\<And>w. calls_of (m w) = t"
    "\<And>w. map content (logs (world_of (m w))) = map content (logs w) @ l"
    unfolding uniform_def by blast
  show ?thesis
  proof (cases c)
    case (Throw e)
    from assms(2) [of e] obtain c' t' l' where h:
      "\<And>w. completion_of (h e w) = c'" "\<And>w. calls_of (h e w) = t'"
      "\<And>w. map content (logs (world_of (h e w))) = map content (logs w) @ l'"
      unfolding uniform_def by blast
    show ?thesis
      by (rule uniformI [where c = c' and t = "t @ t'" and l = "l @ l'"])
        (simp_all add: flow_try_catch world_try_catch m h Throw)
  next
    case Return
    show ?thesis
      by (rule uniformI [where c = Return and t = t and l = l])
        (simp_all add: flow_try_catch world_try_catch m Return)
  next
    case (Normal a)
    show ?thesis
      by (rule uniformI [where c = "Normal a" and t = t and l = l])
        (simp_all add: flow_try_catch world_try_catch m Normal)
  qed
qed

lemma uniform_only_if [uniform_intro]: "uniform m \<Longrightarrow> uniform (only_if b m)"
  by (simp add: only_if_def uniform_normal)

lemma uniform_block_Nil [uniform_intro]: "uniform (block [])"
  by (simp add: uniform_normal)

lemma uniform_block_Cons [uniform_intro]:
  "uniform m \<Longrightarrow> uniform (block ms) \<Longrightarrow> uniform (block (m # ms))"
  by (simp add: uniform_seq)

lemma uniform_if [uniform_intro]: "uniform m \<Longrightarrow> uniform n \<Longrightarrow> uniform (if b then m else n)"
  by simp

lemma uniform_case_option [uniform_intro]:
  "uniform m \<Longrightarrow> (\<And>x. uniform (f x)) \<Longrightarrow> uniform (case v of None \<Rightarrow> m | Some x \<Rightarrow> f x)"
  by (simp split: option.splits)

lemma uniform_case_prod [uniform_intro]:
  "(\<And>a b. uniform (f a b)) \<Longrightarrow> uniform (case p of (a, b) \<Rightarrow> f a b)"
  by (simp split: prod.splits)

lemma uniform_case_stringified [uniform_intro]:
  "(\<And>s. uniform (f s)) \<Longrightarrow> uniform m \<Longrightarrow> (\<And>e. uniform (h e)) \<Longrightarrow>
   uniform (case d of Text s \<Rightarrow> f s | Undefined \<Rightarrow> m | Raises e \<Rightarrow> h e)"
  by (simp split: stringified.splits)

lemma uniform_let [uniform_intro]: "uniform (f v) \<Longrightarrow> uniform (let x = v in f x)"
  by simp

text \<open>
  A run is the same from every world whose log is empty: in particular from the world
  that an earlier run has left, once the log is cleared.
\<close>

lemma uniform_run:
  assumes "uniform b" and "logs w1 = []" and "logs w2 = []"
  shows "map content (logs (final (async (try_finally b (setRunning False)) w1))) =
           map content (logs (final (async (try_finally b (setRunning False)) w2))) \<and>
         calls (async (try_finally b (setRunning False)) w1) =
           calls (async (try_finally b (setRunning False)) w2) \<and>
         rejection (async (try_finally b (setRunning False)) w1) =
           rejection (async (try_finally b (setRunning False)) w2)"
proof -
  from assms(1) obtain c t l where b:
    "\<And>w. completion_of (b w) = c" "\<And>w. calls_of (b w) = t"
    "\<And>w. map content (logs (world_of (b w))) = map content (logs w) @ l"
    unfolding uniform_def by blast
  show ?thesis
    using assms(2,3) by (simp add: async_parts flow world b setRunning_def)
qed

subsection \<open>Statements restricted in the calls they make\<close>

named_theorems only_calls_intro

lemma only_callsD: "only_calls P m \<Longrightarrow> ev \<in> set (calls_of (m w)) \<Longrightarrow> P (fst ev)"
  by (auto simp add: only_calls_def list_all_iff)

lemma only_calls_normal [only_calls_intro]: "only_calls P (normal a)"
  by (simp add: only_calls_def flow)

lemma only_calls_return [only_calls_intro]: "only_calls P return_stmt"
  by (simp add: only_calls_def flow)

lemma only_calls_throw [only_calls_intro]: "only_calls P (throw e)"
  by (simp add: only_calls_def flow)

lemma only_calls_log [only_calls_intro]: "only_calls P (log env l s)"
  by (simp add: only_calls_def flow)

lemma only_calls_modify [only_calls_intro]: "only_calls P (modify f)"
  by (simp add: only_calls_def flow)

lemma only_calls_invoke [only_calls_intro]: "P c \<Longrightarrow> only_calls P (invoke c r)"
  by (simp add: only_calls_def flow)

lemma only_calls_answer [only_calls_intro]: "P c \<Longrightarrow> only_calls P (answer c r)"
  by (simp add: only_calls_def flow)

lemma only_calls_bind [only_calls_intro]:
  "only_calls P m \<Longrightarrow> (\<And>a. only_calls P (f a)) \<Longrightarrow> only_calls P (bind m f)"
  by (simp add: only_calls_def flow_bind split: completion.splits)

lemma only_calls_seq [only_calls_intro]:
  "only_calls P m \<Longrightarrow> only_calls P n \<Longrightarrow> only_calls P (seq m n)"
  by (simp add: seq_def only_calls_bind)

lemma only_calls_try_catch [only_calls_intro]:
  "only_calls P m \<Longrightarrow> (\<And>e. only_calls P (h e)) \<Longrightarrow> only_calls P (try_catch m h)"
  by (simp add: only_calls_def flow_try_catch split: completion.splits)

lemma only_calls_only_if [only_calls_intro]: "only_calls P m \<Longrightarrow> only_calls P (only_if b m)"
  by (simp add: only_if_def only_calls_normal)

lemma only_calls_block_Nil [only_calls_intro]: "only_calls P (block [])"
  by (simp add: only_calls_normal)

lemma only_calls_block_Cons [only_calls_intro]:
  "only_calls P m \<Longrightarrow> only_calls P (block ms) \<Longrightarrow> only_calls P (block (m # ms))"
  by (simp add: only_calls_seq)

lemma only_calls_if [only_calls_intro]:
  "only_calls P m \<Longrightarrow> only_calls P n \<Longrightarrow> only_calls P (if b then m else n)"
  by simp

lemma only_calls_case_option [only_calls_intro]:
  "only_calls P m \<Longrightarrow> (\<And>x. only_calls P (f x)) \<Longrightarrow>
   only_calls P (case v of None \<Rightarrow> m | Some x \<Rightarrow> f x)"
  by (simp split: option.splits)

lemma only_calls_case_prod [only_calls_intro]:
  "(\<And>a b. only_calls P (f a b)) \<Longrightarrow> only_calls P (case p of (a, b) \<Rightarrow> f a b)"
  by (simp split: prod.splits)

lemma only_calls_case_stringified [only_calls_intro]:
  "(\<And>s. only_calls P (f s)) \<Longrightarrow> only_calls P m \<Longrightarrow> (\<And>e. only_calls P (h e)) \<Longrightarrow>
   only_calls P (case d of Text s \<Rightarrow> f s | Undefined \<Rightarrow> m | Raises e \<Rightarrow> h e)"
  by (simp split: stringified.splits)

section \<open>The bug-reproduction component: what each step does\<close>

lemma App_step1_flow [flow]:
  "completion_of (App_step1 env w) = (case primaryWallet env of None \<Rightarrow> Return | Some pw \<Rightarrow> Normal pw)"
  "calls_of (App_step1 env w) = []"
  by (simp_all add: App_step1_def flow split: option.splits)

lemma App_step2_flow [flow]:
  "completion_of (App_step2 env pw w) =
     (case getWalletClient pw of Inl e \<Rightarrow> Throw e | Inr None \<Rightarrow> Return | Inr (Some p) \<Rightarrow> Normal p)"
  "calls_of (App_step2 env pw w) =
     [(GetWalletClient, case getWalletClient pw of Inl e \<Rightarrow> Some e | Inr v \<Rightarrow> None)]"
  by (simp_all add: App_step2_def flow split: option.splits sum.splits)

lemma App_step3_flow [flow]:
  "completion_of (App_step3 env a p w) =
     (case createWalletClient env a base_id p of Inl e \<Rightarrow> Throw e | Inr wc \<Rightarrow> Normal wc)"
  "calls_of (App_step3 env a p w) =
     [(CreateWalletClient a base_id p,
       case createWalletClient env a base_id p of Inl e \<Rightarrow> Some e | Inr v \<Rightarrow> None)]"
  by (simp_all add: App_step3_def flow split: option.splits sum.splits)

lemma App_step4_flow [flow]:
  "completion_of (App_step4 env wc w) =
     (case walletClientToAccount env wc of Inl e \<Rightarrow> Throw e | Inr a \<Rightarrow> Normal (default_type a))"
  "calls_of (App_step4 env wc w) =
     [(WalletClientToAccount, case walletClientToAccount env wc of Inl e \<Rightarrow> Some e | Inr v \<Rightarrow> None)]"
  by (simp_all add: App_step4_def flow split: option.splits sum.splits)

lemma App_step5_flow [flow]:
  "completion_of (App_step5 env w) =
     (if \<not> truthy (RHINESTONE_API_KEY env) then Return
      else case newRhinestoneSDK env (the (RHINESTONE_API_KEY env)) of
             Inl e \<Rightarrow> Throw e | Inr sdk \<Rightarrow> Normal sdk)"
  "calls_of (App_step5 env w) =
     (if \<not> truthy (RHINESTONE_API_KEY env) then []
      else [(NewRhinestoneSDK (the (RHINESTONE_API_KEY env)),
             case newRhinestoneSDK env (the (RHINESTONE_API_KEY env)) of
               Inl e \<Rightarrow> Some e | Inr v \<Rightarrow> None)])"
  by (simp_all add: App_step5_def flow split: option.splits sum.splits)

lemma App_step6_flow [flow]:
  "completion_of (App_step6 env sdk a w) =
     (case createAccount sdk (Some ''7702'') of
        Inl e \<Rightarrow> Throw e
      | Inr ra \<Rightarrow> (case getAddress ra of Inl e \<Rightarrow> Throw e | Inr ad \<Rightarrow> Normal (ra, ad)))"
  "calls_of (App_step6 env sdk a w) =
     (case createAccount sdk (Some ''7702'') of
        Inl e \<Rightarrow> [(CreateAccount (Some ''7702''), Some e)]
      | Inr ra \<Rightarrow>
          [(CreateAccount (Some ''7702''), None),
           (GetAddress, case getAddress ra of Inl e \<Rightarrow> Some e | Inr v \<Rightarrow> None)])"
  by (simp_all add: App_step6_def flow split: option.splits sum.splits)

lemma App_step7_flow [flow]:
  "completion_of (App_step7 env ra w) =
     (case isDeployed ra base_id of Inl e \<Rightarrow> Throw e | Inr d \<Rightarrow> Normal ())"
  "calls_of (App_step7 env ra w) =
     [(IsDeployed base_id, case isDeployed ra base_id of Inl e \<Rightarrow> Some e | Inr v \<Rightarrow> None)]"
  by (simp_all add: App_step7_def flow split: option.splits sum.splits)

lemma App_step8_flow [flow]:
  "completion_of (App_step8 env ra w) =
     Normal (case signEip7702InitData ra of
               Inl e \<Rightarrow> None
             | Inr sig \<Rightarrow> if truthy sig \<and> sig \<noteq> Some ''0x'' then sig else None)"
  "calls_of (App_step8 env ra w) =
     [(SignEip7702InitData, case signEip7702InitData ra of Inl e \<Rightarrow> Some e | Inr v \<Rightarrow> None)]"
  by (simp_all add: App_step8_def flow split: option.splits sum.splits)

lemma App_step9_flow [flow]:
  "completion_of (App_step9 env ra ad sig w) =
     (case prepareTransaction ra (App_txParams ad sig) of Inl e \<Rightarrow> Return | Inr ptx \<Rightarrow> Normal ptx)"
  "calls_of (App_step9 env ra ad sig w) =
     [(PrepareTransaction (App_txParams ad sig),
       case prepareTransaction ra (App_txParams ad sig) of Inl e \<Rightarrow> Some e | Inr v \<Rightarrow> None)]"
  by (simp_all add: App_step9_def flow split: option.splits sum.splits)

lemma App_step10_flow [flow]:
  "completion_of (App_step10 env ra ptx w) = Normal (isl (signAuthorizations ra ptx))"
  "calls_of (App_step10 env ra ptx w) =
     [(SignAuthorizations ptx, case signAuthorizations ra ptx of Inl e \<Rightarrow> Some e | Inr v \<Rightarrow> None)]"
  by (simp_all add: App_step10_def flow split: sum.splits)

lemma App_workaround_completion [flow]:
  "completion_of (App_workaround env sign ra ptx a w) = Normal ()"
  by (simp add: App_workaround_def stringify_then_def flow
      split: sum.splits completion.splits stringified.splits option.splits)

lemma App_step11_completion [flow]:
  "completion_of (App_step11 env wc ra ptx a failed w) = Normal ()"
  by (simp add: App_step11_def flow)

lemma App_step12_flow [flow]:
  "completion_of (App_step12 env pw w) = Normal ()" "calls_of (App_step12 env pw w) = []"
  by (simp_all add: App_step12_def flow)

text \<open>The calls of the bypass, when the messages serialize to the text \<open>s\<close>.\<close>

lemma App_workaround_calls:
  assumes "getTransactionMessages ra ptx = Inr (Text s)"
  shows "calls_of (App_workaround env sign ra ptx a w) =
           (GetTransactionMessages ptx, None) #
           (case find_delegate (match_addresses s) a of
              None \<Rightarrow> []
            | Some d \<Rightarrow>
                [(WalletClientSignAuthorization d, case sign d of Inl e \<Rightarrow> Some e | Inr v \<Rightarrow> None)])"
  using assms
  by (simp add: App_workaround_def stringify_then_def flow split: option.splits sum.splits)

lemma App_step11_calls_kind:
  assumes "ev \<in> set (calls_of (App_step11 env wc ra ptx a failed w))"
  shows "(\<exists>p. fst ev = GetTransactionMessages p) \<or> (\<exists>d. fst ev = WalletClientSignAuthorization d)"
  using assms
  by (auto simp add: App_step11_def App_workaround_def stringify_then_def flow
      split: sum.splits stringified.splits option.splits if_splits completion.splits)

lemma App_steps_10_to_12_flow:
  "completion_of (App_steps_10_to_12 env pw wc ra ptx w) = Normal ()"
  "calls_of (App_steps_10_to_12 env pw wc ra ptx w) =
     (SignAuthorizations ptx, case signAuthorizations ra ptx of Inl e \<Rightarrow> Some e | Inr v \<Rightarrow> None) #
     calls_of (App_step11 env wc ra ptx (address pw) (isl (signAuthorizations ra ptx))
                 (world_of (App_step10 env ra ptx w)))"
  by (simp_all add: App_steps_10_to_12_def flow)

lemma App_step12_appends: "appends (App_step12 env pw)"
  unfolding App_step12_def by (intro appends_intro)

lemma App_workaround_appends: "appends (App_workaround env sign ra ptx a)"
  unfolding App_workaround_def stringify_then_def by (intro appends_intro)

lemma App_step11_appends: "appends (App_step11 env wc ra ptx a failed)"
  unfolding App_step11_def by (intro appends_intro App_workaround_appends)

lemma App_step10_appends: "appends (App_step10 env ra ptx)"
  unfolding App_step10_def by (intro appends_intro)

lemma App_steps_10_to_12_appends: "appends (App_steps_10_to_12 env pw wc ra ptx)"
  unfolding App_steps_10_to_12_def
  by (intro appends_intro App_step10_appends App_step11_appends App_step12_appends)

lemma App_steps_10_to_12_world:
  "world_of (App_steps_10_to_12 env pw wc ra ptx w) =
     world_of (App_step12 env pw
       (world_of (App_step11 env wc ra ptx (address pw) (isl (signAuthorizations ra ptx))
          (world_of (App_step10 env ra ptx w)))))"
  by (simp add: App_steps_10_to_12_def world flow)

subsection \<open>The run as a whole\<close>

lemma App_runTest_calls:
  "calls (App_runTest env w) = calls_of (App_body env (setRunning True (setLogs [] w)))"
  by (simp add: App_runTest_def async_parts flow split: completion.splits)

lemma App_runTest_rejection: "rejection (App_runTest env w) = None"
  by (simp add: App_runTest_def async_parts flow split: completion.splits)

lemma App_runTest_logs:
  assumes "\<And>e. completion_of (App_body env (setRunning True (setLogs [] w))) \<noteq> Throw e"
  shows "logs (final (App_runTest env w)) = logs (world_of (App_body env (setRunning True (setLogs [] w))))"
  using assms
  by (simp add: App_runTest_def async_parts world setRunning_def split: completion.splits)

lemma App_steps_1_to_7_only_calls:
  "only_calls
     (\<lambda>c. c \<noteq> SignEip7702InitData \<and> (\<forall>p. c \<noteq> PrepareTransaction p) \<and>
          (\<forall>t. c \<noteq> SignAuthorizations t))
     (App_steps_1_to_7 env)"
  unfolding App_steps_1_to_7_def App_step1_def App_step2_def App_step3_def App_step4_def
    App_step5_def App_step6_def App_step7_def
  by (intro only_calls_intro) simp_all

lemma App_steps_1_to_7_calls_not:
  "(SignEip7702InitData, out) \<notin> set (calls_of (App_steps_1_to_7 env w))"
  "(PrepareTransaction p, out) \<notin> set (calls_of (App_steps_1_to_7 env w))"
  "(SignAuthorizations t, out) \<notin> set (calls_of (App_steps_1_to_7 env w))"
  using only_callsD [OF App_steps_1_to_7_only_calls, of "(SignEip7702InitData, out)" env w]
    only_callsD [OF App_steps_1_to_7_only_calls, of "(PrepareTransaction p, out)" env w]
    only_callsD [OF App_steps_1_to_7_only_calls, of "(SignAuthorizations t, out)" env w]
  by auto

lemma App_steps_1_to_9_calls:
  "calls_of (App_steps_1_to_9 env w) =
     calls_of (App_steps_1_to_7 env w) @
     (case completion_of (App_steps_1_to_7 env w) of
        Normal (pw, wc, ra, ad) \<Rightarrow>
          [(SignEip7702InitData, thrown (signEip7702InitData ra)),
           (PrepareTransaction (App_txParams ad (App_init_signature ra)),
            thrown (prepareTransaction ra (App_txParams ad (App_init_signature ra))))]
      | Return \<Rightarrow> []
      | Throw e \<Rightarrow> [])"
  by (simp add: App_steps_1_to_9_def flow thrown_def App_init_signature_def
      split: completion.splits sum.splits)

lemma App_steps_1_to_9_completion:
  "completion_of (App_steps_1_to_9 env w) =
     (case completion_of (App_steps_1_to_7 env w) of
        Normal (pw, wc, ra, ad) \<Rightarrow>
          (case prepareTransaction ra (App_txParams ad (App_init_signature ra)) of
             Inl e \<Rightarrow> Return
           | Inr ptx \<Rightarrow> Normal (pw, wc, ra, ptx))
      | Return \<Rightarrow> Return
      | Throw e \<Rightarrow> Throw e)"
  by (simp add: App_steps_1_to_9_def flow App_init_signature_def
      split: completion.splits sum.splits)

lemma App_steps_1_to_9_world:
  assumes "completion_of (App_steps_1_to_7 env w) = Normal (pw, wc, ra, ad)"
  shows "world_of (App_steps_1_to_9 env w) =
           world_of (App_step9 env ra ad (App_init_signature ra)
             (world_of (App_step8 env ra (world_of (App_steps_1_to_7 env w)))))"
  using assms
  by (simp add: App_steps_1_to_9_def world_bind world_normal flow App_init_signature_def
      split: sum.splits)

lemma App_body_calls:
  "calls_of (App_body env w) =
     calls_of (App_steps_1_to_9 env w) @
     (case completion_of (App_steps_1_to_9 env w) of
        Normal (pw, wc, ra, ptx) \<Rightarrow>
          calls_of (App_steps_10_to_12 env pw wc ra ptx (world_of (App_steps_1_to_9 env w)))
      | Return \<Rightarrow> []
      | Throw e \<Rightarrow> [])"
  by (simp add: App_body_def flow split: completion.splits)

lemma App_steps_1_to_9_no_signAuthorizations:
  "(SignAuthorizations tx, out) \<notin> set (calls_of (App_steps_1_to_9 env w))"
  by (simp add: App_steps_1_to_9_calls App_steps_1_to_7_calls_not
      split: completion.splits prod.splits)

lemma App_reaches_step10:
  assumes "(SignAuthorizations tx, Some e) \<in> set (calls_of (App_body env w))"
  shows "\<exists>pw wc ra. completion_of (App_steps_1_to_9 env w) = Normal (pw, wc, ra, tx) \<and>
           signAuthorizations ra tx = Inl e"
proof (cases "completion_of (App_steps_1_to_9 env w)")
  case (Normal ctx)
  obtain pw wc ra ptx where ctx: "ctx = (pw, wc, ra, ptx)"
    by (cases ctx) auto
  from assms Normal ctx App_steps_1_to_9_no_signAuthorizations [of tx "Some e" env w]
  have ev: "(SignAuthorizations tx, Some e) \<in>
              set (calls_of (App_steps_10_to_12 env pw wc ra ptx (world_of (App_steps_1_to_9 env w))))"
    by (simp add: App_body_calls)
  have "tx = ptx \<and> signAuthorizations ra ptx = Inl e"
    using ev App_step11_calls_kind
    by (fastforce simp add: App_steps_10_to_12_flow split: sum.splits)
  with Normal ctx show ?thesis by blast
next
  case Return
  with assms App_steps_1_to_9_no_signAuthorizations [of tx "Some e" env w]
  show ?thesis by (simp add: App_body_calls)
next
  case (Throw x)
  with assms App_steps_1_to_9_no_signAuthorizations [of tx "Some e" env w]
  show ?thesis by (simp add: App_body_calls)
qed

lemma App_step10_bug_logs:
  assumes "signAuthorizations ra ptx = Inl e" and "is_bug_message (message e)"
  shows "logs (world_of (App_step10 env ra ptx w)) =
           logs w @
           [\<lparr>time = toLocaleTimeString env (clock_reads w), level = Info,
             msg = ''Step 10: Calling signAuthorizations (THE BUG TEST)...''\<rparr>,
            \<lparr>time = toLocaleTimeString env (Suc (clock_reads w)), level = Error,
             msg = ''signAuthorizations FAILED: '' @ message e\<rparr>,
            \<lparr>time = toLocaleTimeString env (Suc (Suc (clock_reads w))), level = Error,
             msg = ''>>> BUG CONFIRMED: JSON-RPC account cannot sign EIP-7702 authorizations''\<rparr>]"
  using assms by (simp add: App_step10_def world flow)

lemma App_step11_first_entry:
  "\<exists>l. logs (world_of (App_step11 env wc ra ptx a True w)) =
         logs w @
         \<lparr>time = toLocaleTimeString env (clock_reads w), level = Info,
          msg = ''Step 11: Testing walletClient.signAuthorization workaround...''\<rparr> # l"
proof -
  let ?rest = "if True \<and> walletClient_signAuthorization wc \<noteq> None
      then seq (log env Info ''walletClient.signAuthorization exists, trying it...'')
               (App_workaround env (the (walletClient_signAuthorization wc)) ra ptx a)
      else only_if True
             (log env Error ''walletClient.signAuthorization not available on this walletClient'')"
  have "appends ?rest"
    by (intro appends_intro App_workaround_appends)
  from appendsD [OF this]
  obtain l where "logs (world_of (?rest (world_of
      (log env Info ''Step 11: Testing walletClient.signAuthorization workaround...'' w)))) =
      logs (world_of (log env Info ''Step 11: Testing walletClient.signAuthorization workaround...'' w)) @ l"
    by blast
  then show ?thesis
    by (simp add: App_step11_def world_seq flow_log world_log)
qed

subsection \<open>Entries that stay in the log\<close>

lemma logged_log: "logged l s (world_of (log env l s w))"
  by (simp add: logged_def world content_def)

lemma logged_kept:
  assumes "appends m" and "logged l s w"
  shows "logged l s (world_of (m w))"
  using appendsD [OF assms(1), of w] assms(2) by (auto simp add: logged_def)

lemma logged_bind_kept:
  assumes "logged l s (world_of (m w))" and "\<And>a. appends (f a)"
  shows "logged l s (world_of (bind m f w))"
  using assms(1) logged_kept [OF assms(2) assms(1)]
  by (simp add: world_bind split: completion.splits)

lemma run_logged_kept:
  assumes "\<And>e. appends (h e)" and "logged l s (world_of (b w))"
  shows "logged l s (final (async (try_finally (try_catch b h) (setRunning False)) w))"
  using assms run_logged [OF assms(1), of _ b w] by (auto simp add: logged_def)

subsection \<open>The path of \<open>App\<close> through steps 1 to 9\<close>

lemma App_step9_appends: "appends (App_step9 env ra ad sig)"
  unfolding App_step9_def by (intro appends_intro)

lemma App_step8_failure_logged:
  assumes "signEip7702InitData ra = Inl e"
  shows "logged Error (''signEip7702InitData failed: '' @ message e) (world_of (App_step8 env ra w))"
  using assms by (simp add: App_step8_def world flow logged_def content_def)

lemma App_step9_failure_logs:
  assumes "prepareTransaction ra (App_txParams ad sig) = Inl e"
  shows "logs (world_of (App_step9 env ra ad sig w)) \<noteq> [] \<and>
         content (last (logs (world_of (App_step9 env ra ad sig w)))) =
           (Error, ''prepareTransaction failed: '' @ message e)"
  using assms by (simp add: App_step9_def world flow content_def)

lemma App_tail_calls_not:
  "(SignEip7702InitData, out) \<notin> set (calls_of (App_steps_10_to_12 env pw wc ra ptx w))"
  "(PrepareTransaction p, out) \<notin> set (calls_of (App_steps_10_to_12 env pw wc ra ptx w))"
  using App_step11_calls_kind [of "(SignEip7702InitData, out)" env wc ra ptx "address pw"]
    App_step11_calls_kind [of "(PrepareTransaction p, out)" env wc ra ptx "address pw"]
  by (auto simp add: App_steps_10_to_12_flow)

lemma App_body_calls_setup:
  assumes "(c, out) \<in> set (calls_of (App_body env w))"
    and "c = SignEip7702InitData \<or> (\<exists>p. c = PrepareTransaction p)"
  shows "\<exists>pw wc ra ad.
           completion_of (App_steps_1_to_7 env w) = Normal (pw, wc, ra, ad) \<and>
           (c, out) \<in> {(SignEip7702InitData, thrown (signEip7702InitData ra)),
                       (PrepareTransaction (App_txParams ad (App_init_signature ra)),
                        thrown (prepareTransaction ra (App_txParams ad (App_init_signature ra))))}"
proof -
  have in9: "(c, out) \<in> set (calls_of (App_steps_1_to_9 env w))"
    using assms
    by (auto simp add: App_body_calls App_tail_calls_not split: completion.splits)
  show ?thesis
  proof (cases "completion_of (App_steps_1_to_7 env w)")
    case (Normal ctx)
    obtain pw wc ra ad where ctx: "ctx = (pw, wc, ra, ad)"
      by (cases ctx) auto
    from in9 assms(2) Normal ctx show ?thesis
      by (auto simp add: App_steps_1_to_9_calls App_steps_1_to_7_calls_not)
  next
    case Return
    with in9 assms(2) show ?thesis
      by (auto simp add: App_steps_1_to_9_calls App_steps_1_to_7_calls_not)
  next
    case (Throw x)
    with in9 assms(2) show ?thesis
      by (auto simp add: App_steps_1_to_9_calls App_steps_1_to_7_calls_not)
  qed
qed

lemma App_handler_appends: "appends (log env Error (''Unexpected error: '' @ message e))"
  by (intro appends_intro)

section \<open>The account-abstraction component: what each step does\<close>

lemma serve_parts:
  "completion_of (serve env ds sign op w) = Normal (sdk_outcome ds sign op) \<and>
   calls_of (serve env ds sign op w) = owner_calls ds sign op"
  by (induction op arbitrary: w)
    (simp_all add: flow eoa_signMessage_def eoa_signTransaction_def eoa_signTypedData_def
      eoa_signAuthorization_def thrown_def)

lemma serve_flow [flow]:
  "completion_of (serve env ds sign op w) = Normal (sdk_outcome ds sign op)"
  "calls_of (serve env ds sign op w) = owner_calls ds sign op"
  by (simp_all add: serve_parts)

lemma await_sdk_flow [flow]:
  "completion_of (await_sdk env ds sign c op w) =
     (case sdk_outcome ds sign op of Inl e \<Rightarrow> Throw e | Inr v \<Rightarrow> Normal v)"
  "calls_of (await_sdk env ds sign c op w) =
     owner_calls ds sign op @ [(c, thrown (sdk_outcome ds sign op))]"
  by (simp_all add: await_sdk_def flow thrown_def)

lemma owner_calls_kind: "ev \<in> set (owner_calls ds sign op) \<Longrightarrow> signer_call (fst ev)"
  by (induction op) (auto simp add: signer_call_def)

lemma serve_appends [appends_intro]: "appends (serve env ds sign op)"
  by (induction op)
    (auto intro!: appends_intro
      simp add: eoa_signMessage_def eoa_signTransaction_def eoa_signTypedData_def
        eoa_signAuthorization_def)

lemma await_sdk_appends [appends_intro]: "appends (await_sdk env ds sign c op)"
  unfolding await_sdk_def by (intro appends_intro)

lemma serve_uniform [uniform_intro]: "uniform (serve env ds sign op)"
  by (induction op)
    (auto intro!: uniform_intro
      simp add: eoa_signMessage_def eoa_signTransaction_def eoa_signTypedData_def
        eoa_signAuthorization_def)

lemma await_sdk_uniform [uniform_intro]: "uniform (await_sdk env ds sign c op)"
  unfolding await_sdk_def by (intro uniform_intro)

lemma serve_keeps_running [keeps_intro]: "keeps running (serve env ds sign op)"
  by (induction op)
    (auto intro!: keeps_intro
      simp add: eoa_signMessage_def eoa_signTransaction_def eoa_signTypedData_def
        eoa_signAuthorization_def)

lemma await_sdk_keeps_running [keeps_intro]: "keeps running (await_sdk env ds sign c op)"
  unfolding await_sdk_def by (intro keeps_intro)

lemma RhinestoneTest_initData_flow [flow]:
  "completion_of (RhinestoneTest_initData env ds sign ra w) =
     Normal (case sdk_outcome ds sign (owned_signEip7702InitData ra) of
               Inl e \<Rightarrow> None | Inr sig \<Rightarrow> sig)"
  "calls_of (RhinestoneTest_initData env ds sign ra w) =
     owner_calls ds sign (owned_signEip7702InitData ra) @
     [(SignEip7702InitData, thrown (sdk_outcome ds sign (owned_signEip7702InitData ra)))]"
  by (simp_all add: RhinestoneTest_initData_def flow split: sum.splits)

lemma RhinestoneTest_prepare_flow [flow]:
  "completion_of (RhinestoneTest_prepare env ds sign ra sig w) =
     (case owned_getAddress ra of
        Inl e \<Rightarrow> Throw e
      | Inr a \<Rightarrow>
          (case sdk_outcome ds sign (owned_prepareTransaction ra (RhinestoneTest_txParams a sig)) of
             Inl e \<Rightarrow> Throw e | Inr ptx \<Rightarrow> Normal ptx))"
  "calls_of (RhinestoneTest_prepare env ds sign ra sig w) =
     (GetAddress, thrown (owned_getAddress ra)) #
     (case owned_getAddress ra of
        Inl e \<Rightarrow> []
      | Inr a \<Rightarrow>
          owner_calls ds sign (owned_prepareTransaction ra (RhinestoneTest_txParams a sig)) @
          [(PrepareTransaction (RhinestoneTest_txParams a sig),
            thrown (sdk_outcome ds sign (owned_prepareTransaction ra (RhinestoneTest_txParams a sig))))])"
  by (simp_all add: RhinestoneTest_prepare_def flow thrown_def split: sum.splits)

lemma owner_calls_not [simp]:
  "(SignEip7702InitData, out) \<notin> set (owner_calls ds sign op)"
  "(PrepareTransaction p, out) \<notin> set (owner_calls ds sign op)"
  "(GetSigner, out) \<notin> set (owner_calls ds sign op)"
  "(SignAuthorizations t, out) \<notin> set (owner_calls ds sign op)"
  using owner_calls_kind [of "(SignEip7702InitData, out)" ds sign op]
    owner_calls_kind [of "(PrepareTransaction p, out)" ds sign op]
    owner_calls_kind [of "(GetSigner, out)" ds sign op]
    owner_calls_kind [of "(SignAuthorizations t, out)" ds sign op]
  by (auto simp add: signer_call_def)

lemma serve_only_calls [only_calls_intro]:
  assumes "\<And>c. signer_call c \<Longrightarrow> P c"
  shows "only_calls P (serve env ds sign op)"
  using assms owner_calls_kind [of _ ds sign op]
  by (auto simp add: only_calls_def list_all_iff flow)

lemma await_sdk_only_calls [only_calls_intro]:
  assumes "\<And>c. signer_call c \<Longrightarrow> P c" and "P c"
  shows "only_calls P (await_sdk env ds sign c op)"
  unfolding await_sdk_def by (intro only_calls_intro assms)

text \<open>Neither the init-data signature nor the preparation is called outside its own step.\<close>

lemma RhinestoneTest_setup_only_calls:
  "only_calls (\<lambda>c. c \<noteq> SignEip7702InitData \<and> (\<forall>p. c \<noteq> PrepareTransaction p))
     (RhinestoneTest_setup env)"
  unfolding RhinestoneTest_setup_def RhinestoneTest_connect_def RhinestoneTest_account_def
  by (intro only_calls_intro) (auto simp add: signer_call_def split: call.splits)

lemma RhinestoneTest_send_only_calls:
  "only_calls (\<lambda>c. c \<noteq> SignEip7702InitData \<and> (\<forall>p. c \<noteq> PrepareTransaction p))
     (RhinestoneTest_send env ds sign ra ptx)"
  unfolding RhinestoneTest_send_def stringify_template_def
  by (intro only_calls_intro) (auto simp add: signer_call_def split: call.splits)

lemma RhinestoneTest_account_address:
  assumes "completion_of (RhinestoneTest_account env a ds sign w) = Normal ra"
  shows "\<exists>ad. owned_getAddress ra = Inr ad"
  using assms
  by (auto simp add: RhinestoneTest_account_def flow split: sum.splits if_splits completion.splits)

lemma RhinestoneTest_setup_address:
  assumes "completion_of (RhinestoneTest_setup env w) = Normal (ds, sign, ra)"
  shows "\<exists>a. owned_getAddress ra = Inr a"
  using assms RhinestoneTest_account_address
  by (fastforce simp add: RhinestoneTest_setup_def flow_bind flow_normal
      split: completion.splits prod.splits)

lemma RhinestoneTest_connect_appends: "appends (RhinestoneTest_connect env)"
  unfolding RhinestoneTest_connect_def by (intro appends_intro)

lemma RhinestoneTest_account_appends: "appends (RhinestoneTest_account env a ds sign)"
  unfolding RhinestoneTest_account_def by (intro appends_intro)

lemma RhinestoneTest_initData_appends: "appends (RhinestoneTest_initData env ds sign ra)"
  unfolding RhinestoneTest_initData_def by (intro appends_intro)

lemma RhinestoneTest_prepare_appends: "appends (RhinestoneTest_prepare env ds sign ra sig)"
  unfolding RhinestoneTest_prepare_def by (intro appends_intro)

lemma RhinestoneTest_send_appends: "appends (RhinestoneTest_send env ds sign ra ptx)"
  unfolding RhinestoneTest_send_def stringify_template_def by (intro appends_intro)

lemma RhinestoneTest_handler_appends:
  "appends (seq (log env Error (''Error: '' @ message e)) (console_error l e))"
  by (intro appends_intro)

lemma RhinestoneTest_runTest_calls:
  "calls (RhinestoneTest_runTest env w) = calls_of (RhinestoneTest_body env (setRunning True (setLogs [] w)))"
  unfolding RhinestoneTest_runTest_def by (rule run_calls) (simp add: flow)

lemma RhinestoneTest_runTest_rejection: "rejection (RhinestoneTest_runTest env w) = None"
  unfolding RhinestoneTest_runTest_def by (rule run_rejection) (simp add: flow)

subsection \<open>The three bodies: appending, uniform, and leaving the flag alone\<close>

lemma appends_let [appends_intro]: "appends (f v) \<Longrightarrow> appends (let x = v in f x)"
  by simp

lemma keeps_let [keeps_intro]: "keeps g (f v) \<Longrightarrow> keeps g (let x = v in f x)"
  by simp

lemma only_calls_let [only_calls_intro]: "only_calls P (f v) \<Longrightarrow> only_calls P (let x = v in f x)"
  by simp

lemmas App_steps_defs =
  App_step1_def App_step2_def App_step3_def App_step4_def App_step5_def App_step6_def
  App_step7_def App_step8_def App_step9_def App_step10_def App_step11_def App_step12_def
  App_workaround_def stringify_then_def App_steps_1_to_7_def App_steps_1_to_9_def
  App_steps_10_to_12_def App_body_def

lemmas RhinestoneTest_steps_defs =
  RhinestoneTest_connect_def RhinestoneTest_account_def RhinestoneTest_initData_def
  RhinestoneTest_prepare_def RhinestoneTest_send_def RhinestoneTest_setup_def
  RhinestoneTest_body_def stringify_template_def

lemmas Eip7702Test_steps_defs =
  Eip7702Test_step1_def Eip7702Test_step2_def Eip7702Test_step3_def Eip7702Test_step4_def
  Eip7702Test_step5_def Eip7702Test_body_def

lemma App_body_appends: "appends (App_body env)"
  unfolding App_steps_defs by (intro appends_intro)

lemma App_body_keeps_running: "keeps running (App_body env)"
  unfolding App_steps_defs by (intro keeps_intro)

lemma App_body_uniform: "uniform (App_body env)"
  unfolding App_steps_defs by (intro uniform_intro)

lemma RhinestoneTest_body_appends: "appends (RhinestoneTest_body env)"
  unfolding RhinestoneTest_steps_defs by (intro appends_intro)

lemma RhinestoneTest_body_keeps_running: "keeps running (RhinestoneTest_body env)"
  unfolding RhinestoneTest_steps_defs by (intro keeps_intro)

lemma RhinestoneTest_body_uniform: "uniform (RhinestoneTest_body env)"
  unfolding RhinestoneTest_steps_defs by (intro uniform_intro)

lemma Eip7702Test_body_appends: "appends (Eip7702Test_body env ca)"
  unfolding Eip7702Test_steps_defs by (intro appends_intro)

lemma Eip7702Test_body_keeps_running: "keeps running (Eip7702Test_body env ca)"
  unfolding Eip7702Test_steps_defs by (intro keeps_intro)

lemma Eip7702Test_body_keeps_contractAddress: "keeps contractAddress (Eip7702Test_body env ca)"
  unfolding Eip7702Test_steps_defs by (intro keeps_intro)

lemma Eip7702Test_body_uniform: "uniform (Eip7702Test_body env ca)"
  unfolding Eip7702Test_steps_defs by (intro uniform_intro)

lemma Eip7702Test_runTest_calls:
  "calls (Eip7702Test_runTest env w) =
     calls_of (Eip7702Test_body env (contractAddress w)
       (setRunning True (setLastAuthorization None (setLogs [] w))))"
  unfolding Eip7702Test_runTest_def by (rule run_calls) (simp add: flow)

lemma Eip7702Test_runTest_rejection: "rejection (Eip7702Test_runTest env w) = None"
  unfolding Eip7702Test_runTest_def by (rule run_rejection) (simp add: flow)

lemma Eip7702Test_handler_appends:
  "appends (seq (log env Error (''Error: '' @ message e)) (console_error l e))"
  by (intro appends_intro)

section \<open>The direct-signing component: what each step does\<close>

lemma Eip7702Test_step1_flow:
  "completion_of (Eip7702Test_step1 env w) =
     (case primaryWallet env of
        None \<Rightarrow> Return
      | Some pw \<Rightarrow> (case connector pw of None \<Rightarrow> Return | Some c \<Rightarrow> Normal (pw, c)))"
  "calls_of (Eip7702Test_step1 env w) = []"
  by (simp_all add: Eip7702Test_step1_def flow split: option.splits)

lemma Eip7702Test_step2_calls:
  "ev \<in> set (calls_of (Eip7702Test_step2 env c w)) \<Longrightarrow> fst ev = IsSignAuthorizationSupported"
  by (auto simp add: Eip7702Test_step2_def flow split: option.splits sum.splits if_splits)

lemma Eip7702Test_step3_stops:
  assumes "base_id \<notin> set (case evmNetworks c of None \<Rightarrow> [] | Some ns \<Rightarrow> ns)"
  shows "completion_of (Eip7702Test_step3 env c w) = Return \<and>
         calls_of (Eip7702Test_step3 env c w) = [] \<and>
         logs (world_of (Eip7702Test_step3 env c w)) \<noteq> [] \<and>
         content (last (logs (world_of (Eip7702Test_step3 env c w)))) =
           (Error, ''Base not available. Add it in Dynamic dashboard.'')"
proof -
  have "Eip7702Test_step3 env c =
      seq (log env Info ''Step 3: Checking network...'')
     (seq (log env Info (''Available chains: '' @
             stringify_numbers (case evmNetworks c of None \<Rightarrow> [] | Some ns \<Rightarrow> ns)))
     (seq (log env Error ''Base not available. Add it in Dynamic dashboard.'') return_stmt))"
    unfolding Eip7702Test_step3_def Let_def using assms by (simp only: if_False)
  then show ?thesis
    by (simp add: flow world content_def)
qed

lemma Eip7702Test_step5_lastAuthorization:
  "lastAuthorization (world_of (Eip7702Test_step5 env c ca w)) =
     (case getSigner c of
        None \<Rightarrow> lastAuthorization w
      | Some r \<Rightarrow>
          (case r of
             Inl e \<Rightarrow> lastAuthorization w
           | Inr None \<Rightarrow> lastAuthorization w
           | Inr (Some sg) \<Rightarrow>
               (case signAuthorization sg of
                  None \<Rightarrow> lastAuthorization w
                | Some sign \<Rightarrow>
                    (case sign (Eip7702Test_request ca) of
                       Inl e \<Rightarrow> lastAuthorization w
                     | Inr a \<Rightarrow> Some a))))"
  by (simp add: Eip7702Test_step5_def world flow setLastAuthorization_def
      split: option.splits sum.splits)

lemma Eip7702Test_step5_calls:
  "calls_of (Eip7702Test_step5 env c ca w) =
     (case getSigner c of
        None \<Rightarrow> []
      | Some r \<Rightarrow>
          (GetSigner, thrown r) #
          (case r of
             Inl e \<Rightarrow> []
           | Inr None \<Rightarrow> []
           | Inr (Some sg) \<Rightarrow>
               (case signAuthorization sg of
                  None \<Rightarrow> []
                | Some sign \<Rightarrow>
                    [(SignerSignAuthorization (Eip7702Test_request ca),
                      thrown (sign (Eip7702Test_request ca)))])))"
  by (simp add: Eip7702Test_step5_def flow thrown_def split: option.splits sum.splits)

lemma Eip7702Test_step1_keeps: "keeps lastAuthorization (Eip7702Test_step1 env)"
  unfolding Eip7702Test_step1_def by (intro keeps_intro)

lemma Eip7702Test_step2_keeps: "keeps lastAuthorization (Eip7702Test_step2 env c)"
  unfolding Eip7702Test_step2_def by (intro keeps_intro)

lemma Eip7702Test_step3_keeps: "keeps lastAuthorization (Eip7702Test_step3 env c)"
  unfolding Eip7702Test_step3_def by (intro keeps_intro)

lemma Eip7702Test_step4_keeps: "keeps lastAuthorization (Eip7702Test_step4 env c a)"
  unfolding Eip7702Test_step4_def by (intro keeps_intro)

text \<open>
  When a part of the world differs after \<open>m\<close> and then \<open>f\<close>, and \<open>m\<close> leaves it alone, then
  \<open>m\<close> completed normally and the difference is \<open>f\<close>'s.
\<close>

lemma keeps_bind_changed:
  assumes "keeps g m" and "g (world_of (bind m f w)) \<noteq> g w"
  shows "\<exists>a. completion_of (m w) = Normal a \<and>
           world_of (bind m f w) = world_of (f a (world_of (m w))) \<and>
           calls_of (bind m f w) = calls_of (m w) @ calls_of (f a (world_of (m w))) \<and>
           g (world_of (m w)) = g w"
  using assms(2) keepsD [OF assms(1), of w]
  by (cases "completion_of (m w)") (simp_all add: world_bind flow_bind)

lemma keeps_seq_changed:
  assumes "keeps g m" and "g (world_of (seq m n w)) \<noteq> g w"
  shows "completion_of (m w) = Normal () \<and>
         world_of (seq m n w) = world_of (n (world_of (m w))) \<and>
         calls_of (seq m n w) = calls_of (m w) @ calls_of (n (world_of (m w))) \<and>
         g (world_of (m w)) = g w"
  using keeps_bind_changed [OF assms(1), of "\<lambda>_. n" w] assms(2)
  by (simp add: seq_def)

lemma Eip7702Test_body_signed:
  assumes "lastAuthorization (world_of (Eip7702Test_body env ca w)) = Some a"
    and "lastAuthorization w = None"
  shows "(SignerSignAuthorization (Eip7702Test_request ca), None)
           \<in> set (calls_of (Eip7702Test_body env ca w)) \<and>
         (\<exists>pw c sg sign.
            primaryWallet env = Some pw \<and> connector pw = Some c \<and>
            getSigner c = Some (Inr (Some sg)) \<and> signAuthorization sg = Some sign \<and>
            sign (Eip7702Test_request ca) = Inr a)"
proof -
  let ?rest = "\<lambda>(pw, c). seq (Eip7702Test_step2 env c)
      (seq (Eip7702Test_step3 env c)
      (seq (Eip7702Test_step4 env c (address pw)) (Eip7702Test_step5 env c ca)))"
  have body: "Eip7702Test_body env ca = bind (Eip7702Test_step1 env) ?rest"
    by (simp add: Eip7702Test_body_def)
  from assms have changed: "lastAuthorization (world_of (bind (Eip7702Test_step1 env) ?rest w)) \<noteq>
      lastAuthorization w"
    by (simp add: body)
  from keeps_bind_changed [OF Eip7702Test_step1_keeps changed]
  obtain pc where s1: "completion_of (Eip7702Test_step1 env w) = Normal pc"
    and w1: "world_of (bind (Eip7702Test_step1 env) ?rest w) =
               world_of (?rest pc (world_of (Eip7702Test_step1 env w)))"
    and c1: "calls_of (bind (Eip7702Test_step1 env) ?rest w) =
               calls_of (Eip7702Test_step1 env w) @
               calls_of (?rest pc (world_of (Eip7702Test_step1 env w)))"
    and g1: "lastAuthorization (world_of (Eip7702Test_step1 env w)) = lastAuthorization w"
    by blast
  obtain pw c where pc: "pc = (pw, c)"
    by (cases pc) auto
  let ?w1 = "world_of (Eip7702Test_step1 env w)"
  let ?w2 = "world_of (Eip7702Test_step2 env c ?w1)"
  let ?w3 = "world_of (Eip7702Test_step3 env c ?w2)"
  let ?w4 = "world_of (Eip7702Test_step4 env c (address pw) ?w3)"
  from s1 pc have wallet: "primaryWallet env = Some pw \<and> connector pw = Some c"
    by (simp add: Eip7702Test_step1_flow split: option.splits)
  from assms w1 g1 pc have ch2: "lastAuthorization (world_of
      (seq (Eip7702Test_step2 env c)
        (seq (Eip7702Test_step3 env c)
        (seq (Eip7702Test_step4 env c (address pw)) (Eip7702Test_step5 env c ca))) ?w1)) \<noteq>
      lastAuthorization ?w1"
    by (simp add: body)
  note k2 = keeps_seq_changed [OF Eip7702Test_step2_keeps ch2]
  from k2 assms w1 g1 pc have ch3: "lastAuthorization (world_of
      (seq (Eip7702Test_step3 env c)
        (seq (Eip7702Test_step4 env c (address pw)) (Eip7702Test_step5 env c ca)) ?w2)) \<noteq>
      lastAuthorization ?w2"
    by (simp add: body)
  note k3 = keeps_seq_changed [OF Eip7702Test_step3_keeps ch3]
  from k2 k3 assms w1 g1 pc have ch4: "lastAuthorization (world_of
      (seq (Eip7702Test_step4 env c (address pw)) (Eip7702Test_step5 env c ca) ?w3)) \<noteq>
      lastAuthorization ?w3"
    by (simp add: body)
  note k4 = keeps_seq_changed [OF Eip7702Test_step4_keeps ch4]
  from k2 k3 k4 assms w1 g1 pc
  have last: "lastAuthorization (world_of (Eip7702Test_step5 env c ca ?w4)) = Some a"
    and none: "lastAuthorization ?w4 = None"
    by (simp_all add: body)
  from last none obtain sg sign where signer:
    "getSigner c = Some (Inr (Some sg))" "signAuthorization sg = Some sign"
    "sign (Eip7702Test_request ca) = Inr a"
    by (auto simp add: Eip7702Test_step5_lastAuthorization split: option.splits sum.splits)
  have "(SignerSignAuthorization (Eip7702Test_request ca), None)
      \<in> set (calls_of (Eip7702Test_step5 env c ca ?w4))"
    using signer by (simp add: Eip7702Test_step5_calls thrown_def)
  with c1 k2 k3 k4 pc have "(SignerSignAuthorization (Eip7702Test_request ca), None)
      \<in> set (calls_of (Eip7702Test_body env ca w))"
    by (simp add: body)
  with wallet signer show ?thesis by blast
qed

lemma Eip7702Test_runTest_lastAuthorization:
  "lastAuthorization (final (Eip7702Test_runTest env w)) =
     lastAuthorization (world_of (Eip7702Test_body env (contractAddress w)
       (setRunning True (setLastAuthorization None (setLogs [] w)))))"
proof -
  have "lastAuthorization (world_of
      (seq (log env Error (''Error: '' @ message e)) (console_error ''Full error:'' e) w')) =
      lastAuthorization w'" for e and w' :: eip7702_world
    by (rule keepsD)
      (intro keeps_intro keeps_lastAuthorization_log keeps_lastAuthorization_console_error)
  then show ?thesis
    by (simp add: Eip7702Test_runTest_def async_parts world_try_finally world_try_catch
        setRunning_def split: completion.splits)
qed

section \<open>The bypass of step 11\<close>

subsection \<open>What the address pattern finds\<close>

lemma find_delegate_scan:
  "find_delegate (match_addresses s) a =
     find (\<lambda>m. toLowerCase m \<noteq> toLowerCase a) (scan_addresses s)"
  by (simp add: find_delegate_def match_addresses_def split: list.splits)

lemma address_here_take:
  assumes "address_here s"
  shows "address_here (take 42 s) \<and> length (take 42 s) = 42"
proof -
  from assms have len: "42 \<le> length s"
    by (simp add: address_here_def)
  have "drop 2 (take 42 s) = take 40 (drop 2 s)"
    by (simp add: drop_take)
  with assms len show ?thesis
    by (simp add: address_here_def)
qed

text \<open>Every match is a piece of the text, 42 characters long, on which the pattern holds.\<close>

lemma scan_addresses_sound:
  "m \<in> set (scan_addresses s) \<Longrightarrow>
     address_here m \<and> length m = 42 \<and> (\<exists>pre post. s = pre @ m @ post)"
proof (induction s rule: scan_addresses.induct)
  case 1
  then show ?case by simp
next
  case (2 c cs)
  show ?case
  proof (cases "address_here (c # cs)")
    case True
    with "2.prems" consider "m = take 42 (c # cs)" | "m \<in> set (scan_addresses (drop 41 cs))"
      by auto
    then show ?thesis
    proof cases
      case 1
      have "c # cs = [] @ take 42 (c # cs) @ drop 42 (c # cs)"
        by simp
      with 1 address_here_take [OF True] show ?thesis
        by blast
    next
      case 2
      from "2.IH"(1) [OF True 2] obtain pre post where
        m: "address_here m" "length m = 42" and split: "drop 41 cs = pre @ m @ post"
        by blast
      have "c # cs = take 42 (c # cs) @ drop 42 (c # cs)"
        by simp
      also have "drop 42 (c # cs) = drop 41 cs"
        by simp
      finally have "c # cs = (take 42 (c # cs) @ pre) @ m @ post"
        using split by simp
      with m show ?thesis
        by blast
    qed
  next
    case False
    with "2.prems" have "m \<in> set (scan_addresses cs)"
      by simp
    from "2.IH"(2) [OF False this] obtain pre post where
      m: "address_here m" "length m = 42" and split: "cs = pre @ m @ post"
      by blast
    from split have "c # cs = (c # pre) @ m @ post"
      by simp
    with m show ?thesis
      by blast
  qed
qed

text \<open>
  The first match is the leftmost place of the text where the pattern holds, and the
  further matches are those of the text that follows it.
\<close>

lemma scan_addresses_first:
  "scan_addresses s = m # ms \<Longrightarrow>
     \<exists>pre post. s = pre @ m @ post \<and> address_here (m @ post) \<and> length m = 42 \<and>
       (\<forall>i < length pre. \<not> address_here (drop i s)) \<and> scan_addresses post = ms"
proof (induction s rule: scan_addresses.induct)
  case 1
  then show ?case by simp
next
  case (2 c cs)
  show ?case
  proof (cases "address_here (c # cs)")
    case True
    with "2.prems" have m: "m = take 42 (c # cs)" and ms: "scan_addresses (drop 41 cs) = ms"
      by simp_all
    from True have len: "length (take 42 (c # cs)) = 42"
      by (simp add: address_here_def)
    have "c # cs = [] @ m @ drop 42 (c # cs) \<and> address_here (m @ drop 42 (c # cs)) \<and>
        length m = 42 \<and>
        (\<forall>i < length ([] :: string). \<not> address_here (drop i (c # cs))) \<and>
        scan_addresses (drop 42 (c # cs)) = ms"
      using True ms len unfolding m by simp
    then show ?thesis
      by blast
  next
    case False
    with "2.prems" have "scan_addresses cs = m # ms"
      by simp
    from "2.IH"(2) [OF False this] obtain pre post where
      split: "cs = pre @ m @ post" and here: "address_here (m @ post)" and len: "length m = 42"
      and none: "\<forall>i < length pre. \<not> address_here (drop i cs)"
      and rest: "scan_addresses post = ms"
      by blast
    have "\<not> address_here (drop i (c # cs))" if "i < length (c # pre)" for i
      using that False none by (cases i) simp_all
    moreover from split have "c # cs = (c # pre) @ m @ post"
      by simp
    ultimately show ?thesis
      using here len rest by blast
  qed
qed

text \<open>Nothing is found exactly when the pattern holds nowhere in the text.\<close>

lemma scan_addresses_none:
  "scan_addresses s = [] \<longleftrightarrow> (\<forall>i < length s. \<not> address_here (drop i s))"
proof (induction s rule: scan_addresses.induct)
  case 1
  then show ?case by simp
next
  case (2 c cs)
  show ?case
  proof (cases "address_here (c # cs)")
    case True
    then have "\<not> (\<forall>i < length (c # cs). \<not> address_here (drop i (c # cs)))"
      by (auto intro: exI [of _ 0])
    with True show ?thesis
      by simp
  next
    case False
    have "(\<forall>i < length (c # cs). \<not> address_here (drop i (c # cs))) \<longleftrightarrow>
        (\<forall>i < length cs. \<not> address_here (drop i cs))"
    proof
      assume all: "\<forall>i < length (c # cs). \<not> address_here (drop i (c # cs))"
      show "\<forall>i < length cs. \<not> address_here (drop i cs)"
      proof (intro allI impI)
        fix i assume "i < length cs"
        with all [rule_format, of "Suc i"] show "\<not> address_here (drop i cs)"
          by simp
      qed
    next
      assume all: "\<forall>i < length cs. \<not> address_here (drop i cs)"
      show "\<forall>i < length (c # cs). \<not> address_here (drop i (c # cs))"
      proof (intro allI impI)
        fix i assume "i < length (c # cs)"
        with all False show "\<not> address_here (drop i (c # cs))"
          by (cases i) simp_all
      qed
    qed
    with False "2.IH"(2) [OF False] show ?thesis
      by simp
  qed
qed

lemma find_Some_split:
  "find P xs = Some x \<Longrightarrow> \<exists>ys zs. xs = ys @ x # zs \<and> P x \<and> list_all (\<lambda>y. \<not> P y) ys"
proof (induction xs)
  case Nil
  then show ?case by simp
next
  case (Cons y xs)
  show ?case
  proof (cases "P y")
    case True
    with Cons.prems have "y # xs = [] @ x # xs \<and> P x \<and> list_all (\<lambda>y. \<not> P y) []"
      by simp
    then show ?thesis by blast
  next
    case False
    with Cons.prems have "find P xs = Some x"
      by simp
    from Cons.IH [OF this] obtain ys zs where "xs = ys @ x # zs" "P x" "list_all (\<lambda>y. \<not> P y) ys"
      by blast
    with False have "y # xs = (y # ys) @ x # zs \<and> P x \<and> list_all (\<lambda>y. \<not> P y) (y # ys)"
      by simp
    then show ?thesis by blast
  qed
qed

lemma find_None_all: "find P xs = None \<Longrightarrow> list_all (\<lambda>y. \<not> P y) xs"
  by (induction xs) (simp_all split: if_splits)

subsection \<open>What the bypass does with it\<close>

lemma App_steps_1_to_7_no_bypass_call:
  "(WalletClientSignAuthorization d, out) \<notin> set (calls_of (App_steps_1_to_7 env w))"
proof -
  have "only_calls (\<lambda>c. \<forall>d. c \<noteq> WalletClientSignAuthorization d) (App_steps_1_to_7 env)"
    unfolding App_steps_1_to_7_def App_step1_def App_step2_def App_step3_def App_step4_def
      App_step5_def App_step6_def App_step7_def
    by (intro only_calls_intro) simp_all
  from only_callsD [OF this, of "(WalletClientSignAuthorization d, out)" w] show ?thesis
    by auto
qed

lemma App_steps_1_to_9_no_bypass_call:
  "(WalletClientSignAuthorization d, out) \<notin> set (calls_of (App_steps_1_to_9 env w))"
  by (simp add: App_steps_1_to_9_calls App_steps_1_to_7_no_bypass_call
      split: completion.splits prod.splits)

lemma App_step11_bypass:
  assumes "walletClient_signAuthorization wc = Some sign"
  shows "world_of (App_step11 env wc ra ptx a True w) =
           world_of (App_workaround env sign ra ptx a
             (world_of (log env Info ''walletClient.signAuthorization exists, trying it...''
               (world_of (log env Info
                  ''Step 11: Testing walletClient.signAuthorization workaround...'' w)))))"
    and "calls_of (App_step11 env wc ra ptx a True w) =
           calls_of (App_workaround env sign ra ptx a
             (world_of (log env Info ''walletClient.signAuthorization exists, trying it...''
               (world_of (log env Info
                  ''Step 11: Testing walletClient.signAuthorization workaround...'' w)))))"
  using assms
  by (simp_all add: App_step11_def world_seq flow_seq flow_log)

text \<open>What the bypass leaves in the log, when the messages serialize to the text \<open>s\<close>.\<close>

lemma App_workaround_logged:
  assumes "getTransactionMessages ra ptx = Inr (Text s)"
  shows "case find_delegate (match_addresses s) a of
           None \<Rightarrow>
             logged Error ''Could not extract delegate address from SDK''
               (world_of (App_workaround env sign ra ptx a w))
         | Some d \<Rightarrow>
             logged Info (''Found potential delegate: '' @ d)
               (world_of (App_workaround env sign ra ptx a w)) \<and>
             (case sign d of
                Inl err \<Rightarrow>
                  logged Error (''walletClient.signAuthorization call failed: '' @ message err)
                    (world_of (App_workaround env sign ra ptx a w)) \<and>
                  (is_unsupported_message (message err) \<longrightarrow>
                     logged Error ''>>> Wallet does not support wallet_signAuthorization RPC method''
                       (world_of (App_workaround env sign ra ptx a w)))
              | Inr auth \<Rightarrow>
                  logged Success ''Manual signAuthorization succeeded!''
                    (world_of (App_workaround env sign ra ptx a w)))"
  using assms
  by (simp add: App_workaround_def stringify_then_def world flow logged_def content_def
      split: option.splits sum.splits)

text \<open>An entry that the bypass logs is in the log when \<open>runTest\<close> completes.\<close>

lemma App_bypass_logged:
  fixes w :: "'z world_scheme"
  assumes "completion_of (App_steps_1_to_9 env (setRunning True (setLogs [] w))) =
             Normal (pw, wc, ra, ptx)"
    and "signAuthorizations ra ptx = Inl e"
    and "walletClient_signAuthorization wc = Some sign"
    and "\<And>v :: 'z world_scheme.
           logged l m (world_of (App_workaround env sign ra ptx (address pw) v))"
  shows "logged l m (final (App_runTest env w))"
proof -
  let ?w0 = "setRunning True (setLogs [] w)"
  let ?w9 = "world_of (App_steps_1_to_9 env ?w0)"
  let ?w10 = "world_of (App_step10 env ra ptx ?w9)"
  have completes: "completion_of (App_body env ?w0) = Normal ()"
    using assms(1) by (simp add: App_body_def flow App_steps_10_to_12_flow)
  have body: "world_of (App_body env ?w0) = world_of (App_steps_10_to_12 env pw wc ra ptx ?w9)"
    using assms(1) by (simp add: App_body_def world)
  have "logged l m (world_of (App_step11 env wc ra ptx (address pw) True ?w10))"
    by (simp add: App_step11_bypass(1) [OF assms(3)] assms(4))
  from logged_kept [OF App_step12_appends this]
  have "logged l m (world_of (App_body env ?w0))"
    using assms(2) by (simp add: body App_steps_10_to_12_world)
  then show ?thesis
    using completes by (simp add: logged_def App_runTest_logs)
qed

lemma App_bypass_calls:
  assumes "completion_of (App_steps_1_to_9 env (setRunning True (setLogs [] w))) =
             Normal (pw, wc, ra, ptx)"
    and "signAuthorizations ra ptx = Inl e"
    and "walletClient_signAuthorization wc = Some sign"
    and "getTransactionMessages ra ptx = Inr (Text s)"
  shows "calls (App_runTest env w) =
           calls_of (App_steps_1_to_9 env (setRunning True (setLogs [] w))) @
           [(SignAuthorizations ptx, Some e), (GetTransactionMessages ptx, None)] @
           (case find (\<lambda>m. toLowerCase m \<noteq> toLowerCase (address pw)) (scan_addresses s) of
              None \<Rightarrow> []
            | Some d \<Rightarrow> [(WalletClientSignAuthorization d, thrown (sign d))])"
  using assms
  by (simp add: App_runTest_calls App_body_calls App_steps_10_to_12_flow
      App_step11_bypass(2) [OF assms(3)] App_workaround_calls [OF assms(4)]
      find_delegate_scan thrown_def split: option.splits)

section \<open>Two runs with the same collaborators\<close>

lemma Eip7702Test_runTest_contractAddress:
  "contractAddress (final (Eip7702Test_runTest env w)) = contractAddress w"
proof -
  have "keeps contractAddress (try_catch (Eip7702Test_body env (contractAddress w))
      (\<lambda>e. seq (log env Error (''Error: '' @ message e)) (console_error ''Full error:'' e)))"
    by (intro keeps_intro Eip7702Test_body_keeps_contractAddress)
  from keepsD [OF this] show ?thesis
    by (simp add: Eip7702Test_runTest_def async_parts world setRunning_def setLogs_def
        setLastAuthorization_def)
qed

lemma App_runs_agree:
  fixes w1 w2 :: "'z world_scheme"
  shows "map content (logs (final (App_runTest env w1))) = map content (logs (final (App_runTest env w2))) \<and>
   calls (App_runTest env w1) = calls (App_runTest env w2) \<and>
   rejection (App_runTest env w1) = rejection (App_runTest env w2)"
  unfolding App_runTest_def
  by (rule uniform_run) (intro uniform_intro App_body_uniform, simp_all add: setRunning_def setLogs_def)

lemma RhinestoneTest_runs_agree:
  fixes w1 w2 :: "'z world_scheme"
  shows "map content (logs (final (RhinestoneTest_runTest env w1))) =
     map content (logs (final (RhinestoneTest_runTest env w2))) \<and>
   calls (RhinestoneTest_runTest env w1) = calls (RhinestoneTest_runTest env w2) \<and>
   rejection (RhinestoneTest_runTest env w1) = rejection (RhinestoneTest_runTest env w2)"
  unfolding RhinestoneTest_runTest_def
  by (rule uniform_run)
    (intro uniform_intro RhinestoneTest_body_uniform, simp_all add: setRunning_def setLogs_def)

lemma Eip7702Test_runs_agree:
  assumes "contractAddress w1 = contractAddress w2"
  shows "map content (logs (final (Eip7702Test_runTest env w1))) =
           map content (logs (final (Eip7702Test_runTest env w2))) \<and>
         calls (Eip7702Test_runTest env w1) = calls (Eip7702Test_runTest env w2) \<and>
         rejection (Eip7702Test_runTest env w1) = rejection (Eip7702Test_runTest env w2)"
  unfolding Eip7702Test_runTest_def assms
  by (rule uniform_run)
    (intro uniform_intro Eip7702Test_body_uniform,
      simp_all add: setRunning_def setLogs_def setLastAuthorization_def)

subsection \<open>Under a clock that stands still\<close>

lemma keeps_stamped_log:
  "(\<And>k. toLocaleTimeString env k = t) \<Longrightarrow> keeps (stamped t) (log env l s)"
  by (simp add: keeps_def world stamped_def)

lemma keeps_stamped_console_error: "keeps (stamped t) (console_error l e)"
  by (simp add: keeps_def world stamped_def)

lemma keeps_stamped_setLastAuthorization: "keeps (stamped t) (modify (setLastAuthorization a))"
  by (simp add: keeps_def world stamped_def setLastAuthorization_def)

lemma serve_keeps_stamped:
  assumes "\<And>k. toLocaleTimeString env k = t"
  shows "keeps (stamped t) (serve env ds sign op)"
  by (induction op)
    (auto intro!: keeps_intro keeps_stamped_log [OF assms]
      simp add: eoa_signMessage_def eoa_signTransaction_def eoa_signTypedData_def
        eoa_signAuthorization_def)

lemma await_sdk_keeps_stamped:
  assumes "\<And>k. toLocaleTimeString env k = t"
  shows "keeps (stamped t) (await_sdk env ds sign c op)"
  unfolding await_sdk_def by (intro keeps_intro serve_keeps_stamped [OF assms])

lemma App_body_keeps_stamped:
  assumes "\<And>k. toLocaleTimeString env k = t"
  shows "keeps (stamped t) (App_body env)"
  unfolding App_steps_defs by (intro keeps_intro keeps_stamped_log [OF assms])

lemma RhinestoneTest_body_keeps_stamped:
  assumes "\<And>k. toLocaleTimeString env k = t"
  shows "keeps (stamped t) (RhinestoneTest_body env)"
  unfolding RhinestoneTest_steps_defs
  by (intro keeps_intro keeps_stamped_log [OF assms] await_sdk_keeps_stamped [OF assms])

lemma Eip7702Test_body_keeps_stamped:
  assumes "\<And>k. toLocaleTimeString env k = t"
  shows "keeps (stamped t) (Eip7702Test_body env ca)"
  unfolding Eip7702Test_steps_defs
  by (intro keeps_intro keeps_stamped_log [OF assms] keeps_stamped_setLastAuthorization)

text \<open>A run of a body that keeps the stamp leaves a log with that stamp.\<close>

lemma run_stamped:
  assumes "keeps (stamped t) b" and "logs w = []"
  shows "stamped t (final (async (try_finally b (setRunning False)) w))"
proof -
  have "stamped t w"
    using assms(2) by (simp add: stamped_def)
  with keepsD [OF assms(1), of w] have "stamped t (world_of (b w))"
    by simp
  then show ?thesis
    by (simp add: async_parts world_try_finally setRunning_def stamped_def)
qed

text \<open>Two logs with the same stamp and the same contents are the same log.\<close>

lemma stamped_logs_equal:
  fixes xs ys :: "log_entry list"
  assumes "list_all (\<lambda>e. time e = t) xs" and "list_all (\<lambda>e. time e = t) ys"
    and "map content xs = map content ys"
  shows "xs = ys"
  using assms
proof (induction xs arbitrary: ys)
  case Nil
  then show ?case by simp
next
  case (Cons x xs)
  from Cons.prems(3) obtain y ys' where ys: "ys = y # ys'"
    by (cases ys) auto
  with Cons.prems have "time x = time y" "level x = level y" "msg x = msg y"
    by (simp_all add: content_def)
  then have "x = y"
    by simp
  moreover from Cons.IH [of ys'] Cons.prems ys have "xs = ys'"
    by simp
  ultimately show ?case
    using ys by simp
qed

lemma App_runs_equal:
  fixes w1 w2 :: "'z world_scheme"
  assumes "\<And>k. toLocaleTimeString env k = t"
  shows "logs (final (App_runTest env w1)) = logs (final (App_runTest env w2))"
proof -
  have k: "keeps (stamped t)
      (try_catch (App_body env) (\<lambda>e. log env Error (''Unexpected error: '' @ message e)))"
    by (intro keeps_intro App_body_keeps_stamped [OF assms] keeps_stamped_log [OF assms])
  have "stamped t (final (App_runTest env w))" for w :: "'z world_scheme"
    unfolding App_runTest_def
    by (rule run_stamped [OF k]) (simp add: setRunning_def setLogs_def)
  from this [of w1] this [of w2] App_runs_agree [of env w1 w2] show ?thesis
    by (auto simp add: stamped_def intro: stamped_logs_equal)
qed

lemma RhinestoneTest_runs_equal:
  fixes w1 w2 :: "'z world_scheme"
  assumes "\<And>k. toLocaleTimeString env k = t"
  shows "logs (final (RhinestoneTest_runTest env w1)) = logs (final (RhinestoneTest_runTest env w2))"
proof -
  have k: "keeps (stamped t) (try_catch (RhinestoneTest_body env)
      (\<lambda>e. seq (log env Error (''Error: '' @ message e)) (console_error [] e)))"
    by (intro keeps_intro RhinestoneTest_body_keeps_stamped [OF assms] keeps_stamped_log [OF assms]
        keeps_stamped_console_error)
  have "stamped t (final (RhinestoneTest_runTest env w))" for w :: "'z world_scheme"
    unfolding RhinestoneTest_runTest_def
    by (rule run_stamped [OF k]) (simp add: setRunning_def setLogs_def)
  from this [of w1] this [of w2] RhinestoneTest_runs_agree [of env w1 w2] show ?thesis
    by (auto simp add: stamped_def intro: stamped_logs_equal)
qed

lemma Eip7702Test_runs_equal:
  assumes "\<And>k. toLocaleTimeString env k = t" and "contractAddress w1 = contractAddress w2"
  shows "logs (final (Eip7702Test_runTest env w1)) = logs (final (Eip7702Test_runTest env w2))"
proof -
  have k: "keeps (stamped t) (try_catch (Eip7702Test_body env ca)
      (\<lambda>e. seq (log env Error (''Error: '' @ message e)) (console_error ''Full error:'' e)))" for ca
    by (intro keeps_intro Eip7702Test_body_keeps_stamped [OF assms(1)]
        keeps_stamped_log [OF assms(1)] keeps_stamped_console_error)
  have "stamped t (final (Eip7702Test_runTest env w))" for w
    unfolding Eip7702Test_runTest_def
    by (rule run_stamped [OF k]) (simp add: setRunning_def setLogs_def setLastAuthorization_def)
  from this [of w1] this [of w2] Eip7702Test_runs_agree [OF assms(2), of env] show ?thesis
    by (auto simp add: stamped_def intro: stamped_logs_equal)
qed

section \<open>Claims about the bug-reproduction component\<close>

text \<open>
  C1. In every run of \<open>App\<close>'s \<open>runTest\<close> in which \<open>signAuthorizations\<close> throws an error
  whose message contains "Account type", "json-rpc" or "not supported", the log holds,
  one after the other, the generic failure entry with the error's message, the
  ">>> BUG CONFIRMED" marker, and the entry that opens the bypass step 11; and
  \<open>runTest\<close> does not reject.
\<close>

theorem App_bug_confirmed:
  assumes "(SignAuthorizations tx, Some e) \<in> set (calls (App_runTest env w))"
    and "is_bug_message (message e)"
  shows "(\<exists>pre post t1 t2 t3.
            logs (final (App_runTest env w)) =
              pre @
              [\<lparr>time = t1, level = Error, msg = ''signAuthorizations FAILED: '' @ message e\<rparr>,
               \<lparr>time = t2, level = Error,
                msg = ''>>> BUG CONFIRMED: JSON-RPC account cannot sign EIP-7702 authorizations''\<rparr>,
               \<lparr>time = t3, level = Info,
                msg = ''Step 11: Testing walletClient.signAuthorization workaround...''\<rparr>] @
              post) \<and>
         rejection (App_runTest env w) = None"
proof -
  let ?w0 = "setRunning True (setLogs [] w)"
  let ?w9 = "world_of (App_steps_1_to_9 env ?w0)"
  from assms(1) have "(SignAuthorizations tx, Some e) \<in> set (calls_of (App_body env ?w0))"
    by (simp add: App_runTest_calls)
  from App_reaches_step10 [OF this]
  obtain pw wc ra where ctx: "completion_of (App_steps_1_to_9 env ?w0) = Normal (pw, wc, ra, tx)"
    and fails: "signAuthorizations ra tx = Inl e"
    by blast
  have completes: "completion_of (App_body env ?w0) = Normal ()"
    using ctx by (simp add: App_body_def flow App_steps_10_to_12_flow)
  have body: "world_of (App_body env ?w0) = world_of (App_steps_10_to_12 env pw wc ra tx ?w9)"
    using ctx by (simp add: App_body_def world)
  let ?w10 = "world_of (App_step10 env ra tx ?w9)"
  obtain l11 where l11:
    "logs (world_of (App_step11 env wc ra tx (address pw) True ?w10)) =
       logs ?w10 @
       \<lparr>time = toLocaleTimeString env (clock_reads ?w10), level = Info,
        msg = ''Step 11: Testing walletClient.signAuthorization workaround...''\<rparr> # l11"
    using App_step11_first_entry by blast
  obtain l12 where l12:
    "logs (world_of (App_step12 env pw (world_of (App_step11 env wc ra tx (address pw) True ?w10)))) =
       logs (world_of (App_step11 env wc ra tx (address pw) True ?w10)) @ l12"
    using appendsD [OF App_step12_appends] by blast
  have "logs (final (App_runTest env w)) = logs (world_of (App_body env ?w0))"
    using completes by (simp add: App_runTest_logs)
  also have "\<dots> =
      (logs ?w9 @
       [\<lparr>time = toLocaleTimeString env (clock_reads ?w9), level = Info,
         msg = ''Step 10: Calling signAuthorizations (THE BUG TEST)...''\<rparr>]) @
      [\<lparr>time = toLocaleTimeString env (Suc (clock_reads ?w9)), level = Error,
        msg = ''signAuthorizations FAILED: '' @ message e\<rparr>,
       \<lparr>time = toLocaleTimeString env (Suc (Suc (clock_reads ?w9))), level = Error,
        msg = ''>>> BUG CONFIRMED: JSON-RPC account cannot sign EIP-7702 authorizations''\<rparr>,
       \<lparr>time = toLocaleTimeString env (clock_reads ?w10), level = Info,
        msg = ''Step 11: Testing walletClient.signAuthorization workaround...''\<rparr>] @
      (l11 @ l12)"
    using fails l11 l12 App_step10_bug_logs [OF fails assms(2), of env ?w9]
    by (simp add: body App_steps_10_to_12_world)
  finally show ?thesis
    using App_runTest_rejection by blast
qed

theorem App_bug_confirmed_witness:
  "(SignAuthorizations (Handle 1), Some (JsError ''Account type json-rpc is not supported''))
     \<in> set (calls (App_runTest
          (example_App_env (Some (example_wallet [1, 8453])) (Some ''key'') (\<lambda>p. Inr (Handle 1)))
          initial_world)) \<and>
   is_bug_message (message (JsError ''Account type json-rpc is not supported'')) \<and>
   (\<exists>pre post t1 t2 t3.
      logs (final (App_runTest
          (example_App_env (Some (example_wallet [1, 8453])) (Some ''key'') (\<lambda>p. Inr (Handle 1)))
          initial_world)) =
        pre @
        [\<lparr>time = t1, level = Error,
          msg = ''signAuthorizations FAILED: '' @
                message (JsError ''Account type json-rpc is not supported'')\<rparr>,
         \<lparr>time = t2, level = Error,
          msg = ''>>> BUG CONFIRMED: JSON-RPC account cannot sign EIP-7702 authorizations''\<rparr>,
         \<lparr>time = t3, level = Info,
          msg = ''Step 11: Testing walletClient.signAuthorization workaround...''\<rparr>] @
        post) \<and>
   rejection (App_runTest
          (example_App_env (Some (example_wallet [1, 8453])) (Some ''key'') (\<lambda>p. Inr (Handle 1)))
          initial_world) = None"
proof -
  have h1: "(SignAuthorizations (Handle 1), Some (JsError ''Account type json-rpc is not supported''))
     \<in> set (calls (App_runTest
          (example_App_env (Some (example_wallet [1, 8453])) (Some ''key'') (\<lambda>p. Inr (Handle 1)))
          initial_world))"
    by (simp add: App_runTest_calls App_body_calls App_steps_1_to_9_calls
        App_steps_1_to_9_completion App_steps_1_to_7_def App_steps_10_to_12_flow flow
        example_App_env_def example_wallet_def example_account_def RHINESTONE_API_KEY_def
        truthy_def thrown_def App_init_signature_def)
  have h2: "is_bug_message (message (JsError ''Account type json-rpc is not supported''))"
    by (simp add: is_bug_message_def startsWith_def)
  from App_bug_confirmed [OF h1 h2] h1 h2 show ?thesis
    by blast
qed



section \<open>Claims about the account-abstraction steps\<close>

lemma thrown_Some: "thrown r = Some e \<longleftrightarrow> r = Inl e" "Some e = thrown r \<longleftrightarrow> r = Inl e"
  by (auto simp add: thrown_def split: sum.splits)

lemma App_init_failure:
  assumes "(SignEip7702InitData, Some e) \<in> set (calls (App_runTest env w))"
  shows "(\<exists>p out. (PrepareTransaction p, out) \<in> set (calls (App_runTest env w)) \<and>
            eip7702InitSignature p = None) \<and>
         logged Error (''signEip7702InitData failed: '' @ message e) (final (App_runTest env w))"
proof -
  let ?w0 = "setRunning True (setLogs [] w)"
  from assms have ev: "(SignEip7702InitData, Some e) \<in> set (calls_of (App_body env ?w0))"
    by (simp add: App_runTest_calls)
  from App_body_calls_setup [OF ev]
  obtain pw wc ra ad where ctx: "completion_of (App_steps_1_to_7 env ?w0) = Normal (pw, wc, ra, ad)"
    and fails: "signEip7702InitData ra = Inl e"
    by (auto simp add: thrown_Some)
  from fails have sig: "App_init_signature ra = None"
    by (simp add: App_init_signature_def)
  have "(PrepareTransaction (App_txParams ad None),
         thrown (prepareTransaction ra (App_txParams ad None)))
          \<in> set (calls_of (App_body env ?w0))"
    using ctx sig by (simp add: App_body_calls App_steps_1_to_9_calls)
  then have prepared: "\<exists>p out. (PrepareTransaction p, out) \<in> set (calls (App_runTest env w)) \<and>
      eip7702InitSignature p = None"
    by (auto simp add: App_runTest_calls App_txParams_def)
  have "logged Error (''signEip7702InitData failed: '' @ message e)
          (world_of (App_steps_1_to_9 env ?w0))"
    using App_steps_1_to_9_world [OF ctx]
      logged_kept [OF App_step9_appends App_step8_failure_logged [OF fails]]
    by simp
  then have "logged Error (''signEip7702InitData failed: '' @ message e) (world_of (App_body env ?w0))"
    unfolding App_body_def
    by (rule logged_bind_kept) (intro appends_intro App_steps_10_to_12_appends)
  then have "logged Error (''signEip7702InitData failed: '' @ message e) (final (App_runTest env w))"
    unfolding App_runTest_def by (rule run_logged_kept [OF App_handler_appends])
  with prepared show ?thesis by blast
qed

lemma RhinestoneTest_initData_failure_logged:
  assumes "sdk_outcome ds sign (owned_signEip7702InitData ra) = Inl e"
  shows "logged Error (''signEip7702InitData failed: '' @ message e)
           (world_of (RhinestoneTest_initData env ds sign ra w))"
  using assms
  by (simp add: RhinestoneTest_initData_def world_seq world_try_catch world_normal world_log flow
      logged_def content_def)

lemma RhinestoneTest_rest_calls:
  "calls_of (bind (RhinestoneTest_initData env ds sign ra) (\<lambda>sig.
             bind (RhinestoneTest_prepare env ds sign ra sig) (\<lambda>ptx.
             RhinestoneTest_send env ds sign ra ptx)) w) =
     calls_of (RhinestoneTest_initData env ds sign ra w) @
     calls_of (RhinestoneTest_prepare env ds sign ra
        (case sdk_outcome ds sign (owned_signEip7702InitData ra) of Inl e \<Rightarrow> None | Inr sig \<Rightarrow> sig)
        (world_of (RhinestoneTest_initData env ds sign ra w))) @
     (case completion_of (RhinestoneTest_prepare env ds sign ra
        (case sdk_outcome ds sign (owned_signEip7702InitData ra) of Inl e \<Rightarrow> None | Inr sig \<Rightarrow> sig)
        (world_of (RhinestoneTest_initData env ds sign ra w))) of
        Normal ptx \<Rightarrow>
          calls_of (RhinestoneTest_send env ds sign ra ptx
            (world_of (RhinestoneTest_prepare env ds sign ra
               (case sdk_outcome ds sign (owned_signEip7702InitData ra) of
                  Inl e \<Rightarrow> None | Inr sig \<Rightarrow> sig)
               (world_of (RhinestoneTest_initData env ds sign ra w)))))
      | Return \<Rightarrow> []
      | Throw e \<Rightarrow> [])"
  by (simp add: flow_bind RhinestoneTest_initData_flow)

lemma RhinestoneTest_send_calls_not:
  "(SignEip7702InitData, out) \<notin> set (calls_of (RhinestoneTest_send env ds sign ra ptx w))"
  "(PrepareTransaction p, out) \<notin> set (calls_of (RhinestoneTest_send env ds sign ra ptx w))"
  using only_callsD [OF RhinestoneTest_send_only_calls, of "(SignEip7702InitData, out)"]
    only_callsD [OF RhinestoneTest_send_only_calls, of "(PrepareTransaction p, out)"]
  by auto

lemma RhinestoneTest_setup_calls_not:
  "(SignEip7702InitData, out) \<notin> set (calls_of (RhinestoneTest_setup env w))"
  "(PrepareTransaction p, out) \<notin> set (calls_of (RhinestoneTest_setup env w))"
  using only_callsD [OF RhinestoneTest_setup_only_calls, of "(SignEip7702InitData, out)"]
    only_callsD [OF RhinestoneTest_setup_only_calls, of "(PrepareTransaction p, out)"]
  by auto

text \<open>
  A call to the init-data signature or to the preparation shows that the setup went
  through, and what the call answered.
\<close>

lemma RhinestoneTest_body_calls_setup:
  assumes "(c, out) \<in> set (calls_of (RhinestoneTest_body env w))"
    and "c = SignEip7702InitData \<or> (\<exists>p. c = PrepareTransaction p)"
  shows "\<exists>ds sign ra a.
           completion_of (RhinestoneTest_setup env w) = Normal (ds, sign, ra) \<and>
           owned_getAddress ra = Inr a \<and>
           (c, out) \<in>
             {(SignEip7702InitData, thrown (sdk_outcome ds sign (owned_signEip7702InitData ra))),
              (PrepareTransaction (RhinestoneTest_txParams a
                 (case sdk_outcome ds sign (owned_signEip7702InitData ra) of
                    Inl e \<Rightarrow> None | Inr sig \<Rightarrow> sig)),
               thrown (sdk_outcome ds sign (owned_prepareTransaction ra
                 (RhinestoneTest_txParams a
                    (case sdk_outcome ds sign (owned_signEip7702InitData ra) of
                       Inl e \<Rightarrow> None | Inr sig \<Rightarrow> sig)))))}"
proof (cases "completion_of (RhinestoneTest_setup env w)")
  case (Normal ctx)
  obtain ds sign ra where ctx: "ctx = (ds, sign, ra)"
    by (cases ctx) auto
  from RhinestoneTest_setup_address Normal ctx
  obtain a where a: "owned_getAddress ra = Inr a"
    by blast
  from assms Normal ctx a show ?thesis
    by (auto simp add: RhinestoneTest_body_def flow_bind [of "RhinestoneTest_setup env"]
        RhinestoneTest_rest_calls RhinestoneTest_setup_calls_not RhinestoneTest_send_calls_not
        RhinestoneTest_initData_flow RhinestoneTest_prepare_flow
        split: completion.splits)
next
  case Return
  with assms show ?thesis
    by (auto simp add: RhinestoneTest_body_def flow_bind [of "RhinestoneTest_setup env"]
        RhinestoneTest_setup_calls_not)
next
  case (Throw x)
  with assms show ?thesis
    by (auto simp add: RhinestoneTest_body_def flow_bind [of "RhinestoneTest_setup env"]
        RhinestoneTest_setup_calls_not)
qed

lemma RhinestoneTest_init_failure:
  assumes "(SignEip7702InitData, Some e) \<in> set (calls (RhinestoneTest_runTest env w))"
  shows "(\<exists>p out. (PrepareTransaction p, out) \<in> set (calls (RhinestoneTest_runTest env w)) \<and>
            eip7702InitSignature p = None) \<and>
         logged Error (''signEip7702InitData failed: '' @ message e)
           (final (RhinestoneTest_runTest env w))"
proof -
  let ?w0 = "setRunning True (setLogs [] w)"
  from assms have ev: "(SignEip7702InitData, Some e) \<in> set (calls_of (RhinestoneTest_body env ?w0))"
    by (simp add: RhinestoneTest_runTest_calls)
  from RhinestoneTest_body_calls_setup [OF ev]
  obtain ds sign ra a where ctx: "completion_of (RhinestoneTest_setup env ?w0) = Normal (ds, sign, ra)"
    and a: "owned_getAddress ra = Inr a"
    and fails: "sdk_outcome ds sign (owned_signEip7702InitData ra) = Inl e"
    by (auto simp add: thrown_Some)
  have "(PrepareTransaction (RhinestoneTest_txParams a None),
         thrown (sdk_outcome ds sign (owned_prepareTransaction ra (RhinestoneTest_txParams a None))))
          \<in> set (calls_of (RhinestoneTest_body env ?w0))"
    using ctx a fails
    by (simp add: RhinestoneTest_body_def flow_bind [of "RhinestoneTest_setup env"]
        RhinestoneTest_rest_calls RhinestoneTest_prepare_flow)
  then have prepared:
    "\<exists>p out. (PrepareTransaction p, out) \<in> set (calls (RhinestoneTest_runTest env w)) \<and>
       eip7702InitSignature p = None"
    by (auto simp add: RhinestoneTest_runTest_calls RhinestoneTest_txParams_def)
  let ?ws = "world_of (RhinestoneTest_setup env ?w0)"
  have "logged Error (''signEip7702InitData failed: '' @ message e)
          (world_of (bind (RhinestoneTest_initData env ds sign ra) (\<lambda>sig.
             bind (RhinestoneTest_prepare env ds sign ra sig) (\<lambda>ptx.
             RhinestoneTest_send env ds sign ra ptx)) ?ws))"
    by (rule logged_bind_kept [OF RhinestoneTest_initData_failure_logged [OF fails]])
      (intro appends_intro RhinestoneTest_prepare_appends RhinestoneTest_send_appends)
  then have "logged Error (''signEip7702InitData failed: '' @ message e)
      (world_of (RhinestoneTest_body env ?w0))"
    using ctx by (simp add: RhinestoneTest_body_def world_bind [of "RhinestoneTest_setup env"])
  then have "logged Error (''signEip7702InitData failed: '' @ message e)
      (final (RhinestoneTest_runTest env w))"
    unfolding RhinestoneTest_runTest_def by (rule run_logged_kept [OF RhinestoneTest_handler_appends])
  with prepared show ?thesis by blast
qed



lemma App_prepare_failure:
  assumes "(PrepareTransaction p, Some e) \<in> set (calls (App_runTest env w))"
  shows "(\<exists>pre. calls (App_runTest env w) = pre @ [(PrepareTransaction p, Some e)] \<and>
            (\<forall>c \<in> set pre. \<forall>q. fst c \<noteq> PrepareTransaction q)) \<and>
         logs (final (App_runTest env w)) \<noteq> [] \<and>
         content (last (logs (final (App_runTest env w)))) =
           (Error, ''prepareTransaction failed: '' @ message e) \<and>
         rejection (App_runTest env w) = None"
proof -
  let ?w0 = "setRunning True (setLogs [] w)"
  from assms have ev: "(PrepareTransaction p, Some e) \<in> set (calls_of (App_body env ?w0))"
    by (simp add: App_runTest_calls)
  from App_body_calls_setup [OF ev]
  obtain pw wc ra ad where ctx: "completion_of (App_steps_1_to_7 env ?w0) = Normal (pw, wc, ra, ad)"
    and p: "p = App_txParams ad (App_init_signature ra)"
    and fails: "prepareTransaction ra (App_txParams ad (App_init_signature ra)) = Inl e"
    by (auto simp add: thrown_Some)
  have stop: "completion_of (App_steps_1_to_9 env ?w0) = Return"
    using ctx fails by (simp add: App_steps_1_to_9_completion)
  have "calls_of (App_body env ?w0) =
      (calls_of (App_steps_1_to_7 env ?w0) @
       [(SignEip7702InitData, thrown (signEip7702InitData ra))]) @
      [(PrepareTransaction p, Some e)]"
    using ctx fails p stop by (simp add: App_body_calls App_steps_1_to_9_calls thrown_def)
  moreover have "\<forall>c \<in> set (calls_of (App_steps_1_to_7 env ?w0) @
       [(SignEip7702InitData, thrown (signEip7702InitData ra))]). \<forall>q. fst c \<noteq> PrepareTransaction q"
    using only_callsD [OF App_steps_1_to_7_only_calls, of _ env ?w0] by auto
  ultimately have last_call:
    "\<exists>pre. calls (App_runTest env w) = pre @ [(PrepareTransaction p, Some e)] \<and>
       (\<forall>c \<in> set pre. \<forall>q. fst c \<noteq> PrepareTransaction q)"
    unfolding App_runTest_calls by blast
  have body: "completion_of (App_body env ?w0) = Return"
    "world_of (App_body env ?w0) = world_of (App_steps_1_to_9 env ?w0)"
    using stop by (simp_all add: App_body_def flow_bind world_bind)
  have "logs (final (App_runTest env w)) = logs (world_of (App_steps_1_to_9 env ?w0))"
    using body by (simp add: App_runTest_logs)
  with App_step9_failure_logs [OF fails] App_steps_1_to_9_world [OF ctx]
  have "logs (final (App_runTest env w)) \<noteq> [] \<and>
      content (last (logs (final (App_runTest env w)))) =
        (Error, ''prepareTransaction failed: '' @ message e)"
    by simp
  with last_call App_runTest_rejection show ?thesis by blast
qed

lemma RhinestoneTest_prepare_failure:
  assumes "(PrepareTransaction p, Some e) \<in> set (calls (RhinestoneTest_runTest env w))"
  shows "(\<exists>pre. calls (RhinestoneTest_runTest env w) = pre @ [(PrepareTransaction p, Some e)] \<and>
            (\<forall>c \<in> set pre. \<forall>q. fst c \<noteq> PrepareTransaction q)) \<and>
         logs (final (RhinestoneTest_runTest env w)) \<noteq> [] \<and>
         content (last (logs (final (RhinestoneTest_runTest env w)))) =
           (Error, ''Error: '' @ message e) \<and>
         rejection (RhinestoneTest_runTest env w) = None"
proof -
  let ?w0 = "setRunning True (setLogs [] w)"
  from assms have ev: "(PrepareTransaction p, Some e) \<in> set (calls_of (RhinestoneTest_body env ?w0))"
    by (simp add: RhinestoneTest_runTest_calls)
  from RhinestoneTest_body_calls_setup [OF ev]
  obtain ds sign ra a where ctx: "completion_of (RhinestoneTest_setup env ?w0) = Normal (ds, sign, ra)"
    and a: "owned_getAddress ra = Inr a"
    and p: "p = RhinestoneTest_txParams a
              (case sdk_outcome ds sign (owned_signEip7702InitData ra) of
                 Inl e \<Rightarrow> None | Inr sig \<Rightarrow> sig)"
    and fails: "sdk_outcome ds sign (owned_prepareTransaction ra p) = Inl e"
    by (auto simp add: thrown_Some)
  let ?pre = "calls_of (RhinestoneTest_setup env ?w0) @
      calls_of (RhinestoneTest_initData env ds sign ra (world_of (RhinestoneTest_setup env ?w0))) @
      (GetAddress, None) # owner_calls ds sign (owned_prepareTransaction ra p)"
  have "calls_of (RhinestoneTest_body env ?w0) = ?pre @ [(PrepareTransaction p, Some e)]"
    using ctx a fails p
    by (simp add: RhinestoneTest_body_def flow_bind [of "RhinestoneTest_setup env"]
        RhinestoneTest_rest_calls RhinestoneTest_prepare_flow thrown_def)
  moreover have "\<forall>c \<in> set ?pre. \<forall>q. fst c \<noteq> PrepareTransaction q"
    using only_callsD [OF RhinestoneTest_setup_only_calls, of _ env ?w0] owner_calls_kind
    by (fastforce simp add: RhinestoneTest_initData_flow signer_call_def)
  ultimately have last_call:
    "\<exists>pre. calls (RhinestoneTest_runTest env w) = pre @ [(PrepareTransaction p, Some e)] \<and>
       (\<forall>c \<in> set pre. \<forall>q. fst c \<noteq> PrepareTransaction q)"
    unfolding RhinestoneTest_runTest_calls by blast
  have "completion_of (RhinestoneTest_body env ?w0) = Throw e"
    using ctx a fails p
    by (simp add: RhinestoneTest_body_def flow_bind RhinestoneTest_initData_flow
        RhinestoneTest_prepare_flow)
  then have "logs (final (RhinestoneTest_runTest env w)) =
      logs (world_of (seq (log env Error (''Error: '' @ message e)) (console_error [] e)
        (world_of (RhinestoneTest_body env ?w0))))"
    unfolding RhinestoneTest_runTest_def by (rule run_logs_thrown)
  then have "logs (final (RhinestoneTest_runTest env w)) \<noteq> [] \<and>
      content (last (logs (final (RhinestoneTest_runTest env w)))) = (Error, ''Error: '' @ message e)"
    by (simp add: world_seq world_log world_console_error flow content_def)
  with last_call RhinestoneTest_runTest_rejection show ?thesis by blast
qed



section \<open>Claims about every component\<close>


text \<open>
  C2 (as amended). Started with no wallet handle, \<open>RhinestoneTest\<close> leaves exactly one
  log entry, an error; \<open>App\<close> and \<open>Eip7702Test\<close> leave exactly two, the informational
  entry that opens step 1 and then an error. In all three the running flag is false
  afterwards.
\<close>

theorem no_wallet_run:
  "(primaryWallet env' = None \<longrightarrow>
      logs (final (RhinestoneTest_runTest env' w')) =
        [\<lparr>time = toLocaleTimeString env' (clock_reads w'), level = Error,
          msg = ''No wallet connected''\<rparr>] \<and>
      \<not> running (final (RhinestoneTest_runTest env' w'))) \<and>
   (primaryWallet env = None \<longrightarrow>
      logs (final (App_runTest env w)) =
        [\<lparr>time = toLocaleTimeString env (clock_reads w), level = Info,
          msg = ''Step 1: Checking Dynamic wallet connection...''\<rparr>,
         \<lparr>time = toLocaleTimeString env (Suc (clock_reads w)), level = Error,
          msg = ''No wallet connected. Please connect first.''\<rparr>] \<and>
      \<not> running (final (App_runTest env w))) \<and>
   (primaryWallet env'' = None \<longrightarrow>
      logs (final (Eip7702Test_runTest env'' w'')) =
        [\<lparr>time = toLocaleTimeString env'' (clock_reads w''), level = Info,
          msg = ''Step 1: Checking Dynamic wallet connection...''\<rparr>,
         \<lparr>time = toLocaleTimeString env'' (Suc (clock_reads w'')), level = Error,
          msg = ''No wallet connected. Please connect first.''\<rparr>] \<and>
      \<not> running (final (Eip7702Test_runTest env'' w'')))"
  by (simp add: App_runTest_def RhinestoneTest_runTest_def Eip7702Test_runTest_def async_parts
      App_body_def App_steps_1_to_9_def App_steps_1_to_7_def App_step1_def
      RhinestoneTest_body_def RhinestoneTest_setup_def RhinestoneTest_connect_def
      Eip7702Test_body_def Eip7702Test_step1_def
      flow world setRunning_def setLogs_def setLastAuthorization_def)

theorem no_wallet_run_witness:
  "primaryWallet (example_RhinestoneTest_env None (Some ''key'') (\<lambda>p. Resolves (Handle 1))) = None \<and>
   logs (final (RhinestoneTest_runTest
      (example_RhinestoneTest_env None (Some ''key'') (\<lambda>p. Resolves (Handle 1))) initial_world)) =
     [\<lparr>time = toLocaleTimeString
         (example_RhinestoneTest_env None (Some ''key'') (\<lambda>p. Resolves (Handle 1)))
         (clock_reads initial_world),
       level = Error, msg = ''No wallet connected''\<rparr>] \<and>
   \<not> running (final (RhinestoneTest_runTest
      (example_RhinestoneTest_env None (Some ''key'') (\<lambda>p. Resolves (Handle 1))) initial_world)) \<and>
   primaryWallet (example_App_env None (Some ''key'') (\<lambda>p. Inr (Handle 1))) = None \<and>
   logs (final (App_runTest (example_App_env None (Some ''key'') (\<lambda>p. Inr (Handle 1))) initial_world)) =
     [\<lparr>time = toLocaleTimeString (example_App_env None (Some ''key'') (\<lambda>p. Inr (Handle 1)))
         (clock_reads initial_world),
       level = Info, msg = ''Step 1: Checking Dynamic wallet connection...''\<rparr>,
      \<lparr>time = toLocaleTimeString (example_App_env None (Some ''key'') (\<lambda>p. Inr (Handle 1)))
         (Suc (clock_reads initial_world)),
       level = Error, msg = ''No wallet connected. Please connect first.''\<rparr>] \<and>
   \<not> running (final (App_runTest (example_App_env None (Some ''key'') (\<lambda>p. Inr (Handle 1)))
      initial_world)) \<and>
   primaryWallet (example_ambient None) = None \<and>
   logs (final (Eip7702Test_runTest (example_ambient None) initial_eip7702_world)) =
     [\<lparr>time = toLocaleTimeString (example_ambient None) (clock_reads initial_eip7702_world),
       level = Info, msg = ''Step 1: Checking Dynamic wallet connection...''\<rparr>,
      \<lparr>time = toLocaleTimeString (example_ambient None) (Suc (clock_reads initial_eip7702_world)),
       level = Error, msg = ''No wallet connected. Please connect first.''\<rparr>] \<and>
   \<not> running (final (Eip7702Test_runTest (example_ambient None) initial_eip7702_world))"
proof -
  have h1: "primaryWallet (example_RhinestoneTest_env None (Some ''key'') (\<lambda>p. Resolves (Handle 1))) = None"
    by (simp add: example_RhinestoneTest_env_def)
  have h2: "primaryWallet (example_App_env None (Some ''key'') (\<lambda>p. Inr (Handle 1))) = None"
    by (simp add: example_App_env_def)
  have h3: "primaryWallet (example_ambient None) = None"
    by (simp add: example_ambient_def)
  from no_wallet_run
    [of "example_RhinestoneTest_env None (Some ''key'') (\<lambda>p. Resolves (Handle 1))" initial_world
      "example_App_env None (Some ''key'') (\<lambda>p. Inr (Handle 1))" initial_world
      "example_ambient None" initial_eip7702_world]
    h1 h2 h3
  show ?thesis by blast
qed

text \<open>
  The claim as stated fails on \<open>App\<close>: with no wallet handle its log has two entries.
\<close>

theorem no_wallet_run_counterexample:
  "primaryWallet (example_App_env None (Some ''key'') (\<lambda>p. Inr (Handle 1))) = None \<and>
   length (logs (final (App_runTest (example_App_env None (Some ''key'') (\<lambda>p. Inr (Handle 1)))
     initial_world))) = 2"
  by (simp add: App_runTest_def async_parts App_body_def App_steps_1_to_9_def App_steps_1_to_7_def
      App_step1_def flow world setRunning_def setLogs_def example_App_env_def)

lemma App_no_key:
  assumes "\<not> truthy (RHINESTONE_API_KEY env)"
  shows "(NewRhinestoneSDK k, out) \<notin> set (calls_of (App_steps_1_to_7 env w)) \<and>
         completion_of (App_steps_1_to_7 env w) \<noteq> Normal ctx"
  using assms
  by (auto simp add: App_steps_1_to_7_def flow split: option.splits sum.splits)

lemma App_no_key_calls:
  assumes "\<not> truthy (RHINESTONE_API_KEY env)"
  shows "(NewRhinestoneSDK k, out) \<notin> set (calls (App_runTest env w))"
proof -
  let ?w0 = "setRunning True (setLogs [] w)"
  have "calls_of (App_body env ?w0) = calls_of (App_steps_1_to_7 env ?w0)"
    using App_no_key [OF assms, of _ _ ?w0]
    by (simp add: App_body_calls App_steps_1_to_9_calls App_steps_1_to_9_completion
        split: completion.splits)
  with App_no_key [OF assms, of k out ?w0] show ?thesis
    by (simp add: App_runTest_calls)
qed

lemma RhinestoneTest_no_key:
  assumes "\<not> truthy (RHINESTONE_API_KEY env)"
  shows "(NewRhinestoneSDK k, out) \<notin> set (calls_of (RhinestoneTest_setup env w)) \<and>
         completion_of (RhinestoneTest_setup env w) \<noteq> Normal ctx"
  using assms
  by (auto simp add: RhinestoneTest_setup_def RhinestoneTest_connect_def RhinestoneTest_account_def
      flow split: option.splits sum.splits)

lemma RhinestoneTest_no_key_calls:
  assumes "\<not> truthy (RHINESTONE_API_KEY env)"
  shows "(NewRhinestoneSDK k, out) \<notin> set (calls (RhinestoneTest_runTest env w))"
proof -
  let ?w0 = "setRunning True (setLogs [] w)"
  have "calls_of (RhinestoneTest_body env ?w0) = calls_of (RhinestoneTest_setup env ?w0)"
    using RhinestoneTest_no_key [OF assms, of _ _ ?w0]
    by (simp add: RhinestoneTest_body_def flow_bind [of "RhinestoneTest_setup env"]
        split: completion.splits)
  with RhinestoneTest_no_key [OF assms, of k out ?w0] show ?thesis
    by (simp add: RhinestoneTest_runTest_calls)
qed




text \<open>
  C8 (as amended). With the same collaborators, a second run in a row makes the same
  calls and leaves a log with the same entries in the same order, entry by entry equal in
  level and message; and \<open>runTest\<close> resolves both times. The time of each entry is read
  from the wall clock when the entry is written: the two logs are equal as a whole when
  the clock shows the same time at every reading.
\<close>

theorem second_run_repeats_the_first:
  "(map content (logs (final (App_runTest env (final (App_runTest env w))))) =
      map content (logs (final (App_runTest env w))) \<and>
    calls (App_runTest env (final (App_runTest env w))) = calls (App_runTest env w) \<and>
    ((\<forall>k. toLocaleTimeString env k = toLocaleTimeString env 0) \<longrightarrow>
       logs (final (App_runTest env (final (App_runTest env w)))) =
         logs (final (App_runTest env w)))) \<and>
   (map content (logs (final (RhinestoneTest_runTest env' (final (RhinestoneTest_runTest env' w'))))) =
      map content (logs (final (RhinestoneTest_runTest env' w'))) \<and>
    calls (RhinestoneTest_runTest env' (final (RhinestoneTest_runTest env' w'))) =
      calls (RhinestoneTest_runTest env' w') \<and>
    ((\<forall>k. toLocaleTimeString env' k = toLocaleTimeString env' 0) \<longrightarrow>
       logs (final (RhinestoneTest_runTest env' (final (RhinestoneTest_runTest env' w')))) =
         logs (final (RhinestoneTest_runTest env' w')))) \<and>
   (map content (logs (final (Eip7702Test_runTest env'' (final (Eip7702Test_runTest env'' w''))))) =
      map content (logs (final (Eip7702Test_runTest env'' w''))) \<and>
    calls (Eip7702Test_runTest env'' (final (Eip7702Test_runTest env'' w''))) =
      calls (Eip7702Test_runTest env'' w'') \<and>
    ((\<forall>k. toLocaleTimeString env'' k = toLocaleTimeString env'' 0) \<longrightarrow>
       logs (final (Eip7702Test_runTest env'' (final (Eip7702Test_runTest env'' w'')))) =
         logs (final (Eip7702Test_runTest env'' w''))))"
proof -
  have "logs (final (App_runTest env (final (App_runTest env w)))) =
      logs (final (App_runTest env w))"
    if "\<forall>k. toLocaleTimeString env k = toLocaleTimeString env 0"
    using that by (intro App_runs_equal [where t = "toLocaleTimeString env 0"]) simp
  moreover have "logs (final (RhinestoneTest_runTest env' (final (RhinestoneTest_runTest env' w')))) =
      logs (final (RhinestoneTest_runTest env' w'))"
    if "\<forall>k. toLocaleTimeString env' k = toLocaleTimeString env' 0"
    using that by (intro RhinestoneTest_runs_equal [where t = "toLocaleTimeString env' 0"]) simp
  moreover have "logs (final (Eip7702Test_runTest env'' (final (Eip7702Test_runTest env'' w'')))) =
      logs (final (Eip7702Test_runTest env'' w''))"
    if "\<forall>k. toLocaleTimeString env'' k = toLocaleTimeString env'' 0"
    using that Eip7702Test_runTest_contractAddress [of env'' w'']
    by (intro Eip7702Test_runs_equal [where t = "toLocaleTimeString env'' 0"]) simp_all
  ultimately show ?thesis
    using App_runs_agree [of env "final (App_runTest env w)" w]
      RhinestoneTest_runs_agree [of env' "final (RhinestoneTest_runTest env' w')" w']
      Eip7702Test_runs_agree [OF Eip7702Test_runTest_contractAddress [of env'' w''], of env'']
    by simp
qed

theorem second_run_repeats_the_first_witness:
  "((\<forall>k. toLocaleTimeString
        ((example_App_env (Some (example_wallet [1, 8453])) (Some ''key'') (\<lambda>p. Inr (Handle 1)))
           \<lparr>toLocaleTimeString := (\<lambda>k. ''12:00:00'')\<rparr>) k =
      toLocaleTimeString
        ((example_App_env (Some (example_wallet [1, 8453])) (Some ''key'') (\<lambda>p. Inr (Handle 1)))
           \<lparr>toLocaleTimeString := (\<lambda>k. ''12:00:00'')\<rparr>) 0) \<and>
    logs (final (App_runTest
        ((example_App_env (Some (example_wallet [1, 8453])) (Some ''key'') (\<lambda>p. Inr (Handle 1)))
           \<lparr>toLocaleTimeString := (\<lambda>k. ''12:00:00'')\<rparr>)
        (final (App_runTest
           ((example_App_env (Some (example_wallet [1, 8453])) (Some ''key'') (\<lambda>p. Inr (Handle 1)))
              \<lparr>toLocaleTimeString := (\<lambda>k. ''12:00:00'')\<rparr>)
           initial_world)))) =
      logs (final (App_runTest
        ((example_App_env (Some (example_wallet [1, 8453])) (Some ''key'') (\<lambda>p. Inr (Handle 1)))
           \<lparr>toLocaleTimeString := (\<lambda>k. ''12:00:00'')\<rparr>)
        initial_world))) \<and>
   ((\<forall>k. toLocaleTimeString
        ((example_RhinestoneTest_env (Some (example_wallet [1, 8453])) (Some ''key'')
            (\<lambda>p. Resolves (Handle 1)))
           \<lparr>toLocaleTimeString := (\<lambda>k. ''12:00:00'')\<rparr>) k =
      toLocaleTimeString
        ((example_RhinestoneTest_env (Some (example_wallet [1, 8453])) (Some ''key'')
            (\<lambda>p. Resolves (Handle 1)))
           \<lparr>toLocaleTimeString := (\<lambda>k. ''12:00:00'')\<rparr>) 0) \<and>
    logs (final (RhinestoneTest_runTest
        ((example_RhinestoneTest_env (Some (example_wallet [1, 8453])) (Some ''key'')
            (\<lambda>p. Resolves (Handle 1)))
           \<lparr>toLocaleTimeString := (\<lambda>k. ''12:00:00'')\<rparr>)
        (final (RhinestoneTest_runTest
           ((example_RhinestoneTest_env (Some (example_wallet [1, 8453])) (Some ''key'')
               (\<lambda>p. Resolves (Handle 1)))
              \<lparr>toLocaleTimeString := (\<lambda>k. ''12:00:00'')\<rparr>)
           initial_world)))) =
      logs (final (RhinestoneTest_runTest
        ((example_RhinestoneTest_env (Some (example_wallet [1, 8453])) (Some ''key'')
            (\<lambda>p. Resolves (Handle 1)))
           \<lparr>toLocaleTimeString := (\<lambda>k. ''12:00:00'')\<rparr>)
        initial_world))) \<and>
   ((\<forall>k. toLocaleTimeString
        ((example_ambient (Some (example_wallet [1, 8453])))
           \<lparr>toLocaleTimeString := (\<lambda>k. ''12:00:00'')\<rparr>) k =
      toLocaleTimeString
        ((example_ambient (Some (example_wallet [1, 8453])))
           \<lparr>toLocaleTimeString := (\<lambda>k. ''12:00:00'')\<rparr>) 0) \<and>
    logs (final (Eip7702Test_runTest
        ((example_ambient (Some (example_wallet [1, 8453])))
           \<lparr>toLocaleTimeString := (\<lambda>k. ''12:00:00'')\<rparr>)
        (final (Eip7702Test_runTest
           ((example_ambient (Some (example_wallet [1, 8453])))
              \<lparr>toLocaleTimeString := (\<lambda>k. ''12:00:00'')\<rparr>)
           initial_eip7702_world)))) =
      logs (final (Eip7702Test_runTest
        ((example_ambient (Some (example_wallet [1, 8453])))
           \<lparr>toLocaleTimeString := (\<lambda>k. ''12:00:00'')\<rparr>)
        initial_eip7702_world)))"
proof -
  let ?A = "(example_App_env (Some (example_wallet [1, 8453])) (Some ''key'') (\<lambda>p. Inr (Handle 1)))
           \<lparr>toLocaleTimeString := (\<lambda>k. ''12:00:00'')\<rparr>"
  let ?R = "(example_RhinestoneTest_env (Some (example_wallet [1, 8453])) (Some ''key'')
            (\<lambda>p. Resolves (Handle 1)))
           \<lparr>toLocaleTimeString := (\<lambda>k. ''12:00:00'')\<rparr>"
  let ?E = "(example_ambient (Some (example_wallet [1, 8453])))
           \<lparr>toLocaleTimeString := (\<lambda>k. ''12:00:00'')\<rparr>"
  have a: "\<forall>k. toLocaleTimeString ?A k = toLocaleTimeString ?A 0"
    by simp
  have r: "\<forall>k. toLocaleTimeString ?R k = toLocaleTimeString ?R 0"
    by simp
  have e: "\<forall>k. toLocaleTimeString ?E k = toLocaleTimeString ?E 0"
    by simp
  from second_run_repeats_the_first
    [where env = ?A and w = initial_world and env' = ?R and w' = initial_world
       and env'' = ?E and w'' = initial_eip7702_world] a r e
  show ?thesis
    by blast
qed

text \<open>
  The claim as stated fails: the entries carry the time at which they were written, so
  the two log sequences differ as soon as the clock has moved.
\<close>

theorem second_run_repeats_the_first_counterexample:
  "logs (final (RhinestoneTest_runTest
      (example_RhinestoneTest_env None (Some ''key'') (\<lambda>p. Resolves (Handle 1)))
      (final (RhinestoneTest_runTest
         (example_RhinestoneTest_env None (Some ''key'') (\<lambda>p. Resolves (Handle 1)))
         initial_world)))) \<noteq>
   logs (final (RhinestoneTest_runTest
      (example_RhinestoneTest_env None (Some ''key'') (\<lambda>p. Resolves (Handle 1)))
      initial_world))"
  by (simp add: RhinestoneTest_runTest_def async_parts RhinestoneTest_body_def
      RhinestoneTest_setup_def RhinestoneTest_connect_def flow world setRunning_def setLogs_def
      example_RhinestoneTest_env_def example_clock_def initial_world_def digit_char_def)

section \<open>The target chain\<close>

lemma Eip7702Test_body_calls_without_base:
  assumes "base_id \<notin> set (declared_chains env)"
    and "ev \<in> set (calls_of (Eip7702Test_body env ca w))"
  shows "fst ev = IsSignAuthorizationSupported"
proof (cases "completion_of (Eip7702Test_step1 env w)")
  case (Normal pc)
  obtain pw c where pc: "pc = (pw, c)"
    by (cases pc) auto
  from Normal pc have wallet: "primaryWallet env = Some pw" "connector pw = Some c"
    by (simp_all add: Eip7702Test_step1_flow split: option.splits)
  with assms(1) have "base_id \<notin> set (case evmNetworks c of None \<Rightarrow> [] | Some ns \<Rightarrow> ns)"
    by (simp add: declared_chains_def)
  note stops = Eip7702Test_step3_stops [OF this]
  from assms(2) Normal pc
  have "ev \<in> set (calls_of (Eip7702Test_step2 env c (world_of (Eip7702Test_step1 env w))))"
    by (simp add: Eip7702Test_body_def flow_bind flow_seq Eip7702Test_step1_flow(2) stops
        split: completion.splits)
  then show ?thesis
    by (rule Eip7702Test_step2_calls)
next
  case Return
  with assms(2) show ?thesis
    by (simp add: Eip7702Test_body_def flow_bind Eip7702Test_step1_flow(2))
next
  case (Throw e)
  with assms(2) show ?thesis
    by (simp add: Eip7702Test_body_def flow_bind Eip7702Test_step1_flow(2))
qed

lemma Eip7702Test_body_lastAuthorization_without_base:
  assumes "base_id \<notin> set (declared_chains env)" and "lastAuthorization w = None"
  shows "lastAuthorization (world_of (Eip7702Test_body env ca w)) = None"
proof (cases "lastAuthorization (world_of (Eip7702Test_body env ca w))")
  case None
  then show ?thesis .
next
  case (Some a)
  from Eip7702Test_body_signed [OF Some assms(2)]
  have "(SignerSignAuthorization (Eip7702Test_request ca), None)
      \<in> set (calls_of (Eip7702Test_body env ca w))"
    by blast
  from Eip7702Test_body_calls_without_base [OF assms(1) this] show ?thesis
    by simp
qed




section \<open>The stored authorization\<close>

text \<open>
  C10. In the direct-signing component a run does not depend on the authorization that
  an earlier run stored: it is cleared before the first step. When the result panel shows
  an authorization after a run, the signing call of this run, for the delegate contract
  of this run on Base, succeeded, and the authorization shown is the one that call
  returned. So when no signing call of the run succeeded, the panel shows nothing.
\<close>

theorem stored_authorization_is_of_this_run:
  "Eip7702Test_runTest env (w\<lparr>lastAuthorization := stale\<rparr>) = Eip7702Test_runTest env w \<and>
   (result_panel (final (Eip7702Test_runTest env w)) = Some a \<longrightarrow>
      (SignerSignAuthorization (Eip7702Test_request (contractAddress w)), None)
         \<in> set (calls (Eip7702Test_runTest env w)) \<and>
      (\<exists>pw c sg sign.
         primaryWallet env = Some pw \<and> connector pw = Some c \<and>
         getSigner c = Some (Inr (Some sg)) \<and> signAuthorization sg = Some sign \<and>
         sign (Eip7702Test_request (contractAddress w)) = Inr a)) \<and>
   ((SignerSignAuthorization (Eip7702Test_request (contractAddress w')), None)
       \<notin> set (calls (Eip7702Test_runTest env' w')) \<longrightarrow>
      result_panel (final (Eip7702Test_runTest env' w')) = None)"
proof -
  have signed: "(SignerSignAuthorization (Eip7702Test_request (contractAddress v)), None)
         \<in> set (calls (Eip7702Test_runTest e v)) \<and>
      (\<exists>pw c sg sign.
         primaryWallet e = Some pw \<and> connector pw = Some c \<and>
         getSigner c = Some (Inr (Some sg)) \<and> signAuthorization sg = Some sign \<and>
         sign (Eip7702Test_request (contractAddress v)) = Inr b)"
    if "result_panel (final (Eip7702Test_runTest e v)) = Some b"
    for e :: "'e ambient_scheme" and v b
  proof -
    let ?w0 = "setRunning True (setLastAuthorization None (setLogs [] v))"
    from that have "lastAuthorization (world_of (Eip7702Test_body e (contractAddress v) ?w0)) = Some b"
      by (simp add: result_panel_def Eip7702Test_runTest_lastAuthorization)
    moreover have "lastAuthorization ?w0 = None"
      by (simp add: setRunning_def setLastAuthorization_def)
    ultimately show ?thesis
      using Eip7702Test_body_signed [of e "contractAddress v" ?w0 b]
      by (simp add: Eip7702Test_runTest_calls)
  qed
  have "Eip7702Test_runTest env (w\<lparr>lastAuthorization := stale\<rparr>) = Eip7702Test_runTest env w"
    by (simp add: Eip7702Test_runTest_def setLastAuthorization_def setLogs_def)
  moreover have "result_panel (final (Eip7702Test_runTest env' w')) = None"
    if "(SignerSignAuthorization (Eip7702Test_request (contractAddress w')), None)
       \<notin> set (calls (Eip7702Test_runTest env' w'))"
  proof (cases "result_panel (final (Eip7702Test_runTest env' w'))")
    case None
    then show ?thesis .
  next
    case (Some b)
    from signed [OF Some] that show ?thesis
      by simp
  qed
  ultimately show ?thesis
    using signed [of env w a] by blast
qed

theorem stored_authorization_is_of_this_run_witness:
  "result_panel (final (Eip7702Test_runTest (example_ambient (Some (example_wallet [1, 8453])))
      initial_eip7702_world)) = Some example_authorization \<and>
   (SignerSignAuthorization (Eip7702Test_request (contractAddress initial_eip7702_world)), None)
      \<in> set (calls (Eip7702Test_runTest (example_ambient (Some (example_wallet [1, 8453])))
           initial_eip7702_world)) \<and>
   (SignerSignAuthorization (Eip7702Test_request (contractAddress initial_eip7702_world)), None)
      \<notin> set (calls (Eip7702Test_runTest (example_ambient None) initial_eip7702_world)) \<and>
   result_panel (final (Eip7702Test_runTest (example_ambient None) initial_eip7702_world)) = None"
proof -
  have h1: "result_panel (final (Eip7702Test_runTest
      (example_ambient (Some (example_wallet [1, 8453]))) initial_eip7702_world)) =
      Some example_authorization"
    by (simp add: result_panel_def Eip7702Test_runTest_lastAuthorization Eip7702Test_body_def
        Eip7702Test_step1_def Eip7702Test_step2_def Eip7702Test_step3_def Eip7702Test_step4_def
        Eip7702Test_step5_lastAuthorization Let_def flow world
        example_ambient_def example_wallet_def example_connector_def example_signer_def
        example_address_def base_id_def truthy_def)
  have h2: "(SignerSignAuthorization (Eip7702Test_request (contractAddress initial_eip7702_world)), None)
      \<notin> set (calls (Eip7702Test_runTest (example_ambient None) initial_eip7702_world))"
    by (simp add: Eip7702Test_runTest_calls Eip7702Test_body_def Eip7702Test_step1_def flow
        example_ambient_def)
  from stored_authorization_is_of_this_run
    [where env = "example_ambient (Some (example_wallet [1, 8453]))"
       and w = initial_eip7702_world and a = example_authorization
       and env' = "example_ambient None" and w' = initial_eip7702_world] h1 h2
  show ?thesis by blast
qed

end
